(* ===== verification/Prelude.thy ===== *)
theory Prelude
  imports Main "HOL-Library.Word" "HOL-Library.Sublist" "HOL-Library.Multiset"
begin

text \<open>
  Shared vocabulary of the development: the types that stand for Go's
  \<open>time.Time\<close>, \<open>int\<close> and \<open>error\<close>, the decimal rendering of numbers that
  \<open>fmt.Sprintf("%d")\<close> performs, the collections of simplification rules the
  component theories share, and generic lemmas on lists and maps.
\<close>

section \<open>Types of the model\<close>

text \<open>
  A Go \<open>time.Time\<close> is an instant with nanosecond resolution; the model
  keeps the instant as an integer count of nanoseconds, so that
  \<open>time.Since(t)\<close> read at instant \<open>now\<close> is \<open>now - t\<close>.
  Go's \<open>int\<close> is 64 bits wide on the platforms the service runs on, so
  counters are \<open>64 word\<close> values read with \<open>sint\<close>.
  A Go \<open>error\<close> is compared by the service through its \<open>Error()\<close> text,
  so an error is the string it prints.
\<close>

type_synonym time = int
type_synonym duration = int
type_synonym go_int = "64 word"
type_synonym error = string
type_synonym 'a result = "error + 'a"

named_theorems model_defs "constant definitions of the model unfolded by evaluation"

section \<open>Decimal rendering\<close>

text \<open>\<open>fmt.Sprintf("%d", n)\<close> for a non-negative number.\<close>

fun dec_string :: "nat \<Rightarrow> string" where
  "dec_string n =
     (if n < 10 then [char_of (48 + n)]
      else dec_string (n div 10) @ [char_of (48 + n mod 10)])"

declare dec_string.simps [simp del]

text \<open>\<open>strconv.Itoa\<close> and \<open>fmt.Sprintf("%d")\<close> for a signed number.\<close>

definition int_dec_string :: "int \<Rightarrow> string" where
  "int_dec_string i = (if i < 0 then CHR ''-'' # dec_string (nat (- i)) else dec_string (nat i))"

lemma dec_string_nonempty [simp]: "dec_string n \<noteq> []"
  by (subst dec_string.simps) simp

lemma dec_string_digits:
  "c \<in> set (dec_string m) \<Longrightarrow> (48::nat) \<le> of_char c \<and> of_char c \<le> (57::nat)"
proof (induction m rule: dec_string.induct)
  case (1 m)
  then show ?case by (cases "m < 10") (auto simp: dec_string.simps [of m])
qed

lemma dec_string_Cons_not_sign:
  assumes "dec_string m = c # rest" shows "c \<noteq> CHR ''+'' \<and> c \<noteq> CHR ''-''"
proof -
  from assms have "c \<in> set (dec_string m)" by simp
  then have "(48::nat) \<le> of_char c" by (rule dec_string_digits [THEN conjunct1])
  then show ?thesis by auto
qed

text \<open>Digits render as the characters \<open>0\<close>..\<open>9\<close>, and distinct numbers
  render as distinct strings (the row ids the repository hands out stay distinct).\<close>

lemma char_of_digits [simp]:
  "char_of (48::nat) = CHR ''0''" "char_of (49::nat) = CHR ''1''" "char_of (50::nat) = CHR ''2''"
  "char_of (51::nat) = CHR ''3''" "char_of (52::nat) = CHR ''4''" "char_of (53::nat) = CHR ''5''"
  "char_of (54::nat) = CHR ''6''" "char_of (55::nat) = CHR ''7''" "char_of (56::nat) = CHR ''8''"
  "char_of (57::nat) = CHR ''9''"
  by code_simp+

lemma char_of_digit_eq:
  assumes "m < (10::nat)" and "n < 10"
  shows "char_of (48 + m) = char_of (48 + n) \<longleftrightarrow> m = n"
proof
  assume "char_of (48 + m) = char_of (48 + n)"
  then have "of_char (char_of (48 + m)) = (of_char (char_of (48 + n)) :: nat)" by simp
  with assms show "m = n" by simp
qed simp

lemma dec_string_length_ge2: "10 \<le> n \<Longrightarrow> 2 \<le> length (dec_string n)"
  by (subst dec_string.simps) (simp add: Suc_le_eq)

lemma dec_string_inj [simp]: "dec_string m = dec_string n \<longleftrightarrow> m = n"
proof (induction m arbitrary: n rule: dec_string.induct)
  case (1 m)
  show ?case
  proof (cases "m < 10"; cases "n < 10")
    assume "m < 10" "n < 10"
    then show ?thesis
      by (auto simp: dec_string.simps [of m] dec_string.simps [of n] char_of_digit_eq)
  next
    assume "m < 10" "\<not> n < 10"
    with dec_string_length_ge2 [of n] show ?thesis by (auto simp: dec_string.simps [of m] dest: arg_cong [where f = length])
  next
    assume "\<not> m < 10" "n < 10"
    with dec_string_length_ge2 [of m] show ?thesis by (auto simp: dec_string.simps [of n] dest: arg_cong [where f = length])
  next
    assume m: "\<not> m < 10" and n: "\<not> n < 10"
    have "dec_string m = dec_string n \<longleftrightarrow>
          dec_string (m div 10) = dec_string (n div 10) \<and> m mod 10 = n mod 10"
      using m n by (auto simp: dec_string.simps [of m] dec_string.simps [of n] char_of_digit_eq)
    also have "\<dots> \<longleftrightarrow> m = n"
      using "1.IH" [OF m] by (metis div_mod_decomp)
    finally show ?thesis .
  qed
qed

section \<open>Generic lemmas on lists\<close>

lemma find_Some_in_set:
  "List.find P xs = Some x \<Longrightarrow> x \<in> set xs \<and> P x"
  by (induction xs) (auto split: if_splits)

lemma find_Some_ex_iff: "(\<exists>y. List.find P xs = Some y) \<longleftrightarrow> (\<exists>x\<in>set xs. P x)"
  by (metis find_None_iff not_None_eq)

lemma find_append_None:
  "List.find P xs = None \<Longrightarrow> List.find P (xs @ ys) = List.find P ys"
  by (induction xs) (auto split: if_splits)

lemma sorted_map_append_last:
  assumes "sorted (map f xs)" and "\<forall>x\<in>set xs. f x \<le> f y"
  shows "sorted (map f (xs @ [y]))"
  using assms by (simp add: sorted_append)

lemma take_length_eq_prefix: "take (length xs) ys = xs \<longleftrightarrow> prefix xs ys"
  by (metis append_eq_conv_conj prefix_def take_is_prefix)

lemma sublist_same_length_eq: "sublist xs ys \<Longrightarrow> length xs = length ys \<Longrightarrow> xs = ys"
  by (auto simp: sublist_def)

lemma sort_key_eq_Nil_iff: "sort_key f xs = [] \<longleftrightarrow> xs = []"
  by (metis length_0_conv length_sort)

lemma sort_key_filter_comm:
  "sort_key f (filter P xs) = filter P (sort_key f xs)"
  by (simp add: filter_sort)

end
