(* ===== verification/Models.thy ===== *)
theory Models
  imports Prelude
begin

text \<open>
  The data model of \<open>src/internal/repository/models.go\<close>: the \<open>Video\<close> and
  \<open>VideoStats\<close> structs as records, \<open>sql.NullString\<close> as a record, and the
  platform and state constants, which the Go code keeps as plain strings and
  compares as strings.
\<close>

section \<open>Records\<close>

text \<open>
  \<open>Video.ID\<close> and \<open>VideoStats.ID\<close> are strings, as in the code: the
  repository sets them to \<open>fmt.Sprintf("%d", id)\<close> of the SQLite row id, and
  a struct built by the service has the zero value \<open>""\<close>. \<open>CreatedAt\<close> is
  an instant.
\<close>

record video =
  v_ID :: string
  v_Platform :: string
  v_VideoID :: string
  v_InstagramUsername :: string
  v_State :: string
  v_CreatedAt :: time
  v_Tag :: string

record null_string =
  ns_String :: string
  ns_Valid :: bool

record video_stats =
  s_ID :: string
  s_VideoID :: string
  s_Timestamp :: time
  s_Views :: go_int
  s_Likes :: go_int
  s_Comments :: go_int
  s_Caption :: null_string
  s_Permalink :: null_string
  s_MediaType :: null_string
  s_MediaURL :: null_string

section \<open>Constants\<close>

definition PlatformYouTube :: string where [model_defs]: "PlatformYouTube = ''youtube''"
definition PlatformInstagram :: string where [model_defs]: "PlatformInstagram = ''instagram''"
definition StateRegistered :: string where [model_defs]: "StateRegistered = ''registered''"
definition StateArchived :: string where [model_defs]: "StateArchived = ''archived''"
definition StateError :: string where [model_defs]: "StateError = ''error''"

text \<open>The zero values Go gives to fields that a constructor leaves unset.\<close>

definition null_string_zero :: null_string where
  [model_defs]: "null_string_zero = \<lparr>ns_String = [], ns_Valid = False\<rparr>"

definition video_stats_zero :: video_stats where
  [model_defs]: "video_stats_zero =
     \<lparr>s_ID = [], s_VideoID = [], s_Timestamp = 0, s_Views = 0, s_Likes = 0, s_Comments = 0,
      s_Caption = null_string_zero, s_Permalink = null_string_zero,
      s_MediaType = null_string_zero, s_MediaURL = null_string_zero\<rparr>"

lemma platform_constants_differ [simp]:
  "PlatformYouTube \<noteq> PlatformInstagram" "PlatformInstagram \<noteq> PlatformYouTube"
  by (simp_all add: model_defs)

lemma state_constants_differ [simp]:
  "StateRegistered \<noteq> StateError" "StateError \<noteq> StateRegistered"
  "StateRegistered \<noteq> StateArchived" "StateArchived \<noteq> StateRegistered"
  "StateError \<noteq> StateArchived" "StateArchived \<noteq> StateError"
  by (simp_all add: model_defs)

end
