(* ===== verification/Repository.thy ===== *)
theory Repository
  imports Models
begin

text \<open>
  The SQLite repository of \<open>src/internal/repository/database.go\<close>. The two
  tables are lists of rows in row-id order, each with the counter that
  \<open>INTEGER PRIMARY KEY AUTOINCREMENT\<close> keeps; every method of the
  \<open>Repository\<close> interface is a function on that store. The
  \<open>UNIQUE(platform, video_id, instagram_username)\<close> constraint is the
  duplicate check of \<open>CreateVideo\<close>. I/O faults of the database driver are not
  modelled: the only failures are the ones the code or the schema raises.
\<close>

section \<open>State\<close>

record store =
  videos :: "video list"
  next_video_id :: nat
  stats_rows :: "video_stats list"
  next_stats_id :: nat

text \<open>The tables after \<open>createTables\<close> on a fresh database file.\<close>

definition empty_store :: store where
  [model_defs]: "empty_store =
     \<lparr>videos = [], next_video_id = 1, stats_rows = [], next_stats_id = 1\<rparr>"

text \<open>The columns of the \<open>UNIQUE\<close> constraint of the \<open>videos\<close> table.\<close>

definition video_key :: "video \<Rightarrow> string \<times> string \<times> string" where
  "video_key v = (v_Platform v, v_VideoID v, v_InstagramUsername v)"

text \<open>The error \<open>modernc.org/sqlite\<close> returns when an \<open>INSERT\<close> breaks that
  constraint: the text of the extended result code 2067
  (\<open>SQLITE_CONSTRAINT_UNIQUE\<close>), SQLite's message, and the code, as the
  driver's \<open>errstr\<close> formats them.\<close>

definition unique_violation :: error where
  [model_defs]: "unique_violation =
     ''constraint failed: UNIQUE constraint failed: videos.platform, videos.video_id, videos.instagram_username (2067)''"

section \<open>Video operations\<close>

text \<open>
  \<open>CreateVideo\<close>: the Instagram guard, then the \<open>INSERT\<close>, which the unique
  constraint rejects; on success the row gets the next row id and the creation
  instant, and the Go struct is updated with both (the id as its decimal text,
  \<open>fmt.Sprintf("%d", id)\<close>).
\<close>

definition CreateVideo :: "time \<Rightarrow> video \<Rightarrow> store \<Rightarrow> (video \<times> store) result" where
  "CreateVideo now video st =
     (if v_Platform video = PlatformInstagram \<and> v_InstagramUsername video = []
      then Inl ''instagram_username is required for Instagram videos''
      else if list_ex (\<lambda>w. video_key w = video_key video) (videos st)
      then Inl unique_violation
      else
        (let row = video\<lparr>v_ID := dec_string (next_video_id st), v_CreatedAt := now\<rparr>
         in Inr (row, st\<lparr>videos := videos st @ [row], next_video_id := Suc (next_video_id st)\<rparr>)))"

text \<open>\<open>GetContext\<close> returns the first matching row, \<open>nil\<close> when there is none.\<close>

definition GetVideo :: "store \<Rightarrow> string \<Rightarrow> string \<Rightarrow> video option" where
  "GetVideo st platform videoID =
     List.find (\<lambda>v. v_Platform v = platform \<and> v_VideoID v = videoID) (videos st)"

definition GetVideoWithUsername :: "store \<Rightarrow> string \<Rightarrow> string \<Rightarrow> string \<Rightarrow> video option" where
  "GetVideoWithUsername st platform videoID username =
     List.find (\<lambda>v. v_Platform v = platform \<and> v_VideoID v = videoID
                    \<and> v_InstagramUsername v = username) (videos st)"

definition GetAllVideos :: "store \<Rightarrow> video list" where
  "GetAllVideos st = filter (\<lambda>v. v_State v = StateRegistered) (videos st)"

text \<open>\<open>UPDATE videos SET state = ? WHERE video_id = ?\<close>: every row with that
  external id, whatever its platform and account.\<close>

definition UpdateVideoState :: "store \<Rightarrow> string \<Rightarrow> string \<Rightarrow> store" where
  "UpdateVideoState st videoID state =
     st\<lparr>videos := map (\<lambda>v. if v_VideoID v = videoID then v\<lparr>v_State := state\<rparr> else v) (videos st)\<rparr>"

section \<open>Stats operations\<close>

definition CreateVideoStats :: "video_stats \<Rightarrow> store \<Rightarrow> video_stats \<times> store" where
  "CreateVideoStats s st =
     (let row = s\<lparr>s_ID := dec_string (next_stats_id st)\<rparr>
      in (row, st\<lparr>stats_rows := stats_rows st @ [row], next_stats_id := Suc (next_stats_id st)\<rparr>))"

text \<open>
  \<open>WHERE video_id = ? AND timestamp BETWEEN ? AND ? ORDER BY timestamp\<close>:
  \<open>BETWEEN\<close> is inclusive at both ends; rows with equal timestamps keep the
  row-id order of the table scan, so the sort is the stable \<open>sort_key\<close>.
\<close>

definition in_window :: "time \<Rightarrow> time \<Rightarrow> video_stats \<Rightarrow> bool" where
  "in_window from to s \<longleftrightarrow> from \<le> s_Timestamp s \<and> s_Timestamp s \<le> to"

definition GetVideoStats :: "store \<Rightarrow> string \<Rightarrow> time \<Rightarrow> time \<Rightarrow> video_stats list" where
  "GetVideoStats st videoID from to =
     sort_key s_Timestamp
       (filter (\<lambda>s. s_VideoID s = videoID \<and> in_window from to s) (stats_rows st))"

text \<open>\<open>ORDER BY timestamp DESC LIMIT 1\<close>.\<close>

definition GetLatestStats :: "store \<Rightarrow> string \<Rightarrow> video_stats option" where
  "GetLatestStats st videoID =
     (case sort_key (\<lambda>s. - s_Timestamp s) (filter (\<lambda>s. s_VideoID s = videoID) (stats_rows st)) of
        [] \<Rightarrow> None
      | s # _ \<Rightarrow> Some s)"

section \<open>The substring helper of the migration\<close>

text \<open>
  \<open>contains(s, substr)\<close> decides whether \<open>substr\<close> occurs in \<open>s\<close> by comparing
  prefixes and recursing on \<open>s[1:]\<close>; the \<open>if\<close> chain is the short-circuit
  evaluation of its \<open>&&\<close> and \<open>||\<close>. The recursive call is made only when
  \<open>s\<close> is longer than \<open>substr\<close>, so \<open>s\<close> is not empty there and its length
  decreases.
\<close>

function contains :: "string \<Rightarrow> string \<Rightarrow> bool" where
  "contains s substr =
     (if length s < length substr then False
      else if s = substr then True
      else if length substr < length s
      then take (length substr) s = substr \<or> contains (tl s) substr
      else False)"
  by pat_completeness auto
termination
  by (relation "measure (\<lambda>(s, substr). length s)") auto

declare contains.simps [simp del]

section \<open>The well-formedness invariant of the tables\<close>

text \<open>
  What the schema and the code keep true of the tables: the unique key, row ids
  below the \<open>AUTOINCREMENT\<close> counters and pairwise distinct, and an account
  name on every Instagram row (the guard of \<open>CreateVideo\<close>).
\<close>

definition wf_store :: "store \<Rightarrow> bool" where
  "wf_store st \<longleftrightarrow>
     distinct (map video_key (videos st)) \<and>
     distinct (map v_ID (videos st)) \<and> set (map v_ID (videos st)) \<subseteq> dec_string ` {..<next_video_id st} \<and>
     distinct (map s_ID (stats_rows st)) \<and> set (map s_ID (stats_rows st)) \<subseteq> dec_string ` {..<next_stats_id st} \<and>
     list_all (\<lambda>v. v_Platform v = PlatformInstagram \<longrightarrow> v_InstagramUsername v \<noteq> []) (videos st)"

section \<open>A small stats table\<close>

text \<open>Three snapshots: two of video \<open>v\<close>, inserted out of time order, and
  one of video \<open>w\<close>.\<close>

definition demo_stats_store :: store where
  "demo_stats_store =
     empty_store\<lparr>stats_rows :=
       [video_stats_zero\<lparr>s_ID := ''1'', s_VideoID := ''v'', s_Timestamp := 15, s_Views := 7\<rparr>,
        video_stats_zero\<lparr>s_ID := ''2'', s_VideoID := ''w'', s_Timestamp := 10\<rparr>,
        video_stats_zero\<lparr>s_ID := ''3'', s_VideoID := ''v'', s_Timestamp := 5, s_Views := 3\<rparr>],
       next_stats_id := 4\<rparr>"

section \<open>Properties\<close>

subsection \<open>The substring helper decides \<open>sublist\<close>\<close>

lemma contains_sublist: "contains s substr \<longleftrightarrow> sublist substr s"
proof (induction s substr rule: contains.induct)
  case (1 s substr)
  show ?case
  proof (cases "length substr < length s \<and> s \<noteq> substr")
    case True
    then obtain c s' where s: "s = c # s'" by (cases s) auto
    from True have "contains s substr \<longleftrightarrow> take (length substr) s = substr \<or> contains (tl s) substr"
      by (simp add: contains.simps [of s substr])
    also have "\<dots> \<longleftrightarrow> prefix substr s \<or> sublist substr s'"
      using "1.IH" True s by (simp add: take_length_eq_prefix)
    also have "\<dots> \<longleftrightarrow> sublist substr s"
      using s by (simp add: sublist_Cons_right)
    finally show ?thesis .
  next
    case False
    then show ?thesis
      using sublist_length_le [of substr s] sublist_same_length_eq [of substr s]
      by (auto simp: contains.simps [of s substr])
  qed
qed

text \<open>C31: the hand-written recursive \<open>contains\<close> of the migration code is
  exactly the library's contiguous-sublist test, for all strings.\<close>

theorem contains_iff_sublist: "contains s substr \<longleftrightarrow> sublist substr s"
  by (rule contains_sublist)

subsection \<open>The invariant is kept by every writing operation\<close>

lemma CreateVideo_Inr:
  "CreateVideo now v st = Inr (v', st') \<longleftrightarrow>
     \<not> (v_Platform v = PlatformInstagram \<and> v_InstagramUsername v = []) \<and>
     \<not> list_ex (\<lambda>w. video_key w = video_key v) (videos st) \<and>
     v' = v\<lparr>v_ID := dec_string (next_video_id st), v_CreatedAt := now\<rparr> \<and>
     st' = st\<lparr>videos := videos st @ [v'], next_video_id := Suc (next_video_id st)\<rparr>"
  by (auto simp: CreateVideo_def Let_def)

lemma snd_CreateVideoStats [simp]:
  "snd (CreateVideoStats s st) =
     st\<lparr>stats_rows := stats_rows st @ [s\<lparr>s_ID := dec_string (next_stats_id st)\<rparr>], next_stats_id := Suc (next_stats_id st)\<rparr>"
  by (simp add: CreateVideoStats_def Let_def)

lemma CreateVideo_Inr_row:
  assumes "CreateVideo now v st = Inr (v', st')"
  shows "v' \<in> set (videos st') \<and> v_Platform v' = v_Platform v \<and> v_VideoID v' = v_VideoID v \<and>
         v_InstagramUsername v' = v_InstagramUsername v \<and> v_State v' = v_State v"
  using assms by (auto simp: CreateVideo_Inr)

lemma CreateVideo_Inl:
  "CreateVideo now v st = Inl e \<Longrightarrow>
     e = ''instagram_username is required for Instagram videos'' \<or> e = unique_violation"
  by (auto simp: CreateVideo_def Let_def split: if_splits)

lemma video_key_update [simp]:
  "video_key (v\<lparr>v_ID := i, v_CreatedAt := t\<rparr>) = video_key v"
  "video_key (v\<lparr>v_State := s\<rparr>) = video_key v"
  by (simp_all add: video_key_def)

lemma CreateVideo_wf:
  assumes "CreateVideo now v st = Inr (v', st')" and "wf_store st"
  shows "wf_store st'"
proof -
  from assms(1) have new: "\<not> list_ex (\<lambda>w. video_key w = video_key v) (videos st)"
    and ig: "\<not> (v_Platform v = PlatformInstagram \<and> v_InstagramUsername v = [])"
    and v': "v' = v\<lparr>v_ID := dec_string (next_video_id st), v_CreatedAt := now\<rparr>"
    and st': "st' = st\<lparr>videos := videos st @ [v'], next_video_id := Suc (next_video_id st)\<rparr>"
    by (simp_all add: CreateVideo_Inr)
  from new have "video_key v \<notin> set (map video_key (videos st))"
    by (auto simp: list_ex_iff)
  moreover from assms(2) have "dec_string (next_video_id st) \<notin> set (map v_ID (videos st))"
    by (auto simp: wf_store_def list_all_iff)
  ultimately show ?thesis
    using assms(2) ig by (auto simp: wf_store_def list_all_iff st' v')
qed

lemma keys_set_state [simp]:
  "video_key \<circ> (\<lambda>v. if P v then v\<lparr>v_State := s\<rparr> else v) = video_key"
  "v_ID \<circ> (\<lambda>v. if P v then v\<lparr>v_State := s\<rparr> else v) = v_ID"
  by (auto simp: video_key_def)

lemma UpdateVideoState_wf:
  "wf_store st \<Longrightarrow> wf_store (UpdateVideoState st vid s)"
  by (auto simp: wf_store_def list_all_iff UpdateVideoState_def)

lemma CreateVideoStats_wf:
  "wf_store st \<Longrightarrow> wf_store (snd (CreateVideoStats s st))"
  by (auto simp: wf_store_def list_all_iff CreateVideoStats_def Let_def)

text \<open>The stats query returns its rows in ascending capture time.\<close>

theorem GetVideoStats_sorted: "sorted (map s_Timestamp (GetVideoStats st vid from to))"
  by (simp add: GetVideoStats_def)

text \<open>The stats query returns exactly the rows of the video in the window, each once: a permutation of the filtered table.\<close>

theorem GetVideoStats_mset:
  "mset (GetVideoStats st vid from to) =
     mset (filter (\<lambda>s. s_VideoID s = vid \<and> in_window from to s) (stats_rows st))"
  by (simp add: GetVideoStats_def)

text \<open>Restricting the query window to a sub-range gives the rows of the wider query that lie in the sub-range, in the same order.\<close>

theorem GetVideoStats_subrange:
  assumes "from \<le> a" and "b \<le> to"
  shows "GetVideoStats st vid a b = filter (in_window a b) (GetVideoStats st vid from to)"
proof -
  have "(\<lambda>s. s_VideoID s = vid \<and> in_window from to s \<and> in_window a b s) =
        (\<lambda>s. s_VideoID s = vid \<and> in_window a b s)"
    using assms by (auto simp: in_window_def)
  then show ?thesis
    by (simp add: GetVideoStats_def filter_sort filter_filter)
qed

text \<open>The latest-stats query returns a row of the video with the greatest timestamp among its rows.\<close>

theorem GetLatestStats_Some:
  assumes "GetLatestStats st vid = Some s"
  shows "s \<in> set (stats_rows st) \<and> s_VideoID s = vid \<and>
         list_all (\<lambda>s'. s_VideoID s' = vid \<longrightarrow> s_Timestamp s' \<le> s_Timestamp s) (stats_rows st)"
proof -
  let ?xs = "sort_key (\<lambda>s. - s_Timestamp s) (filter (\<lambda>s. s_VideoID s = vid) (stats_rows st))"
  from assms obtain rest where xs: "?xs = s # rest"
    by (auto simp: GetLatestStats_def split: list.splits)
  have "sorted (map (\<lambda>s. - s_Timestamp s) ?xs)" by simp
  with xs have "\<forall>s'\<in>set rest. s_Timestamp s' \<le> s_Timestamp s" by simp
  moreover have "set ?xs = {s' \<in> set (stats_rows st). s_VideoID s' = vid}" by simp
  ultimately show ?thesis using xs by (auto simp: list_all_iff)
qed

lemma GetLatestStats_None:
  "GetLatestStats st vid = None \<longleftrightarrow> \<not> list_ex (\<lambda>s. s_VideoID s = vid) (stats_rows st)"
proof -
  have "GetLatestStats st vid = None \<longleftrightarrow> filter (\<lambda>s. s_VideoID s = vid) (stats_rows st) = []"
    by (auto simp: GetLatestStats_def sort_key_eq_Nil_iff split: list.split)
  then show ?thesis by (simp add: filter_empty_conv list_ex_iff)
qed

lemma CreateVideo_GetVideoWithUsername:
  assumes "CreateVideo now v st = Inr (v', st')"
  shows "GetVideoWithUsername st' (v_Platform v) (v_VideoID v) (v_InstagramUsername v) = Some v'"
proof -
  from assms have new: "\<not> list_ex (\<lambda>w. video_key w = video_key v) (videos st)"
    and v': "v' = v\<lparr>v_ID := dec_string (next_video_id st), v_CreatedAt := now\<rparr>"
    and st': "st' = st\<lparr>videos := videos st @ [v'], next_video_id := Suc (next_video_id st)\<rparr>"
    by (simp_all add: CreateVideo_Inr)
  let ?P = "\<lambda>w. v_Platform w = v_Platform v \<and> v_VideoID w = v_VideoID v \<and> v_InstagramUsername w = v_InstagramUsername v"
  from new have "List.find ?P (videos st) = None"
    by (auto simp: find_None_iff list_ex_iff video_key_def)
  then show ?thesis
    by (simp add: GetVideoWithUsername_def st' find_append_None v')
qed

text \<open>C22: marking an external id as error removes from the baseline sweep every row with that id, whatever its platform or account: the update is keyed by the external id alone.\<close>

theorem GetAllVideos_UpdateVideoState_error:
  "GetAllVideos (UpdateVideoState st vid StateError) =
     filter (\<lambda>v. v_VideoID v \<noteq> vid) (GetAllVideos st)"
proof -
  have "filter (\<lambda>v. v_State v = StateRegistered)
          (map (\<lambda>v. if v_VideoID v = vid then v\<lparr>v_State := StateError\<rparr> else v) xs) =
        filter (\<lambda>v. v_State v = StateRegistered \<and> v_VideoID v \<noteq> vid) xs" for xs
    by (induction xs) auto
  then show ?thesis by (simp add: GetAllVideos_def UpdateVideoState_def filter_filter)
qed

subsection \<open>Examples\<close>

theorem GetVideoStats_subrange_witness:
  "(0::int) \<le> 10 \<and> (20::int) \<le> 100 \<and>
   map s_ID (GetVideoStats demo_stats_store ''v'' 10 20) = [''1''] \<and>
   GetVideoStats demo_stats_store ''v'' 10 20 =
     filter (in_window 10 20) (GetVideoStats demo_stats_store ''v'' 0 100)"
proof -
  have "GetVideoStats demo_stats_store ''v'' 10 20 =
          filter (in_window 10 20) (GetVideoStats demo_stats_store ''v'' 0 100)"
    by (rule GetVideoStats_subrange) simp_all
  moreover have "map s_ID (GetVideoStats demo_stats_store ''v'' 10 20) = [''1'']"
    by (simp add: GetVideoStats_def demo_stats_store_def in_window_def model_defs)
  ultimately show ?thesis by simp
qed

theorem GetLatestStats_Some_witness:
  "GetLatestStats demo_stats_store ''v'' = Some (hd (stats_rows demo_stats_store)) \<and>
   list_all (\<lambda>s'. s_VideoID s' = ''v'' \<longrightarrow> s_Timestamp s' \<le> 15) (stats_rows demo_stats_store)"
proof -
  have h: "GetLatestStats demo_stats_store ''v'' = Some (hd (stats_rows demo_stats_store))"
    by (simp add: GetLatestStats_def demo_stats_store_def model_defs)
  have "s_Timestamp (hd (stats_rows demo_stats_store)) = 15"
    by (simp add: demo_stats_store_def)
  with GetLatestStats_Some [OF h] h show ?thesis by simp
qed

end
