(* ===== verification/Platform.thy ===== *)
theory Platform
  imports Models
begin

text \<open>
  The two platform clients of \<open>src/internal/platform/\<close>. What the clients
  do with a response is modelled from the source; what lies outside the
  repository is an interface record \<open>net\<close>: the HTTP round trip of
  \<open>http.NewRequestWithContext\<close> and \<open>client.Do\<close>, and the JSON decoders of
  \<open>encoding/json\<close> into the response structs. \<open>strconv.Atoi\<close>, which the
  YouTube client applies to the counts, is modelled after the Go library's
  \<open>ParseInt\<close> loop, because its clamping on overflow decides the stored value.
\<close>

section \<open>The outside world of the clients\<close>

record http_response =
  StatusCode :: nat
  Body :: string

text \<open>One entry of the \<open>items\<close> array of \<open>YouTubeResponse\<close>.\<close>

record yt_statistics =
  ViewCount :: string
  LikeCount :: string

record instagram_media =
  im_ID :: string
  im_LikeCount :: go_int
  im_CommentsCount :: go_int
  im_Caption :: string
  im_MediaURL :: string
  im_Timestamp :: string
  im_Permalink :: string
  im_MediaType :: string

text \<open>\<open>BusinessDiscoveryResponse\<close>: the code reads only the nested field
  \<open>BusinessDiscovery.Media.Data\<close>; a body without it decodes to the zero
  value, an empty list.\<close>

record business_discovery_response =
  bd_MediaData :: "instagram_media list"

record net =
  http_get :: "string \<Rightarrow> http_response result"
  decode_youtube :: "string \<Rightarrow> yt_statistics list result"
  decode_discovery :: "string \<Rightarrow> business_discovery_response result"

section \<open>strconv.Atoi\<close>

datatype num_error = ErrSyntax | ErrRange

definition uint64_max :: nat where [model_defs]: "uint64_max = 2 ^ 64 - 1"

text \<open>\<open>cutoff\<close> of \<open>ParseUint\<close> for base 10: the least value whose product with
  10 overflows.\<close>

definition uint64_cutoff :: nat where [model_defs]: "uint64_cutoff = uint64_max div 10 + 1"

text \<open>The digit loop of \<open>ParseUint(s, 10, 64)\<close>: a non-digit is a syntax error,
  an overflow returns at once with a range error, before later characters are
  looked at.\<close>

fun parse_uint10 :: "nat \<Rightarrow> string \<Rightarrow> num_error + nat" where
  "parse_uint10 n [] = Inr n"
| "parse_uint10 n (c # cs) =
     (if of_char c < (48::nat) \<or> (57::nat) < of_char c then Inl ErrSyntax
      else if uint64_cutoff \<le> n then Inl ErrRange
      else (let n1 = n * 10 + (of_char c - 48)
            in if uint64_max < n1 then Inl ErrRange else parse_uint10 n1 cs))"

text \<open>\<open>ParseUint\<close> rejects the empty string before the loop.\<close>

definition ParseUint10 :: "string \<Rightarrow> num_error + nat" where
  "ParseUint10 s = (if s = [] then Inl ErrSyntax else parse_uint10 0 s)"

text \<open>
  \<open>ParseInt(s, 10, 64)\<close> strips one sign, lets a range error of
  \<open>ParseUint\<close> through with the maximal value, and clamps to the \<open>int64\<close>
  range; \<open>Atoi\<close> returns that value (0 on a syntax error). The fast path of
  \<open>Atoi\<close> for strings shorter than 19 bytes computes the same value.
\<close>

definition ParseInt10 :: "string \<Rightarrow> int" where
  "ParseInt10 s =
     (case s of
        [] \<Rightarrow> 0
      | c # rest \<Rightarrow>
          (let (neg, ds) = (if c = CHR ''+'' then (False, rest)
                            else if c = CHR ''-'' then (True, rest) else (False, s))
           in case ParseUint10 ds of
                Inl ErrSyntax \<Rightarrow> 0
              | r \<Rightarrow>
                  (let un = (case r of Inr n \<Rightarrow> n | Inl _ \<Rightarrow> uint64_max)
                   in if \<not> neg \<and> 2 ^ 63 \<le> un then 2 ^ 63 - 1
                      else if neg \<and> 2 ^ 63 < un then - (2 ^ 63)
                      else if neg then - int un else int un)))"

definition Atoi :: "string \<Rightarrow> go_int" where
  "Atoi s = word_of_int (ParseInt10 s)"

section \<open>YouTube client\<close>

record youtube_client =
  yt_apiKey :: string

definition youtube_url :: "youtube_client \<Rightarrow> string \<Rightarrow> string" where
  "youtube_url y videoID =
     ''https://www.googleapis.com/youtube/v3/videos?part=statistics&id='' @ videoID @
     ''&key='' @ yt_apiKey y"

text \<open>
  \<open>YouTubeClient.GetVideoStats\<close>: transport and decoding errors are
  returned as they are; the status code of the response is never looked at;
  an empty \<open>items\<close> array is ``video not found''; otherwise the first item's
  counts go through \<open>Atoi\<close>, whose error is discarded.
\<close>

definition yt_GetVideoStats :: "net \<Rightarrow> youtube_client \<Rightarrow> string \<Rightarrow> video_stats result" where
  "yt_GetVideoStats nt y videoID =
     (case http_get nt (youtube_url y videoID) of
        Inl e \<Rightarrow> Inl e
      | Inr resp \<Rightarrow>
          (case decode_youtube nt (Body resp) of
             Inl e \<Rightarrow> Inl e
           | Inr items \<Rightarrow>
               (case items of
                  [] \<Rightarrow> Inl (''video not found: '' @ videoID)
                | it # _ \<Rightarrow>
                    Inr (video_stats_zero\<lparr>s_VideoID := videoID,
                           s_Views := Atoi (ViewCount it), s_Likes := Atoi (LikeCount it)\<rparr>))))"

section \<open>Instagram client\<close>

record instagram_client =
  ig_accessToken :: string
  ig_instagramID :: string

definition discovery_url :: "instagram_client \<Rightarrow> string \<Rightarrow> string" where
  "discovery_url c username =
     ''https://graph.facebook.com/v23.0/'' @ ig_instagramID c @
     ''?fields=business_discovery.username('' @ username @
     ''){media{id,like_count,comments_count,caption,media_url,timestamp,permalink,media_type}}&access_token='' @
     ig_accessToken c"

text \<open>\<open>getAllUserMedia\<close>: transport errors as they are, a status other than 200
  with the body in the message, and a decoding error wrapped.\<close>

definition getAllUserMedia :: "net \<Rightarrow> instagram_client \<Rightarrow> string \<Rightarrow> instagram_media list result" where
  "getAllUserMedia nt c username =
     (case http_get nt (discovery_url c username) of
        Inl e \<Rightarrow> Inl e
      | Inr resp \<Rightarrow>
          (if StatusCode resp \<noteq> 200
           then Inl (''instagram API error '' @ dec_string (StatusCode resp) @ '': '' @ Body resp)
           else (case decode_discovery nt (Body resp) of
                   Inl e \<Rightarrow> Inl (''failed to parse Instagram response: '' @ e)
                 | Inr discoveryResp \<Rightarrow> Inr (bd_MediaData discoveryResp))))"

definition toNullString :: "string \<Rightarrow> null_string" where
  "toNullString s =
     (if s = [] then \<lparr>ns_String = [], ns_Valid = False\<rparr> else \<lparr>ns_String = s, ns_Valid = True\<rparr>)"

text \<open>Likes plus comments, a wrapping \<open>int\<close> sum, raised to 1 when it is 0.\<close>

definition engagement :: "instagram_media \<Rightarrow> go_int" where
  "engagement m =
     (let e = im_LikeCount m + im_CommentsCount m in if e = 0 then 1 else e)"

definition ig_GetVideoStats ::
  "net \<Rightarrow> instagram_client \<Rightarrow> string \<Rightarrow> string \<Rightarrow> video_stats result" where
  "ig_GetVideoStats nt c username videoID =
     (case getAllUserMedia nt c username of
        Inl e \<Rightarrow> Inl (''failed to get user media: '' @ e)
      | Inr allMedia \<Rightarrow>
          (case List.find (\<lambda>m. im_ID m = videoID) allMedia of
             None \<Rightarrow> Inl (''instagram post not found: '' @ videoID @ '' for user '' @ username)
           | Some m \<Rightarrow>
               Inr (video_stats_zero\<lparr>s_VideoID := videoID, s_Views := engagement m,
                      s_Likes := im_LikeCount m, s_Comments := im_CommentsCount m,
                      s_Caption := toNullString (im_Caption m),
                      s_Permalink := toNullString (im_Permalink m),
                      s_MediaType := toNullString (im_MediaType m),
                      s_MediaURL := toNullString (im_MediaURL m)\<rparr>)))"

definition GetMediaDetails ::
  "net \<Rightarrow> instagram_client \<Rightarrow> string \<Rightarrow> string \<Rightarrow> instagram_media result" where
  "GetMediaDetails nt c username videoID =
     (case getAllUserMedia nt c username of
        Inl e \<Rightarrow> Inl e
      | Inr allMedia \<Rightarrow>
          (case List.find (\<lambda>m. im_ID m = videoID) allMedia of
             None \<Rightarrow> Inl (''media not found: '' @ videoID @ '' for user '' @ username)
           | Some m \<Rightarrow> Inr m))"


section \<open>Test doubles of the platforms\<close>

text \<open>A YouTube API that answers every request with one item of the given
  counts, and whose Instagram account has no media; an API that answers with an
  error response (HTTP 403, as on an exhausted quota) whose body decodes to no
  items; and a transport that fails with the given message.\<close>

definition yt_net :: "string \<Rightarrow> string \<Rightarrow> net" where
  "yt_net views likes =
     \<lparr>http_get = (\<lambda>url. Inr \<lparr>StatusCode = 200, Body = ''{}''\<rparr>),
      decode_youtube = (\<lambda>b. Inr [\<lparr>ViewCount = views, LikeCount = likes\<rparr>]),
      decode_discovery = (\<lambda>b. Inr \<lparr>bd_MediaData = []\<rparr>)\<rparr>"

definition quota_exceeded_net :: net where
  "quota_exceeded_net =
     \<lparr>http_get = (\<lambda>url. Inr \<lparr>StatusCode = 403, Body = ''quotaExceeded''\<rparr>),
      decode_youtube = (\<lambda>b. Inr []),
      decode_discovery = (\<lambda>b. Inl ''unexpected end of JSON input'')\<rparr>"

definition transport_error_net :: "string \<Rightarrow> net" where
  "transport_error_net msg =
     \<lparr>http_get = (\<lambda>url. Inl msg), decode_youtube = (\<lambda>b. Inr []), decode_discovery = (\<lambda>b. Inr \<lparr>bd_MediaData = []\<rparr>)\<rparr>"

section \<open>Properties\<close>

subsection \<open>Atoi: range, clamping and the decimal round trip\<close>

lemma ParseInt10_bounds: "- (2 ^ 63) \<le> ParseInt10 s \<and> ParseInt10 s < 2 ^ 63"
  by (auto simp: ParseInt10_def Let_def split: list.splits sum.splits num_error.splits if_splits prod.splits)

lemma sint_Atoi: "sint (Atoi s) = ParseInt10 s"
  using ParseInt10_bounds [of s]
  by (simp add: Atoi_def sint_sbintrunc' signed_take_bit_int_eq_self)

text \<open>A count beyond the \<open>int64\<close> range is clamped, and a range error is
  reported before trailing garbage is seen, so such a string is not read as 0.\<close>

lemma Atoi_clamps:
  "ParseInt10 ''99999999999999999999x'' = 9223372036854775807"
  "ParseInt10 ''-99999999999999999999'' = -9223372036854775808"
  "ParseInt10 ''12a'' = 0"
  by (simp_all add: ParseInt10_def ParseUint10_def model_defs)

lemma parse_uint10_append:
  "parse_uint10 n (xs @ ys) = (case parse_uint10 n xs of Inl e \<Rightarrow> Inl e | Inr k \<Rightarrow> parse_uint10 k ys)"
  by (induction n xs rule: parse_uint10.induct) (auto simp: Let_def)

lemma parse_uint10_dec_string: "m \<le> uint64_max \<Longrightarrow> parse_uint10 0 (dec_string m) = Inr m"
proof (induction m rule: dec_string.induct)
  case (1 m)
  show ?case
  proof (cases "m < 10")
    case True
    then show ?thesis by (simp add: dec_string.simps [of m] model_defs)
  next
    case False
    have "m div 10 \<le> uint64_max" using "1.prems" by simp
    with False "1.IH" have ih: "parse_uint10 0 (dec_string (m div 10)) = Inr (m div 10)" by simp
    have "m div 10 < uint64_cutoff" using "1.prems" by (simp add: uint64_cutoff_def) 
    with False "1.prems" show ?thesis
      by (simp add: dec_string.simps [of m] parse_uint10_append ih Let_def)
  qed
qed

lemma ParseUint10_dec_string: "m \<le> uint64_max \<Longrightarrow> ParseUint10 (dec_string m) = Inr m"
  by (simp add: ParseUint10_def parse_uint10_dec_string)

lemma ParseInt10_dec_string: "m < 2 ^ 63 \<Longrightarrow> ParseInt10 (dec_string m) = int m"
proof -
  assume m: "m < 2 ^ 63"
  obtain c rest where s: "dec_string m = c # rest" by (cases "dec_string m") auto
  from m have "ParseUint10 (dec_string m) = Inr m"
    by (simp add: ParseUint10_dec_string uint64_max_def)
  with s m dec_string_Cons_not_sign [OF s] show ?thesis
    by (simp add: ParseInt10_def)
qed

lemma ParseInt10_neg_dec_string: "m \<le> 2 ^ 63 \<Longrightarrow> ParseInt10 (CHR ''-'' # dec_string m) = - int m"
proof -
  assume m: "m \<le> 2 ^ 63"
  then have "ParseUint10 (dec_string m) = Inr m"
    by (simp add: ParseUint10_dec_string uint64_max_def)
  with m show ?thesis by (simp add: ParseInt10_def)
qed

text \<open>C28: \<open>Atoi\<close> reads back every \<open>int64\<close> from its decimal rendering,
  as the YouTube API sends counts: the conversion loses nothing in range.\<close>

theorem Atoi_int_dec_string: "Atoi (int_dec_string (sint w)) = w"
proof -
  have lo: "- (2 ^ 63) \<le> sint w" and hi: "sint w < 2 ^ 63"
    using sint_ge [of w] sint_lt [of w] by simp_all
  have "ParseInt10 (int_dec_string (sint w)) = sint w"
  proof (cases "sint w < 0")
    case True
    with lo have "nat (- sint w) \<le> 2 ^ 63" by (simp add: nat_le_iff)
    with True show ?thesis by (simp add: int_dec_string_def ParseInt10_neg_dec_string)
  next
    case False
    with hi have "nat (sint w) < 2 ^ 63" by (simp add: nat_less_iff)
    with False show ?thesis by (simp add: int_dec_string_def ParseInt10_dec_string)
  qed
  then show ?thesis by (simp add: Atoi_def)
qed

subsection \<open>The Instagram engagement sum\<close>

text \<open>C29: without overflow, the \<open>Views\<close> proxy of an Instagram post is likes
  plus comments, and at least 1.\<close>

theorem engagement_no_overflow:
  assumes "0 \<le> sint (im_LikeCount m)" and "0 \<le> sint (im_CommentsCount m)"
    and "sint (im_LikeCount m) + sint (im_CommentsCount m) < 2 ^ 63"
  shows "sint (engagement m) = max 1 (sint (im_LikeCount m) + sint (im_CommentsCount m))"
proof -
  let ?s = "sint (im_LikeCount m) + sint (im_CommentsCount m)"
  have sum: "sint (im_LikeCount m + im_CommentsCount m) = ?s"
    using assms by (simp add: sint_word_add signed_take_bit_int_eq_self)
  show ?thesis
  proof (cases "im_LikeCount m + im_CommentsCount m = 0")
    case True
    then have "?s = 0" using sum by simp
    with True show ?thesis by (simp add: engagement_def)
  next
    case False
    then have "sint (im_LikeCount m + im_CommentsCount m) \<noteq> 0"
      by (metis sint_0 signed_word_eqI)
    with sum assms(1,2) have "1 \<le> ?s" by linarith
    with False sum show ?thesis by (simp add: engagement_def)
  qed
qed

lemma sint_add_wrap:
  fixes a b :: go_int
  assumes "0 \<le> sint a" and "0 \<le> sint b" and "2 ^ 63 \<le> sint a + sint b"
  shows "sint (a + b) = sint a + sint b - 2 ^ 64"
proof -
  have hi: "sint a + sint b < 2 ^ 64"
    using sint_lt [of a] sint_lt [of b] by simp
  have "sint (a + b) = signed_take_bit 63 (sint a + sint b)"
    by (simp add: sint_word_add)
  also have "\<dots> = take_bit 64 (sint a + sint b + 2 ^ 63) - 2 ^ 63"
    by (simp add: signed_take_bit_eq_take_bit_shift)
  also have "take_bit 64 (sint a + sint b + 2 ^ 63) = sint a + sint b + 2 ^ 63 - 2 ^ 64"
    using assms hi by (simp add: take_bit_eq_mod mod_pos_geq)
  finally show ?thesis by simp
qed

text \<open>C30: the sum is a wrapping \<open>int\<close> addition: when likes plus comments
  reach \<open>2^63\<close>, the \<open>Views\<close> proxy is that sum less \<open>2^64\<close>, a negative
  number.\<close>

theorem engagement_wraps:
  assumes "0 \<le> sint (im_LikeCount m)" and "0 \<le> sint (im_CommentsCount m)"
    and "2 ^ 63 \<le> sint (im_LikeCount m) + sint (im_CommentsCount m)"
  shows "sint (engagement m) = sint (im_LikeCount m) + sint (im_CommentsCount m) - 2 ^ 64"
proof -
  have s: "sint (im_LikeCount m + im_CommentsCount m) =
           sint (im_LikeCount m) + sint (im_CommentsCount m) - 2 ^ 64"
    using assms by (rule sint_add_wrap)
  then have "im_LikeCount m + im_CommentsCount m \<noteq> 0"
    using assms sint_lt [of "im_LikeCount m"] sint_lt [of "im_CommentsCount m"] by auto
  with s show ?thesis by (simp add: engagement_def)
qed

subsection \<open>Error results of the clients\<close>

lemma ig_GetVideoStats_Inl:
  "ig_GetVideoStats nt c u vid = Inl e \<Longrightarrow>
     (\<exists>r. e = ''failed to get user media: '' @ r) \<or> e = ''instagram post not found: '' @ vid @ '' for user '' @ u"
  by (auto simp: ig_GetVideoStats_def split: sum.splits option.splits)

subsection \<open>Examples\<close>

theorem engagement_no_overflow_witness:
  "sint (engagement \<lparr>im_ID = ''p'', im_LikeCount = 10, im_CommentsCount = 5, im_Caption = [],
      im_MediaURL = [], im_Timestamp = [], im_Permalink = [], im_MediaType = []\<rparr>) = 15"
proof -
  let ?m = "\<lparr>im_ID = ''p'', im_LikeCount = 10, im_CommentsCount = 5, im_Caption = [],
      im_MediaURL = [], im_Timestamp = [], im_Permalink = [], im_MediaType = []\<rparr> :: instagram_media"
  have "sint (engagement ?m) = max 1 (sint (im_LikeCount ?m) + sint (im_CommentsCount ?m))"
    by (rule engagement_no_overflow) simp_all
  then show ?thesis by simp
qed

theorem engagement_wraps_witness:
  "sint (engagement \<lparr>im_ID = ''p'', im_LikeCount = 2 ^ 62, im_CommentsCount = 2 ^ 62,
      im_Caption = [], im_MediaURL = [], im_Timestamp = [], im_Permalink = [],
      im_MediaType = []\<rparr>) = - (2 ^ 63)"
proof -
  let ?m = "\<lparr>im_ID = ''p'', im_LikeCount = 2 ^ 62, im_CommentsCount = 2 ^ 62,
      im_Caption = [], im_MediaURL = [], im_Timestamp = [], im_Permalink = [],
      im_MediaType = []\<rparr> :: instagram_media"
  have "sint (engagement ?m) = sint (im_LikeCount ?m) + sint (im_CommentsCount ?m) - 2 ^ 64"
    by (rule engagement_wraps) simp_all
  then show ?thesis by simp
qed

end
