(* ===== verification/Service.thy ===== *)
theory Service
  imports Repository Platform
begin

text \<open>
  The \<open>videoService\<close> of \<open>src/internal/service/service.go\<close>: registration of
  a video (the registration gate of the spec) and one fetch-and-persist of a
  tracked video (the ingestion coordinator). The service holds the two
  platform clients; the repository it writes is the explicit \<open>store\<close>, the
  network the clients use is the \<open>net\<close> interface, and \<open>time.Now()\<close> is the
  instant \<open>now\<close> passed in. A registration either fails, leaving the store as it
  was, or returns the new store; an ingestion returns its error result
  together with the store, because it may write the store before it fails.
\<close>

section \<open>State\<close>

record video_service =
  youtubeClient :: youtube_client
  instagramClient :: instagram_client

definition NewService :: "string \<Rightarrow> string \<Rightarrow> string \<Rightarrow> video_service" where
  "NewService youtubeAPIKey instagramToken instagramID =
     \<lparr>youtubeClient = \<lparr>yt_apiKey = youtubeAPIKey\<rparr>,
      instagramClient = \<lparr>ig_accessToken = instagramToken, ig_instagramID = instagramID\<rparr>\<rparr>"

section \<open>RegisterVideo\<close>

text \<open>
  The checks in the order of the code: the duplicate lookup (with the account
  for Instagram, without it otherwise), the platform check, the account check
  and the existence check of an Instagram post, then \<open>CreateVideo\<close> of a
  fresh \<open>Video\<close> in state \<open>registered\<close> (its \<open>ID\<close> and \<open>CreatedAt\<close> are the
  zero values until the insert sets them).
\<close>

definition new_video :: "string \<Rightarrow> string \<Rightarrow> string \<Rightarrow> string \<Rightarrow> video" where
  "new_video platform videoID username tag =
     \<lparr>v_ID = [], v_Platform = platform, v_VideoID = videoID, v_InstagramUsername = username,
      v_State = StateRegistered, v_CreatedAt = 0, v_Tag = tag\<rparr>"

definition RegisterVideo ::
  "net \<Rightarrow> video_service \<Rightarrow> time \<Rightarrow> string \<Rightarrow> string \<Rightarrow> string \<Rightarrow> string \<Rightarrow> store \<Rightarrow> store result" where
  "RegisterVideo nt svc now platform videoID username tag st =
     (let existing = (if platform = PlatformInstagram
                      then GetVideoWithUsername st platform videoID username
                      else GetVideo st platform videoID);
          create = map_sum id snd (CreateVideo now (new_video platform videoID username tag) st)
      in if existing \<noteq> None then Inl ''video already being tracked''
         else if platform \<noteq> PlatformYouTube \<and> platform \<noteq> PlatformInstagram
         then Inl (''unsupported platform: '' @ platform)
         else if platform = PlatformInstagram
         then (if username = [] then Inl ''instagram_username is required for Instagram posts''
               else (case GetMediaDetails nt (instagramClient svc) username videoID of
                       Inl _ \<Rightarrow> Inl (''instagram post not found: '' @ videoID @ '' for user '' @ username)
                     | Inr _ \<Rightarrow> create))
         else create)"

text \<open>The checks of \<open>RegisterVideo\<close>, the code before its call of
  \<open>CreateVideo\<close>: the error they return, or \<open>None\<close> when the video may be
  inserted. Other requests can run between these checks and the insert.\<close>

definition register_checks ::
  "net \<Rightarrow> video_service \<Rightarrow> string \<Rightarrow> string \<Rightarrow> string \<Rightarrow> store \<Rightarrow> error option" where
  "register_checks nt svc platform videoID username st =
     (let existing = (if platform = PlatformInstagram
                      then GetVideoWithUsername st platform videoID username
                      else GetVideo st platform videoID)
      in if existing \<noteq> None then Some ''video already being tracked''
         else if platform \<noteq> PlatformYouTube \<and> platform \<noteq> PlatformInstagram
         then Some (''unsupported platform: '' @ platform)
         else if platform = PlatformInstagram
         then (if username = [] then Some ''instagram_username is required for Instagram posts''
               else (case GetMediaDetails nt (instagramClient svc) username videoID of
                       Inl _ \<Rightarrow> Some (''instagram post not found: '' @ videoID @ '' for user '' @ username)
                     | Inr _ \<Rightarrow> None))
         else None)"

section \<open>UpdateVideoStats\<close>

text \<open>The two messages the service takes for ``not found or not accessible''.\<close>

definition is_not_found_error :: "error \<Rightarrow> bool" where
  "is_not_found_error e \<longleftrightarrow>
     e = ''video not found'' \<or> e = ''instagram post not found or inaccessible''"

text \<open>What follows the fetch: on an error, mark the video (every row with its
  external id) as \<open>error\<close> when the message is one of the two, and return the
  error; on success, stamp the snapshot and insert it.\<close>

definition record_fetch :: "time \<Rightarrow> video \<Rightarrow> video_stats result \<Rightarrow> store \<Rightarrow> unit result \<times> store" where
  "record_fetch now video r st =
     (case r of
        Inl e \<Rightarrow>
          (Inl e, if is_not_found_error e then UpdateVideoState st (v_VideoID video) StateError else st)
      | Inr stats \<Rightarrow> (Inr (), snd (CreateVideoStats (stats\<lparr>s_Timestamp := now\<rparr>) st)))"

text \<open>The \<open>switch\<close> on the platform selects the client; an unknown platform
  returns before anything is fetched or written.\<close>

definition UpdateVideoStats ::
  "net \<Rightarrow> video_service \<Rightarrow> time \<Rightarrow> video \<Rightarrow> store \<Rightarrow> unit result \<times> store" where
  "UpdateVideoStats nt svc now video st =
     (if v_Platform video = PlatformYouTube
      then record_fetch now video (yt_GetVideoStats nt (youtubeClient svc) (v_VideoID video)) st
      else if v_Platform video = PlatformInstagram
      then record_fetch now video
             (ig_GetVideoStats nt (instagramClient svc) (v_InstagramUsername video) (v_VideoID video)) st
      else (Inl (''unsupported platform: '' @ v_Platform video), st))"

section \<open>Queries\<close>

definition svc_GetVideoStats :: "store \<Rightarrow> string \<Rightarrow> time \<Rightarrow> time \<Rightarrow> video_stats list" where
  "svc_GetVideoStats st videoID from to = GetVideoStats st videoID from to"

definition svc_GetAllVideos :: "store \<Rightarrow> video list" where
  "svc_GetAllVideos st = GetAllVideos st"


section \<open>Test service\<close>

definition demo_service :: video_service where
  "demo_service = NewService ''key'' ''token'' ''17841400000000000''"

definition yt_video :: video where
  "yt_video = (new_video ''youtube'' ''abc123'' [] [])\<lparr>v_ID := ''1''\<rparr>"

definition ig_video :: video where
  "ig_video = (new_video ''instagram'' ''post1'' ''acct'' [])\<lparr>v_ID := ''1''\<rparr>"

section \<open>Abstract specification of registration\<close>

text \<open>
  The registration gate of the spec (section 4.1) checks the platform first,
  then looks for a non-archived video with the same platform, external id and
  (on Instagram) account, then the account, then the existence of the post,
  and reports one of five kinds of error. The code's messages are mapped to
  these kinds by their text.
\<close>

datatype reg_error =
  UnsupportedPlatformError | DuplicateError | ValidationError
  | PlatformUnavailableError | PersistenceError

definition supported_platform :: "string \<Rightarrow> bool" where
  "supported_platform p \<longleftrightarrow> p = PlatformYouTube \<or> p = PlatformInstagram"

definition classify_register_error :: "error \<Rightarrow> reg_error" where
  "classify_register_error e =
     (if e = ''video already being tracked'' then DuplicateError
      else if prefix ''unsupported platform: '' e then UnsupportedPlatformError
      else if e = ''instagram_username is required for Instagram posts'' then ValidationError
      else if prefix ''instagram post not found: '' e then PlatformUnavailableError
      else PersistenceError)"

definition spec_duplicate :: "store \<Rightarrow> string \<Rightarrow> string \<Rightarrow> string \<Rightarrow> bool" where
  "spec_duplicate st p vid u =
     list_ex (\<lambda>v. v_State v \<noteq> StateArchived \<and> v_Platform v = p \<and> v_VideoID v = vid \<and>
                  (p = PlatformYouTube \<or> v_InstagramUsername v = u)) (videos st)"

definition Register_spec ::
  "net \<Rightarrow> video_service \<Rightarrow> time \<Rightarrow> string \<Rightarrow> string \<Rightarrow> string \<Rightarrow> string \<Rightarrow> store \<Rightarrow> reg_error + store" where
  "Register_spec nt svc now p vid u tag st =
     (if \<not> supported_platform p then Inl UnsupportedPlatformError
      else if spec_duplicate st p vid u then Inl DuplicateError
      else if p = PlatformInstagram \<and> u = [] then Inl ValidationError
      else if p = PlatformInstagram \<and> isl (GetMediaDetails nt (instagramClient svc) u vid)
      then Inl PlatformUnavailableError
      else map_sum (\<lambda>_. PersistenceError) snd (CreateVideo now (new_video p vid u tag) st))"

text \<open>What the service keeps true of the rows beyond the schema: every row has a
  supported platform, and none is archived (no code path archives a video).\<close>

definition svc_inv :: "store \<Rightarrow> bool" where
  "svc_inv st \<longleftrightarrow>
     list_all (\<lambda>v. supported_platform (v_Platform v) \<and> v_State v \<noteq> StateArchived) (videos st)"


section \<open>Properties\<close>

subsection \<open>Ingestion\<close>

lemma record_fetch_Inl [simp]:
  "record_fetch now video (Inl e) st =
     (Inl e, if is_not_found_error e then UpdateVideoState st (v_VideoID video) StateError else st)"
  by (simp add: record_fetch_def)

lemma record_fetch_Inr [simp]:
  "record_fetch now video (Inr s) st = (Inr (), snd (CreateVideoStats (s\<lparr>s_Timestamp := now\<rparr>) st))"
  by (simp add: record_fetch_def)

lemma fetched_stats_VideoID:
  "yt_GetVideoStats nt y vid = Inr s \<Longrightarrow> s_VideoID s = vid"
  "ig_GetVideoStats nt c u vid = Inr s \<Longrightarrow> s_VideoID s = vid"
  by (auto simp: yt_GetVideoStats_def ig_GetVideoStats_def split: sum.splits list.splits option.splits)

lemma UpdateVideoStats_cases:
  obtains (unsupported) "v_Platform video \<noteq> PlatformYouTube" "v_Platform video \<noteq> PlatformInstagram"
      "UpdateVideoStats nt svc now video st = (Inl (''unsupported platform: '' @ v_Platform video), st)"
  | (fetched) r where "UpdateVideoStats nt svc now video st = record_fetch now video r st"
      "v_Platform video = PlatformYouTube \<Longrightarrow> r = yt_GetVideoStats nt (youtubeClient svc) (v_VideoID video)"
      "v_Platform video = PlatformInstagram \<Longrightarrow>
         r = ig_GetVideoStats nt (instagramClient svc) (v_InstagramUsername video) (v_VideoID video)"
      "\<And>s. r = Inr s \<Longrightarrow> s_VideoID s = v_VideoID video"
  by (cases "v_Platform video = PlatformYouTube"; cases "v_Platform video = PlatformInstagram")
     (auto simp: UpdateVideoStats_def dest: fetched_stats_VideoID)

text \<open>The three ways an ingestion can leave the store.\<close>

lemma UpdateVideoStats_store_cases:
  obtains (same) "snd (UpdateVideoStats nt svc now video st) = st"
  | (marked) "snd (UpdateVideoStats nt svc now video st) = UpdateVideoState st (v_VideoID video) StateError"
  | (appended) row where
      "snd (UpdateVideoStats nt svc now video st) =
         st\<lparr>stats_rows := stats_rows st @ [row], next_stats_id := Suc (next_stats_id st)\<rparr>"
      "s_VideoID row = v_VideoID video" "s_Timestamp row = now" "s_ID row = dec_string (next_stats_id st)"
proof (cases rule: UpdateVideoStats_cases [of video nt svc now st])
  case unsupported
  then show ?thesis using that(1) by simp
next
  case (fetched r)
  show ?thesis
  proof (cases r)
    case (Inl e)
    then show ?thesis using fetched(1) that(1,2) by (cases "is_not_found_error e") auto
  next
    case (Inr s)
    with fetched(4) have "s_VideoID s = v_VideoID video" by simp
    with fetched(1) Inr show ?thesis
      using that(3) [of "s\<lparr>s_Timestamp := now, s_ID := dec_string (next_stats_id st)\<rparr>"] by simp
  qed
qed

text \<open>C3: an ingestion that reports an error never inserts a snapshot.\<close>

theorem UpdateVideoStats_error_no_snapshot:
  assumes "fst (UpdateVideoStats nt svc now video st) = Inl e"
  shows "stats_rows (snd (UpdateVideoStats nt svc now video st)) = stats_rows st"
  using assms
  by (cases rule: UpdateVideoStats_cases [of video nt svc now st])
     (auto simp: record_fetch_def UpdateVideoState_def CreateVideoStats_def split: sum.splits)

text \<open>C4: an ingestion changes the videos table only by marking the video as
  \<open>error\<close>, and only after an error whose message is one of the two the
  service recognises.\<close>

theorem UpdateVideoStats_state_change:
  assumes "videos (snd (UpdateVideoStats nt svc now video st)) \<noteq> videos st"
  shows "\<exists>e. fst (UpdateVideoStats nt svc now video st) = Inl e \<and> is_not_found_error e \<and>
             snd (UpdateVideoStats nt svc now video st) = UpdateVideoState st (v_VideoID video) StateError"
  using assms
  by (cases rule: UpdateVideoStats_cases [of video nt svc now st])
     (auto simp: record_fetch_def split: sum.splits if_splits)

text \<open>a successful ingestion appends exactly one snapshot, for this video,
  stamped with the ingestion instant, and changes nothing else.\<close>

lemma UpdateVideoStats_success:
  assumes "fst (UpdateVideoStats nt svc now video st) = Inr ()"
  shows "\<exists>row. snd (UpdateVideoStats nt svc now video st) =
            st\<lparr>stats_rows := stats_rows st @ [row], next_stats_id := Suc (next_stats_id st)\<rparr> \<and>
            s_VideoID row = v_VideoID video \<and> s_Timestamp row = now \<and> s_ID row = dec_string (next_stats_id st)"
proof (cases rule: UpdateVideoStats_cases [of video nt svc now st])
  case unsupported
  with assms show ?thesis by simp
next
  case (fetched r)
  with assms obtain s where r: "r = Inr s" by (cases r) auto
  with fetched(4) have "s_VideoID s = v_VideoID video" by simp
  with fetched(1) r show ?thesis by auto
qed

lemma ig_error_not_not_found:
  "ig_GetVideoStats nt c u vid = Inl e \<Longrightarrow> \<not> is_not_found_error e"
  by (drule ig_GetVideoStats_Inl) (auto simp: is_not_found_error_def)

text \<open>C2: no outcome of the Instagram client, a missing post included, ever
  marks an Instagram video as \<open>error\<close>: the client's messages never equal
  the text the service compares them with.\<close>

theorem UpdateVideoStats_instagram_never_marks_error:
  assumes "v_Platform video = PlatformInstagram"
  shows "videos (snd (UpdateVideoStats nt svc now video st)) = videos st"
  using assms ig_error_not_not_found
  by (auto simp: UpdateVideoStats_def record_fetch_def split: sum.splits)

text \<open>C1: a YouTube video the API reports as missing (no items) is left in
  state \<open>registered\<close>, the store unchanged: it will be fetched again on every
  sweep, because \<open>"video not found: id"\<close> is not \<open>"video not found"\<close>.\<close>

theorem UpdateVideoStats_youtube_not_found:
  assumes "v_Platform video = PlatformYouTube"
    and "http_get nt (youtube_url (youtubeClient svc) (v_VideoID video)) = Inr resp"
    and "decode_youtube nt (Body resp) = Inr []"
  shows "UpdateVideoStats nt svc now video st = (Inl (''video not found: '' @ v_VideoID video), st)"
  using assms by (simp add: UpdateVideoStats_def yt_GetVideoStats_def is_not_found_error_def)

subsection \<open>Registration\<close>

lemma RegisterVideo_Inr_iff:
  "RegisterVideo nt svc now p vid u tag st = Inr st' \<longleftrightarrow>
     (if p = PlatformInstagram then GetVideoWithUsername st p vid u else GetVideo st p vid) = None \<and>
     supported_platform p \<and>
     (p = PlatformInstagram \<longrightarrow> u \<noteq> [] \<and> \<not> isl (GetMediaDetails nt (instagramClient svc) u vid)) \<and>
     (\<exists>v'. CreateVideo now (new_video p vid u tag) st = Inr (v', st'))"
  by (auto simp: RegisterVideo_def Let_def supported_platform_def map_sum_def
           split: sum.splits if_splits)

lemma RegisterVideo_checks:
  "RegisterVideo nt svc now p vid u tag st =
     (case register_checks nt svc p vid u st of
        Some e \<Rightarrow> Inl e
      | None \<Rightarrow> map_sum id snd (CreateVideo now (new_video p vid u tag) st))"
  by (simp add: RegisterVideo_def register_checks_def Let_def split: sum.split)

lemma register_checks_None:
  "register_checks nt svc p vid u st = None \<Longrightarrow> supported_platform p"
  by (auto simp: register_checks_def Let_def supported_platform_def split: if_splits sum.splits)

lemma new_video_simps [simp]:
  "v_Platform (new_video p vid u tag) = p" "v_VideoID (new_video p vid u tag) = vid"
  "v_InstagramUsername (new_video p vid u tag) = u" "v_State (new_video p vid u tag) = StateRegistered"
  by (simp_all add: new_video_def)

text \<open>C5: whatever happens in between on the network, registering the same
  platform, id and account a second time is refused as a duplicate.\<close>

theorem RegisterVideo_twice:
  assumes "RegisterVideo nt svc now p vid u tag st = Inr st'"
  shows "RegisterVideo nt' svc' now' p vid u tag' st' = Inl ''video already being tracked''"
proof -
  from assms obtain v' where cv: "CreateVideo now (new_video p vid u tag) st = Inr (v', st')"
    by (auto simp: RegisterVideo_Inr_iff)
  have "(if p = PlatformInstagram then GetVideoWithUsername st' p vid u else GetVideo st' p vid) \<noteq> None"
  proof (cases "p = PlatformInstagram")
    case True
    with CreateVideo_GetVideoWithUsername [OF cv] show ?thesis by simp
  next
    case False
    from CreateVideo_Inr_row [OF cv] have "v' \<in> set (videos st')" "v_Platform v' = p" "v_VideoID v' = vid"
      by simp_all
    with False show ?thesis by (auto simp: GetVideo_def find_None_iff)
  qed
  then show ?thesis by (auto simp: RegisterVideo_def Let_def)
qed

lemma RegisterVideo_wf:
  "RegisterVideo nt svc now p vid u tag st = Inr st' \<Longrightarrow> wf_store st \<Longrightarrow> wf_store st'"
  by (auto simp: RegisterVideo_Inr_iff intro: CreateVideo_wf)

lemma RegisterVideo_svc_inv:
  "RegisterVideo nt svc now p vid u tag st = Inr st' \<Longrightarrow> svc_inv st \<Longrightarrow> svc_inv st'"
  by (auto simp: RegisterVideo_Inr_iff svc_inv_def CreateVideo_Inr)

lemma classify_CreateVideo_error:
  "CreateVideo now v st = Inl e \<Longrightarrow> classify_register_error e = PersistenceError"
  by (drule CreateVideo_Inl) (auto simp: classify_register_error_def unique_violation_def)

lemma map_sum_classify_create:
  "map_sum classify_register_error id (map_sum id snd (CreateVideo now v st)) =
   map_sum (\<lambda>_. PersistenceError) snd (CreateVideo now v st)"
  by (cases "CreateVideo now v st") (auto simp: classify_CreateVideo_error)

lemma lookup_iff_spec_duplicate:
  assumes "svc_inv st" and "supported_platform p"
  shows "(if p = PlatformInstagram then GetVideoWithUsername st p vid u else GetVideo st p vid) \<noteq> None
         \<longleftrightarrow> spec_duplicate st p vid u"
  using assms
  by (auto simp: svc_inv_def list_all_iff spec_duplicate_def list_ex_iff supported_platform_def
                 GetVideo_def GetVideoWithUsername_def find_Some_ex_iff)

lemma lookup_unsupported_None:
  assumes "svc_inv st" and "\<not> supported_platform p"
  shows "(if p = PlatformInstagram then GetVideoWithUsername st p vid u else GetVideo st p vid) = None"
  using assms
  by (auto simp: svc_inv_def list_all_iff supported_platform_def GetVideo_def find_None_iff)

text \<open>In every store where all rows have a supported platform and none is
  archived, the code's order of checks (duplicate first, platform second)
  gives the result of the spec's order, error kinds included.\<close>

lemma RegisterVideo_refines_spec_inv:
  assumes "svc_inv st"
  shows "map_sum classify_register_error id (RegisterVideo nt svc now p vid u tag st) =
         Register_spec nt svc now p vid u tag st"
proof (cases "supported_platform p")
  case False
  then have "p \<noteq> PlatformYouTube \<and> p \<noteq> PlatformInstagram" by (simp add: supported_platform_def)
  with False lookup_unsupported_None [OF assms False, of vid u] show ?thesis
    by (simp add: RegisterVideo_def Register_spec_def Let_def classify_register_error_def)
next
  case True
  note sup = True
  note dup = lookup_iff_spec_duplicate [OF assms sup, of vid u]
  show ?thesis
  proof (cases "spec_duplicate st p vid u")
    case True
    with dup sup show ?thesis
      by (auto simp: RegisterVideo_def Register_spec_def Let_def classify_register_error_def)
  next
    case False
    with dup sup show ?thesis
      by (auto simp: RegisterVideo_def Register_spec_def Let_def classify_register_error_def
                     supported_platform_def map_sum_classify_create split: sum.splits)
  qed
qed

text \<open>C23: a video in state \<open>error\<close> cannot be registered again: the
  duplicate lookup does not look at the state, so the ``manual
  re-registration'' the spec offers as the way out of \<open>error\<close> is refused.\<close>

theorem RegisterVideo_error_state_duplicate:
  assumes "v \<in> set (videos st)" and "v_State v = StateError"
  shows "RegisterVideo nt svc now (v_Platform v) (v_VideoID v) (v_InstagramUsername v) tag st =
           Inl ''video already being tracked''"
proof -
  have "(if v_Platform v = PlatformInstagram
         then GetVideoWithUsername st (v_Platform v) (v_VideoID v) (v_InstagramUsername v)
         else GetVideo st (v_Platform v) (v_VideoID v)) \<noteq> None"
    using assms(1) by (auto simp: GetVideo_def GetVideoWithUsername_def find_Some_ex_iff)
  then show ?thesis by (simp add: RegisterVideo_def Let_def)
qed

subsection \<open>Examples\<close>

theorem RegisterVideo_error_state_duplicate_witness:
  "RegisterVideo (yt_net ''1'' ''1'') demo_service 0 ''youtube'' ''abc123'' [] [] 
     (empty_store\<lparr>videos := [yt_video\<lparr>v_State := StateError\<rparr>]\<rparr>) = Inl ''video already being tracked''"
proof -
  have h1: "yt_video\<lparr>v_State := StateError\<rparr> \<in> set (videos (empty_store\<lparr>videos := [yt_video\<lparr>v_State := StateError\<rparr>]\<rparr>))"
    by simp
  have h2: "v_State (yt_video\<lparr>v_State := StateError\<rparr>) = StateError" by simp
  from RegisterVideo_error_state_duplicate [OF h1 h2, of "yt_net ''1'' ''1''" demo_service 0 "[]"]
  show ?thesis by (simp add: yt_video_def new_video_def model_defs)
qed

theorem UpdateVideoStats_youtube_not_found_witness:
  "UpdateVideoStats quota_exceeded_net demo_service 7 yt_video (empty_store\<lparr>videos := [yt_video]\<rparr>) =
     (Inl ''video not found: abc123'', empty_store\<lparr>videos := [yt_video]\<rparr>)"
proof -
  have h1: "v_Platform yt_video = PlatformYouTube" by (simp add: yt_video_def model_defs)
  have h2: "http_get quota_exceeded_net (youtube_url (youtubeClient demo_service) (v_VideoID yt_video)) =
            Inr \<lparr>StatusCode = 403, Body = ''quotaExceeded''\<rparr>" by (simp add: quota_exceeded_net_def)
  have h3: "decode_youtube quota_exceeded_net (Body \<lparr>StatusCode = 403, Body = ''quotaExceeded''\<rparr>) = Inr []"
    by (simp add: quota_exceeded_net_def)
  from UpdateVideoStats_youtube_not_found [OF h1 h2 h3, of 7 "empty_store\<lparr>videos := [yt_video]\<rparr>"]
  show ?thesis by (simp add: yt_video_def)
qed

theorem UpdateVideoStats_instagram_never_marks_error_witness:
  "fst (UpdateVideoStats (yt_net ''1'' ''1'') demo_service 7 ig_video (empty_store\<lparr>videos := [ig_video]\<rparr>)) =
     Inl ''instagram post not found: post1 for user acct'' \<and>
   videos (snd (UpdateVideoStats (yt_net ''1'' ''1'') demo_service 7 ig_video (empty_store\<lparr>videos := [ig_video]\<rparr>))) =
     [ig_video]"
proof -
  have h: "v_Platform ig_video = PlatformInstagram" by (simp add: ig_video_def model_defs)
  from UpdateVideoStats_instagram_never_marks_error [OF h, of "yt_net ''1'' ''1''" demo_service 7
      "empty_store\<lparr>videos := [ig_video]\<rparr>"]
  show ?thesis
    by (simp add: UpdateVideoStats_def ig_GetVideoStats_def getAllUserMedia_def yt_net_def
        ig_video_def new_video_def model_defs)
qed

theorem UpdateVideoStats_error_no_snapshot_witness:
  "fst (UpdateVideoStats quota_exceeded_net demo_service 7 yt_video demo_stats_store) =
     Inl ''video not found: abc123'' \<and>
   stats_rows (snd (UpdateVideoStats quota_exceeded_net demo_service 7 yt_video demo_stats_store)) =
     stats_rows demo_stats_store"
proof -
  have h: "fst (UpdateVideoStats quota_exceeded_net demo_service 7 yt_video demo_stats_store) =
           Inl ''video not found: abc123''"
    by (simp add: UpdateVideoStats_def yt_GetVideoStats_def quota_exceeded_net_def yt_video_def
        new_video_def model_defs is_not_found_error_def)
  from UpdateVideoStats_error_no_snapshot [OF h] h show ?thesis by simp
qed

theorem UpdateVideoStats_state_change_witness:
  "videos (snd (UpdateVideoStats (transport_error_net ''video not found'') demo_service 7 yt_video
      (empty_store\<lparr>videos := [yt_video]\<rparr>))) = [yt_video\<lparr>v_State := StateError\<rparr>] \<and>
   fst (UpdateVideoStats (transport_error_net ''video not found'') demo_service 7 yt_video
      (empty_store\<lparr>videos := [yt_video]\<rparr>)) = Inl ''video not found''"
proof -
  have e: "UpdateVideoStats (transport_error_net ''video not found'') demo_service 7 yt_video
      (empty_store\<lparr>videos := [yt_video]\<rparr>) =
      (Inl ''video not found'', UpdateVideoState (empty_store\<lparr>videos := [yt_video]\<rparr>) ''abc123'' StateError)"
    by (simp add: UpdateVideoStats_def yt_GetVideoStats_def transport_error_net_def yt_video_def
        new_video_def model_defs is_not_found_error_def)
  have h: "videos (snd (UpdateVideoStats (transport_error_net ''video not found'') demo_service 7 yt_video
      (empty_store\<lparr>videos := [yt_video]\<rparr>))) \<noteq> videos (empty_store\<lparr>videos := [yt_video]\<rparr>)"
    unfolding e by (simp add: UpdateVideoState_def yt_video_def new_video_def model_defs)
  from UpdateVideoStats_state_change [OF h] show ?thesis
    unfolding e by (simp add: UpdateVideoState_def yt_video_def new_video_def model_defs)
qed

theorem RegisterVideo_twice_witness:
  "\<exists>st'. RegisterVideo (yt_net ''1'' ''1'') demo_service 0 ''youtube'' ''abc123'' [] [] empty_store = Inr st' \<and>
     RegisterVideo (yt_net ''1'' ''1'') demo_service 5 ''youtube'' ''abc123'' [] ''again'' st' =
       Inl ''video already being tracked''"
proof -
  have "\<exists>st'. RegisterVideo (yt_net ''1'' ''1'') demo_service 0 ''youtube'' ''abc123'' [] [] empty_store = Inr st'"
    by (simp add: RegisterVideo_def GetVideo_def CreateVideo_def model_defs Let_def)
  then obtain st' where r: "RegisterVideo (yt_net ''1'' ''1'') demo_service 0 ''youtube'' ''abc123'' [] [] empty_store = Inr st'"
    by blast
  from RegisterVideo_twice [OF r] r show ?thesis by blast
qed

end
