(* ===== verification/Poller.thy ===== *)
theory Poller
  imports Service
begin

text \<open>
  The polling worker of \<open>src/internal/worker/poller.go\<close>. Its only state is
  the map \<open>viralVideos\<close> from an external video id to the instant it was
  flagged (the hot set of the spec), a Go map modelled as a partial function.
  The baseline sweep \<open>pollAllVideos\<close> is a loop over the registered videos
  that threads the store and the poller; \<open>time.Now()\<close> at the \<open>i\<close>-th
  iteration is \<open>clk i\<close>. The hot sweep \<open>pollViralVideos\<close> ranges over the
  keys of the map in an order Go leaves unspecified, here any list \<open>ks\<close> of
  the keys; each iteration reads the clock anew (\<open>time.Since\<close>), so the
  \<open>j\<close>-th key is judged against \<open>clk j\<close>.
  The cron scheduler is not modelled here: the engine theory composes the
  sweeps as steps. The two sweeps run on separate cron goroutines and share
  the map with no lock; a run in which the hot sweep's \<open>range\<close> overlaps a
  write of \<open>checkViralCondition\<close> is a fatal error of the Go runtime
  (\<open>concurrent map iteration and map write\<close>), a behaviour outside this
  model, whose map operations are each one step.
\<close>

section \<open>State\<close>

type_synonym hot_set = "string \<rightharpoonup> time"

record poller =
  viralVideos :: hot_set

definition NewPoller :: poller where
  "NewPoller = \<lparr>viralVideos = Map.empty\<rparr>"

text \<open>\<open>24*time.Hour\<close>, in nanoseconds.\<close>

definition retention :: duration where
  [model_defs]: "retention = 24 * 60 * 60 * 1000000000"

section \<open>Baseline sweep\<close>

text \<open>\<open>checkViralCondition\<close> flags every video it is called for.\<close>

definition checkViralCondition :: "time \<Rightarrow> video \<Rightarrow> poller \<Rightarrow> poller" where
  "checkViralCondition now video p =
     p\<lparr>viralVideos := (viralVideos p)(v_VideoID video \<mapsto> now)\<rparr>"

text \<open>One iteration of the loop of \<open>pollAllVideos\<close>: an error is logged and the
  loop continues with the next video; a success is followed by the viral check.\<close>

definition poll_one ::
  "net \<Rightarrow> video_service \<Rightarrow> time \<Rightarrow> video \<Rightarrow> store \<times> poller \<Rightarrow> store \<times> poller" where
  "poll_one nt svc now video sp =
     (let (r, st') = UpdateVideoStats nt svc now video (fst sp)
      in case r of
           Inl _ \<Rightarrow> (st', snd sp)
         | Inr _ \<Rightarrow> (st', checkViralCondition now video (snd sp)))"

fun pollLoop ::
  "net \<Rightarrow> video_service \<Rightarrow> (nat \<Rightarrow> time) \<Rightarrow> nat \<Rightarrow> video list \<Rightarrow> store \<times> poller \<Rightarrow> store \<times> poller" where
  "pollLoop nt svc clk i [] sp = sp"
| "pollLoop nt svc clk i (video # vs) sp = pollLoop nt svc clk (Suc i) vs (poll_one nt svc (clk i) video sp)"

text \<open>The list of videos is read once, before the loop.\<close>

definition pollAllVideos ::
  "net \<Rightarrow> video_service \<Rightarrow> (nat \<Rightarrow> time) \<Rightarrow> store \<times> poller \<Rightarrow> store \<times> poller" where
  "pollAllVideos nt svc clk sp = pollLoop nt svc clk 0 (svc_GetAllVideos (fst sp)) sp"

section \<open>Hot sweep\<close>

text \<open>One iteration of the \<open>range\<close> loop: delete the entry when its age is
  strictly more than the retention window.\<close>

definition expire_one :: "time \<Rightarrow> string \<Rightarrow> hot_set \<Rightarrow> hot_set" where
  "expire_one now k m =
     (case m k of
        None \<Rightarrow> m
      | Some t \<Rightarrow> if retention < now - t then m(k := None) else m)"

text \<open>The loop over the keys in the order \<open>range\<close> visits them; each
  iteration calls \<open>time.Since\<close>, so iteration \<open>i\<close> reads the clock as
  \<open>clk i\<close>.\<close>

fun expireLoop :: "(nat \<Rightarrow> time) \<Rightarrow> nat \<Rightarrow> string list \<Rightarrow> hot_set \<Rightarrow> hot_set" where
  "expireLoop clk i [] m = m"
| "expireLoop clk i (k # ks) m = expireLoop clk (Suc i) ks (expire_one (clk i) k m)"

definition pollViralVideos :: "(nat \<Rightarrow> time) \<Rightarrow> string list \<Rightarrow> poller \<Rightarrow> poller" where
  "pollViralVideos clk ks p = p\<lparr>viralVideos := expireLoop clk 0 ks (viralVideos p)\<rparr>"

section \<open>Abstract specification of expiry\<close>

text \<open>The hot set after a sweep, as the spec states it: an entry is removed
  exactly when its age exceeds the retention window.\<close>

definition expire_spec :: "time \<Rightarrow> hot_set \<Rightarrow> hot_set" where
  "expire_spec now m =
     (\<lambda>k. case m k of None \<Rightarrow> None | Some t \<Rightarrow> if retention < now - t then None else Some t)"

section \<open>Examples of state\<close>

definition demo_hot :: poller where
  "demo_hot = \<lparr>viralVideos = [''old'' \<mapsto> 0, ''fresh'' \<mapsto> 90000000000000]\<rparr>"

definition demo_clk :: "nat \<Rightarrow> time" where
  "demo_clk i = 7 + int i"

definition demo_two_videos :: store where
  "demo_two_videos = empty_store\<lparr>videos := [ig_video, yt_video\<lparr>v_ID := ''2''\<rparr>], next_video_id := 3\<rparr>"

section \<open>Properties\<close>

subsection \<open>Hot sweep\<close>

lemma expire_one_other: "k' \<noteq> k \<Longrightarrow> expire_one now k m k' = m k'"
  by (simp add: expire_one_def split: option.splits)

lemma expire_one_same: "expire_one now k m k = expire_spec now m k"
  by (simp add: expire_one_def expire_spec_def split: option.splits)

lemma expire_spec_other:
  "k' \<noteq> k \<Longrightarrow> expire_spec now' (expire_one now k m) k' = expire_spec now' m k'"
  by (simp add: expire_spec_def expire_one_other)

lemma expireLoop_other: "k \<notin> set ks \<Longrightarrow> expireLoop clk i ks m k = m k"
  by (induction ks arbitrary: i m) (auto simp: expire_one_other)

text \<open>The key visited at iteration \<open>j\<close> is expired against the clock read at
  that iteration; the others leave it alone.\<close>

lemma expireLoop_nth:
  "distinct ks \<Longrightarrow> j < length ks \<Longrightarrow>
   expireLoop clk i ks m (ks ! j) = expire_spec (clk (i + j)) m (ks ! j)"
proof (induction ks arbitrary: i j m)
  case Nil
  then show ?case by simp
next
  case (Cons k ks)
  show ?case
  proof (cases j)
    case 0
    with Cons.prems show ?thesis by (simp add: expireLoop_other expire_one_same)
  next
    case (Suc j')
    with Cons.prems have "ks ! j' \<noteq> k" "distinct ks" "j' < length ks"
      by (auto simp: nth_mem)
    with Cons.IH [of j' "Suc i"] Suc show ?thesis by (simp add: expire_spec_other)
  qed
qed

text \<open>C7: after a hot sweep, the entry visited at iteration \<open>j\<close> is gone
  exactly when its age at that iteration's clock reading exceeds the 24-hour
  window, and kept with its flag instant otherwise, in whatever order the
  keys are visited.\<close>

theorem pollViralVideos_expiry:
  assumes "distinct ks" and "set ks = dom (viralVideos p)" and "j < length ks"
  shows "viralVideos (pollViralVideos clk ks p) (ks ! j) =
           (case viralVideos p (ks ! j) of None \<Rightarrow> None
            | Some t \<Rightarrow> if retention < clk j - t then None else Some t)"
  using assms by (simp add: pollViralVideos_def expireLoop_nth expire_spec_def)

subsection \<open>Baseline sweep\<close>

lemma UpdateVideoStats_result_indep:
  "fst (UpdateVideoStats nt svc now v st) = fst (UpdateVideoStats nt svc now v st')"
  by (simp add: UpdateVideoStats_def record_fetch_def split: sum.splits)

lemma UpdateVideoStats_stats_append:
  "\<exists>rs. stats_rows (snd (UpdateVideoStats nt svc now v st)) = stats_rows st @ rs"
  by (auto simp: UpdateVideoStats_def record_fetch_def UpdateVideoState_def split: sum.splits)

lemma poll_one_stats_append:
  "\<exists>rs. stats_rows (fst (poll_one nt svc now v sp)) = stats_rows (fst sp) @ rs"
  using UpdateVideoStats_stats_append [of nt svc now v "fst sp"]
  by (auto simp: poll_one_def split: prod.splits sum.splits)

lemma poll_one_dom:
  "dom (viralVideos (snd sp)) \<subseteq> dom (viralVideos (snd (poll_one nt svc now v sp)))"
  by (auto simp: poll_one_def checkViralCondition_def split: prod.splits sum.splits)

lemma pollLoop_mono:
  "(\<exists>rs. stats_rows (fst (pollLoop nt svc clk j vs sp)) = stats_rows (fst sp) @ rs) \<and>
   dom (viralVideos (snd sp)) \<subseteq> dom (viralVideos (snd (pollLoop nt svc clk j vs sp)))"
proof (induction vs arbitrary: j sp)
  case Nil
  then show ?case by simp
next
  case (Cons v vs)
  obtain rs where rs: "stats_rows (fst (poll_one nt svc (clk j) v sp)) = stats_rows (fst sp) @ rs"
    using poll_one_stats_append by blast
  from Cons.IH [of "Suc j" "poll_one nt svc (clk j) v sp"] rs poll_one_dom [of sp nt svc "clk j" v]
  show ?case by auto
qed

lemma poll_one_success:
  assumes "fst (UpdateVideoStats nt svc now v (fst sp)) = Inr ()"
  shows "(\<exists>row\<in>set (stats_rows (fst (poll_one nt svc now v sp))).
            s_VideoID row = v_VideoID v \<and> s_Timestamp row = now) \<and>
         v_VideoID v \<in> dom (viralVideos (snd (poll_one nt svc now v sp)))"
proof -
  obtain row where row: "snd (UpdateVideoStats nt svc now v (fst sp)) =
      (fst sp)\<lparr>stats_rows := stats_rows (fst sp) @ [row], next_stats_id := Suc (next_stats_id (fst sp))\<rparr>"
    "s_VideoID row = v_VideoID v" "s_Timestamp row = now"
    using UpdateVideoStats_success [OF assms] by blast
  from assms have "UpdateVideoStats nt svc now v (fst sp) = (Inr (), snd (UpdateVideoStats nt svc now v (fst sp)))"
    by (metis prod.collapse)
  with row show ?thesis
    by (auto simp: poll_one_def checkViralCondition_def)
qed

lemma pollLoop_isolation:
  assumes "i < length vs"
    and "fst (UpdateVideoStats nt svc (clk (j + i)) (vs ! i) st0) = Inr ()"
  shows "(\<exists>row\<in>set (stats_rows (fst (pollLoop nt svc clk j vs sp))).
            s_VideoID row = v_VideoID (vs ! i) \<and> s_Timestamp row = clk (j + i)) \<and>
         v_VideoID (vs ! i) \<in> dom (viralVideos (snd (pollLoop nt svc clk j vs sp)))"
  using assms
proof (induction vs arbitrary: i j sp)
  case Nil
  then show ?case by simp
next
  case (Cons v vs)
  show ?case
  proof (cases i)
    case 0
    have "fst (UpdateVideoStats nt svc (clk j) v (fst sp)) = Inr ()"
      using Cons.prems(2) 0 UpdateVideoStats_result_indep by (metis add_0_right nth_Cons_0)
    from poll_one_success [OF this] pollLoop_mono [of nt svc clk "Suc j" vs "poll_one nt svc (clk j) v sp"]
    show ?thesis using 0 by fastforce
  next
    case (Suc i')
    with Cons.prems have "i' < length vs"
      and "fst (UpdateVideoStats nt svc (clk (Suc j + i')) (vs ! i') st0) = Inr ()" by simp_all
    from Cons.IH [OF this] Suc show ?thesis by simp
  qed
qed

text \<open>C8: a video whose fetch succeeds gets its snapshot and its hot-set flag
  in a baseline sweep, whatever the other videos of the sweep do.\<close>

theorem pollAllVideos_isolation:
  assumes "i < length (svc_GetAllVideos st)"
    and "fst (UpdateVideoStats nt svc (clk i) (svc_GetAllVideos st ! i) st) = Inr ()"
  shows "(\<exists>row\<in>set (stats_rows (fst (pollAllVideos nt svc clk (st, p)))).
            s_VideoID row = v_VideoID (svc_GetAllVideos st ! i) \<and> s_Timestamp row = clk i) \<and>
         v_VideoID (svc_GetAllVideos st ! i) \<in> dom (viralVideos (snd (pollAllVideos nt svc clk (st, p))))"
  using pollLoop_isolation [of i "svc_GetAllVideos st" nt svc clk 0 st "(st, p)"] assms
  by (simp add: pollAllVideos_def)

subsection \<open>Examples\<close>

theorem pollViralVideos_expiry_witness:
  "distinct [''fresh'', ''old''] \<and> set [''fresh'', ''old''] = dom (viralVideos demo_hot) \<and>
   viralVideos (pollViralVideos (\<lambda>i. 100000000000000 + int i) [''fresh'', ''old''] demo_hot) ''old'' = None \<and>
   viralVideos (pollViralVideos (\<lambda>i. 100000000000000 + int i) [''fresh'', ''old''] demo_hot) ''fresh'' =
     Some 90000000000000"
proof -
  have d: "distinct [''fresh'', ''old'']" by simp
  have h: "set [''fresh'', ''old''] = dom (viralVideos demo_hot)" by (auto simp: demo_hot_def)
  from pollViralVideos_expiry [OF d h, of 1 "\<lambda>i. 100000000000000 + int i"]
       pollViralVideos_expiry [OF d h, of 0 "\<lambda>i. 100000000000000 + int i"] d h
  show ?thesis by (simp add: demo_hot_def model_defs)
qed

theorem pollAllVideos_isolation_witness:
  "fst (UpdateVideoStats (yt_net ''100'' ''10'') demo_service 7 ig_video demo_two_videos) =
     Inl ''instagram post not found: post1 for user acct'' \<and>
   (\<exists>row\<in>set (stats_rows (fst (pollAllVideos (yt_net ''100'' ''10'') demo_service demo_clk
       (demo_two_videos, NewPoller)))). s_VideoID row = ''abc123'' \<and> s_Timestamp row = 8) \<and>
   ''abc123'' \<in> dom (viralVideos (snd (pollAllVideos (yt_net ''100'' ''10'') demo_service demo_clk
       (demo_two_videos, NewPoller))))"
proof -
  have vs: "svc_GetAllVideos demo_two_videos = [ig_video, yt_video\<lparr>v_ID := ''2''\<rparr>]"
    by (simp add: svc_GetAllVideos_def GetAllVideos_def demo_two_videos_def ig_video_def yt_video_def
        new_video_def)
  have h1: "1 < length (svc_GetAllVideos demo_two_videos)" by (simp add: vs)
  have h2: "fst (UpdateVideoStats (yt_net ''100'' ''10'') demo_service (demo_clk 1)
              (svc_GetAllVideos demo_two_videos ! 1) demo_two_videos) = Inr ()"
    by (simp add: vs UpdateVideoStats_def yt_GetVideoStats_def yt_net_def yt_video_def new_video_def model_defs)
  have fail: "fst (UpdateVideoStats (yt_net ''100'' ''10'') demo_service 7 ig_video demo_two_videos) =
     Inl ''instagram post not found: post1 for user acct''"
    by (simp add: UpdateVideoStats_def ig_GetVideoStats_def getAllUserMedia_def yt_net_def ig_video_def
        new_video_def model_defs is_not_found_error_def)
  from pollAllVideos_isolation [where clk = demo_clk and p = NewPoller, OF h1 h2] fail show ?thesis
    by (simp add: vs yt_video_def new_video_def demo_clk_def)
qed

end
