(* ===== verification/Transport.thy ===== *)
theory Transport
  imports Service
begin

text \<open>
  The request path into the service: the go-kit endpoints of
  \<open>src/internal/endpoint/endpoints.go\<close> and the HTTP handler of
  \<open>src/internal/transport/http/handlers.go\<close>. A request is decoded into a
  request struct, the endpoint calls the service and wraps the outcome in a
  response struct, and the response is encoded as JSON. The JSON reader of the
  request body and \<open>time.Parse(time.RFC3339, _)\<close> are the interface record
  \<open>codec\<close>; a JSON value is the datatype \<open>json\<close>, its printing as text is the
  library's. Clock readings are \<open>clk i\<close> for the \<open>i\<close>-th call of
  \<open>time.Now()\<close> in the request.
\<close>

section \<open>Request and response structs\<close>

record RegisterVideoRequest =
  rq_Platform :: string
  rq_VideoID :: string
  rq_Username :: string
  rq_Tag :: string

record RegisterVideoResponse =
  rs_ID :: string
  rs_Error :: string

record GetStatsRequest =
  gq_VideoID :: string
  gq_From :: time
  gq_To :: time

text \<open>\<open>Stats []interface{}\<close>: \<open>None\<close> is the nil slice, \<open>Some xs\<close> a slice.\<close>

record GetStatsResponse =
  gs_Stats :: "video_stats list option"
  gs_Error :: string

text \<open>The \<open>interface{}\<close> an endpoint returns.\<close>

datatype response = RegResponse RegisterVideoResponse | StatsResponse GetStatsResponse

section \<open>Endpoints\<close>

text \<open>The endpoint never returns a Go error: a failed registration is a
  response whose \<open>Error\<close> is the message, a successful one the empty struct
  (its \<open>ID\<close> is never set).\<close>

definition makeRegisterVideoEndpoint ::
  "net \<Rightarrow> video_service \<Rightarrow> time \<Rightarrow> RegisterVideoRequest \<Rightarrow> store \<Rightarrow> response \<times> store" where
  "makeRegisterVideoEndpoint nt svc now req st =
     (case RegisterVideo nt svc now (rq_Platform req) (rq_VideoID req) (rq_Username req) (rq_Tag req) st of
        Inl e \<Rightarrow> (RegResponse \<lparr>rs_ID = [], rs_Error = e\<rparr>, st)
      | Inr st' \<Rightarrow> (RegResponse \<lparr>rs_ID = [], rs_Error = []\<rparr>, st'))"

text \<open>The query of the repository does not fail in the model, so the error
  branch of the endpoint is not taken; the copy into \<open>[]interface{}\<close> keeps
  the elements and their order.\<close>

definition makeGetStatsEndpoint :: "store \<Rightarrow> GetStatsRequest \<Rightarrow> response" where
  "makeGetStatsEndpoint st req =
     StatsResponse \<lparr>gs_Stats = Some (svc_GetVideoStats st (gq_VideoID req) (gq_From req) (gq_To req)),
                    gs_Error = []\<rparr>"

text \<open>\<open>Endpoints\<close> and \<open>MakeEndpoints\<close>: the two go-kit endpoints over one
  service. The service reads the clock when the endpoint runs, so the
  registration endpoint takes the instant of the call.\<close>

record endpoints =
  ep_RegisterVideo :: "time \<Rightarrow> RegisterVideoRequest \<Rightarrow> store \<Rightarrow> response \<times> store"
  ep_GetStats :: "store \<Rightarrow> GetStatsRequest \<Rightarrow> response"

definition MakeEndpoints :: "net \<Rightarrow> video_service \<Rightarrow> endpoints" where
  "MakeEndpoints nt svc =
     \<lparr>ep_RegisterVideo = makeRegisterVideoEndpoint nt svc, ep_GetStats = makeGetStatsEndpoint\<rparr>"

section \<open>JSON encoding\<close>

text \<open>A JSON value as \<open>encoding/json\<close> produces it; \<open>JTime\<close> is a
  \<open>time.Time\<close>, which marshals as its RFC 3339 text.\<close>

datatype json =
  JNull | JBool bool | JNumber int | JString string | JArray "json list"
  | JObject "(string \<times> json) list" | JTime time

text \<open>\<open>omitempty\<close> on a string field: the key is left out when the string is
  empty. On a struct field (\<open>sql.NullString\<close>) \<open>omitempty\<close> has no effect,
  and \<open>sql.NullString\<close> has no \<open>MarshalJSON\<close>: it is the object of its two
  exported fields.\<close>

definition omitempty :: "string \<Rightarrow> string \<Rightarrow> (string \<times> json) list" where
  "omitempty k v = (if v = [] then [] else [(k, JString v)])"

definition null_string_json :: "null_string \<Rightarrow> json" where
  "null_string_json n = JObject [(''String'', JString (ns_String n)), (''Valid'', JBool (ns_Valid n))]"

definition video_stats_json :: "video_stats \<Rightarrow> json" where
  "video_stats_json s =
     JObject [(''id'', JString (s_ID s)), (''video_id'', JString (s_VideoID s)),
              (''timestamp'', JTime (s_Timestamp s)),
              (''views'', JNumber (sint (s_Views s))), (''likes'', JNumber (sint (s_Likes s))),
              (''comments'', JNumber (sint (s_Comments s))),
              (''caption'', null_string_json (s_Caption s)),
              (''permalink'', null_string_json (s_Permalink s)),
              (''media_type'', null_string_json (s_MediaType s)),
              (''media_url'', null_string_json (s_MediaURL s))]"

definition response_json :: "response \<Rightarrow> json" where
  "response_json r =
     (case r of
        RegResponse rr \<Rightarrow> JObject (omitempty ''id'' (rs_ID rr) @ omitempty ''error'' (rs_Error rr))
      | StatsResponse sr \<Rightarrow>
          JObject ((''stats'', case gs_Stats sr of None \<Rightarrow> JNull | Some xs \<Rightarrow> JArray (map video_stats_json xs))
                   # omitempty ''error'' (gs_Error sr)))"

section \<open>HTTP handler\<close>

record http_request =
  hq_Method :: string
  hq_Path :: string
  hq_Query :: "(string \<times> string) list"
  hq_Body :: string

text \<open>A reply: status, \<open>Content-Type\<close> and body; the router's own replies
  are plain text.\<close>

datatype reply_body = JSONBody json | TextBody string

record http_reply =
  hr_Status :: nat
  hr_ContentType :: string
  hr_Body :: reply_body

record codec =
  decode_register :: "string \<Rightarrow> RegisterVideoRequest result"
  parse_rfc3339 :: "string \<Rightarrow> time result"

definition json_content_type :: string where
  [model_defs]: "json_content_type = ''application/json; charset=utf-8''"

text \<open>\<open>encodeResponse\<close>: status 200 (no \<open>WriteHeader\<close>), the response as JSON.
  \<open>encodeError\<close>: status 500 and \<open>{"error": msg}\<close>; go-kit calls it when the
  decoder fails.\<close>

definition encodeResponse :: "response \<Rightarrow> http_reply" where
  "encodeResponse r = \<lparr>hr_Status = 200, hr_ContentType = json_content_type, hr_Body = JSONBody (response_json r)\<rparr>"

definition encodeError :: "error \<Rightarrow> http_reply" where
  "encodeError e =
     \<lparr>hr_Status = 500, hr_ContentType = json_content_type,
      hr_Body = JSONBody (JObject [(''error'', JString e)])\<rparr>"

definition decodeRegisterVideoRequest :: "codec \<Rightarrow> http_request \<Rightarrow> RegisterVideoRequest result" where
  "decodeRegisterVideoRequest c r = decode_register c (hq_Body r)"

text \<open>\<open>r.URL.Query().Get(k)\<close>: the first value of the key, \<open>""\<close> when absent.\<close>

definition query_get :: "(string \<times> string) list \<Rightarrow> string \<Rightarrow> string" where
  "query_get q k = (case map_of q k of Some v \<Rightarrow> v | None \<Rightarrow> [])"

text \<open>\<open>time.Now().AddDate(0, 0, -7)\<close>, on a server whose local zone has no
  daylight-saving shift in the week (UTC): seven days of nanoseconds.\<close>

definition seven_days :: duration where
  [model_defs]: "seven_days = 7 * 24 * 60 * 60 * 1000000000"

text \<open>\<open>decodeGetStatsRequest\<close>: \<open>from\<close> defaults to a week before the first
  clock reading, \<open>to\<close> to the second reading; a parse error of either returns
  before the rest is read.\<close>

definition decodeGetStatsRequest :: "codec \<Rightarrow> (nat \<Rightarrow> time) \<Rightarrow> http_request \<Rightarrow> GetStatsRequest result" where
  "decodeGetStatsRequest c clk r =
     (let fromStr = query_get (hq_Query r) ''from''
      in case (if fromStr = [] then Inr (clk 0 - seven_days) else parse_rfc3339 c fromStr) of
           Inl e \<Rightarrow> Inl e
         | Inr from \<Rightarrow>
             (let toStr = query_get (hq_Query r) ''to''
              in case (if toStr = [] then Inr (clk 1) else parse_rfc3339 c toStr) of
                   Inl e \<Rightarrow> Inl e
                 | Inr to \<Rightarrow> Inr \<lparr>gq_VideoID = query_get (hq_Query r) ''video_id'', gq_From = from, gq_To = to\<rparr>))"

text \<open>The \<open>mux\<close> router: a path without a route is \<open>404 page not found\<close>, a
  known path with another method \<open>405\<close> with an empty body.\<close>

definition not_found_reply :: http_reply where
  "not_found_reply = \<lparr>hr_Status = 404, hr_ContentType = ''text/plain; charset=utf-8'',
                      hr_Body = TextBody ''404 page not found\<newline>''\<rparr>"

definition method_not_allowed_reply :: http_reply where
  "method_not_allowed_reply = \<lparr>hr_Status = 405, hr_ContentType = [], hr_Body = TextBody []\<rparr>"

text \<open>\<open>NewHTTPHandler(endpoints)\<close>: the two routes, each a go-kit server of
  decoder, endpoint and encoder.\<close>

definition NewHTTPHandler ::
  "codec \<Rightarrow> endpoints \<Rightarrow> (nat \<Rightarrow> time) \<Rightarrow> http_request \<Rightarrow> store \<Rightarrow> http_reply \<times> store" where
  "NewHTTPHandler c eps clk r st =
     (if hq_Path r = ''/track-video'' then
        (if hq_Method r \<noteq> ''POST'' then (method_not_allowed_reply, st)
         else case decodeRegisterVideoRequest c r of
                Inl e \<Rightarrow> (encodeError e, st)
              | Inr req \<Rightarrow> map_prod encodeResponse id (ep_RegisterVideo eps (clk 0) req st))
      else if hq_Path r = ''/stats'' then
        (if hq_Method r \<noteq> ''GET'' then (method_not_allowed_reply, st)
         else case decodeGetStatsRequest c clk r of
                Inl e \<Rightarrow> (encodeError e, st)
              | Inr req \<Rightarrow> (encodeResponse (ep_GetStats eps st req), st))
      else (not_found_reply, st))"

section \<open>Test requests\<close>

text \<open>A decoder that yields a fixed result, as the JSON reader does for a
  body that carries a request or is malformed, and a time parser that
  rejects everything.\<close>

definition demo_codec :: "RegisterVideoRequest result \<Rightarrow> codec" where
  "demo_codec d =
     \<lparr>decode_register = (\<lambda>_. d),
      parse_rfc3339 = (\<lambda>s. Inl (''parsing time '' @ s @ '': cannot parse''))\<rparr>"

definition demo_post :: http_request where
  "demo_post = \<lparr>hq_Method = ''POST'', hq_Path = ''/track-video'', hq_Query = [], hq_Body = ''{}''\<rparr>"

definition demo_get :: "(string \<times> string) list \<Rightarrow> http_request" where
  "demo_get q = \<lparr>hq_Method = ''GET'', hq_Path = ''/stats'', hq_Query = q, hq_Body = []\<rparr>"

definition abc_request :: RegisterVideoRequest where
  "abc_request = \<lparr>rq_Platform = ''youtube'', rq_VideoID = ''abc123'', rq_Username = [], rq_Tag = []\<rparr>"

text \<open>What the JSON reader yields for a body that names only the platform:
  the missing fields keep their zero value.\<close>

definition missing_id_request :: RegisterVideoRequest where
  "missing_id_request = \<lparr>rq_Platform = ''youtube'', rq_VideoID = [], rq_Username = [], rq_Tag = []\<rparr>"

section \<open>Properties\<close>

text \<open>The handler writes the store only through a registration.\<close>

lemma RegisterVideo_Inl_nonempty:
  assumes "RegisterVideo nt svc now p vid u tag st = Inl e"
  shows "e \<noteq> []"
proof -
  have c: "map_sum id snd (CreateVideo now v st) = Inl e \<Longrightarrow> e \<noteq> []" for v
    using CreateVideo_Inl [of now v st e]
    by (cases "CreateVideo now v st") (auto simp: unique_violation_def)
  show ?thesis
    using assms c unfolding RegisterVideo_def Let_def
    by (auto split: if_splits sum.split_asm)
qed

lemma NewHTTPHandler_store_cases:
  "snd (NewHTTPHandler c (MakeEndpoints nt svc) clk r st) = st \<or>
   (\<exists>req :: RegisterVideoRequest. RegisterVideo nt svc (clk 0) (rq_Platform req) (rq_VideoID req) (rq_Username req) (rq_Tag req) st =
          Inr (snd (NewHTTPHandler c (MakeEndpoints nt svc) clk r st)))"
proof (cases "hq_Path r = ''/track-video'' \<and> hq_Method r = ''POST''")
  case True
  then show ?thesis
  proof (cases "decodeRegisterVideoRequest c r")
    case (Inr req)
    with True show ?thesis
      by (cases "RegisterVideo nt svc (clk 0) (rq_Platform req) (rq_VideoID req) (rq_Username req) (rq_Tag req) st")
         (auto simp: NewHTTPHandler_def MakeEndpoints_def makeRegisterVideoEndpoint_def)
  qed (simp add: NewHTTPHandler_def MakeEndpoints_def)
qed (auto simp: NewHTTPHandler_def MakeEndpoints_def split: sum.split)

text \<open>C12: a decodable \<open>POST /track-video\<close> always answers 200: with
  \<open>{"error": msg}\<close> and the store unchanged when the registration fails,
  with \<open>{}\<close> (no id of the new video) and the new store when it succeeds.\<close>

theorem NewHTTPHandler_track_video:
  assumes "hq_Method r = ''POST''" and "hq_Path r = ''/track-video''"
    and "decode_register c (hq_Body r) = Inr req"
  shows "NewHTTPHandler c (MakeEndpoints nt svc) clk r st =
    (case RegisterVideo nt svc (clk 0) (rq_Platform req) (rq_VideoID req) (rq_Username req) (rq_Tag req) st of
       Inl e \<Rightarrow> (\<lparr>hr_Status = 200, hr_ContentType = json_content_type,
                  hr_Body = JSONBody (JObject [(''error'', JString e)])\<rparr>, st)
     | Inr st' \<Rightarrow> (\<lparr>hr_Status = 200, hr_ContentType = json_content_type, hr_Body = JSONBody (JObject [])\<rparr>, st'))"
  using assms RegisterVideo_Inl_nonempty
  by (auto simp: NewHTTPHandler_def MakeEndpoints_def decodeRegisterVideoRequest_def makeRegisterVideoEndpoint_def
                 encodeResponse_def response_json_def omitempty_def split: sum.splits)

text \<open>C14: a body the JSON reader rejects is answered with status 500
  (internal server error) and the reader's message; nothing is written.\<close>

theorem NewHTTPHandler_bad_body:
  assumes "hq_Method r = ''POST''" and "hq_Path r = ''/track-video''"
    and "decode_register c (hq_Body r) = Inl e"
  shows "NewHTTPHandler c (MakeEndpoints nt svc) clk r st =
    (\<lparr>hr_Status = 500, hr_ContentType = json_content_type, hr_Body = JSONBody (JObject [(''error'', JString e)])\<rparr>, st)"
  using assms by (simp add: NewHTTPHandler_def MakeEndpoints_def decodeRegisterVideoRequest_def encodeError_def)

text \<open>C25: an unparsable \<open>from\<close> parameter of \<open>GET /stats\<close> is likewise a
  500 reply with the parser's message.\<close>

theorem NewHTTPHandler_bad_from:
  assumes "hq_Method r = ''GET''" and "hq_Path r = ''/stats''"
    and "query_get (hq_Query r) ''from'' \<noteq> []" and "parse_rfc3339 c (query_get (hq_Query r) ''from'') = Inl e"
  shows "NewHTTPHandler c (MakeEndpoints nt svc) clk r st =
    (\<lparr>hr_Status = 500, hr_ContentType = json_content_type, hr_Body = JSONBody (JObject [(''error'', JString e)])\<rparr>, st)"
  using assms by (simp add: NewHTTPHandler_def MakeEndpoints_def decodeGetStatsRequest_def encodeError_def Let_def)

text \<open>C15: without \<open>from\<close> and \<open>to\<close>, \<open>GET /stats\<close> returns the video's
  snapshots from a week before the first clock reading to the second
  reading, in the query's order, and writes nothing.\<close>

theorem NewHTTPHandler_stats_default_window:
  assumes "hq_Method r = ''GET''" and "hq_Path r = ''/stats''"
    and "query_get (hq_Query r) ''from'' = []" and "query_get (hq_Query r) ''to'' = []"
  shows "NewHTTPHandler c (MakeEndpoints nt svc) clk r st =
    (\<lparr>hr_Status = 200, hr_ContentType = json_content_type,
      hr_Body = JSONBody (JObject [(''stats'', JArray (map video_stats_json
         (GetVideoStats st (query_get (hq_Query r) ''video_id'') (clk 0 - seven_days) (clk 1))))])\<rparr>, st)"
  using assms
  by (simp add: NewHTTPHandler_def MakeEndpoints_def decodeGetStatsRequest_def encodeResponse_def response_json_def
                makeGetStatsEndpoint_def svc_GetVideoStats_def omitempty_def Let_def)

text \<open>C13: a stats query for a video with no snapshot answers 200 with an
  empty list (not \<open>null\<close>, no error), as the spec requires.\<close>

theorem NewHTTPHandler_stats_empty:
  assumes "hq_Method r = ''GET''" and "hq_Path r = ''/stats''"
    and "decodeGetStatsRequest c clk r = Inr req"
    and "\<forall>s\<in>set (stats_rows st). s_VideoID s \<noteq> gq_VideoID req"
  shows "NewHTTPHandler c (MakeEndpoints nt svc) clk r st =
    (\<lparr>hr_Status = 200, hr_ContentType = json_content_type, hr_Body = JSONBody (JObject [(''stats'', JArray [])])\<rparr>, st)"
proof -
  from assms(4) have "GetVideoStats st (gq_VideoID req) (gq_From req) (gq_To req) = []"
    by (auto simp: GetVideoStats_def sort_key_eq_Nil_iff filter_empty_conv)
  with assms(1-3) show ?thesis
    by (simp add: NewHTTPHandler_def MakeEndpoints_def encodeResponse_def response_json_def makeGetStatsEndpoint_def
                  svc_GetVideoStats_def omitempty_def)
qed

text \<open>A registration body without \<open>video_id\<close> is accepted: the video
  is created with the empty external id.\<close>

theorem scenario_register_missing_video_id:
  "NewHTTPHandler (demo_codec (Inr missing_id_request)) (MakeEndpoints (yt_net ''100'' ''10'') demo_service) (\<lambda>_. 0)
     demo_post empty_store =
   (\<lparr>hr_Status = 200, hr_ContentType = json_content_type, hr_Body = JSONBody (JObject [])\<rparr>,
    empty_store\<lparr>videos := [(new_video ''youtube'' [] [] [])\<lparr>v_ID := ''1''\<rparr>], next_video_id := 2\<rparr>)"
  by (simp add: NewHTTPHandler_def MakeEndpoints_def demo_codec_def demo_post_def missing_id_request_def
      decodeRegisterVideoRequest_def makeRegisterVideoEndpoint_def RegisterVideo_def GetVideo_def
      CreateVideo_def empty_store_def Let_def new_video_def model_defs encodeResponse_def
      response_json_def omitempty_def dec_string.simps)


subsection \<open>The properties at concrete requests\<close>

lemmas demo_request_defs = demo_codec_def demo_post_def demo_get_def abc_request_def

lemmas register_eval_defs = RegisterVideo_def GetVideo_def CreateVideo_def empty_store_def Let_def
  new_video_def model_defs dec_string.simps

theorem NewHTTPHandler_track_video_witness:
  "hq_Method demo_post = ''POST'' \<and> hq_Path demo_post = ''/track-video'' \<and>
   decode_register (demo_codec (Inr abc_request)) (hq_Body demo_post) = Inr abc_request \<and>
   NewHTTPHandler (demo_codec (Inr abc_request)) (MakeEndpoints (yt_net ''100'' ''10'') demo_service) (\<lambda>_. 0) demo_post empty_store =
     (\<lparr>hr_Status = 200, hr_ContentType = json_content_type, hr_Body = JSONBody (JObject [])\<rparr>,
      empty_store\<lparr>videos := [(new_video ''youtube'' ''abc123'' [] [])\<lparr>v_ID := ''1''\<rparr>], next_video_id := 2\<rparr>)"
  using NewHTTPHandler_track_video [of demo_post "demo_codec (Inr abc_request)" abc_request
          "yt_net ''100'' ''10''" demo_service "\<lambda>_. 0" empty_store]
  by (simp add: demo_request_defs register_eval_defs)

theorem NewHTTPHandler_bad_body_witness:
  "hq_Method demo_post = ''POST'' \<and> hq_Path demo_post = ''/track-video'' \<and>
   decode_register (demo_codec (Inl ''unexpected EOF'')) (hq_Body demo_post) = Inl ''unexpected EOF'' \<and>
   hr_Status (fst (NewHTTPHandler (demo_codec (Inl ''unexpected EOF'')) (MakeEndpoints (yt_net ''100'' ''10'') demo_service)
      (\<lambda>_. 0) demo_post empty_store)) = 500"
  using NewHTTPHandler_bad_body [of demo_post "demo_codec (Inl ''unexpected EOF'')" "''unexpected EOF''"
          "yt_net ''100'' ''10''" demo_service "\<lambda>_. 0" empty_store]
  by (simp add: demo_request_defs)

theorem NewHTTPHandler_bad_from_witness:
  "hq_Method (demo_get [(''from'', ''yesterday'')]) = ''GET'' \<and>
   hq_Path (demo_get [(''from'', ''yesterday'')]) = ''/stats'' \<and>
   query_get (hq_Query (demo_get [(''from'', ''yesterday'')])) ''from'' \<noteq> [] \<and>
   parse_rfc3339 (demo_codec (Inr abc_request)) (query_get (hq_Query (demo_get [(''from'', ''yesterday'')])) ''from'') =
     Inl ''parsing time yesterday: cannot parse'' \<and>
   fst (NewHTTPHandler (demo_codec (Inr abc_request)) (MakeEndpoints (yt_net ''100'' ''10'') demo_service) (\<lambda>_. 0)
      (demo_get [(''from'', ''yesterday'')]) empty_store) =
     \<lparr>hr_Status = 500, hr_ContentType = json_content_type,
      hr_Body = JSONBody (JObject [(''error'', JString ''parsing time yesterday: cannot parse'')])\<rparr>"
  using NewHTTPHandler_bad_from [of "demo_get [(''from'', ''yesterday'')]" "demo_codec (Inr abc_request)"
          "''parsing time yesterday: cannot parse''" "yt_net ''100'' ''10''" demo_service "\<lambda>_. 0" empty_store]
  by (simp add: demo_request_defs query_get_def)

theorem NewHTTPHandler_stats_default_window_witness:
  "hq_Method (demo_get [(''video_id'', ''v'')]) = ''GET'' \<and> hq_Path (demo_get [(''video_id'', ''v'')]) = ''/stats'' \<and>
   query_get (hq_Query (demo_get [(''video_id'', ''v'')])) ''from'' = [] \<and>
   query_get (hq_Query (demo_get [(''video_id'', ''v'')])) ''to'' = [] \<and>
   NewHTTPHandler (demo_codec (Inr abc_request)) (MakeEndpoints (yt_net ''100'' ''10'') demo_service) (\<lambda>_. 12)
      (demo_get [(''video_id'', ''v'')]) demo_stats_store =
     (\<lparr>hr_Status = 200, hr_ContentType = json_content_type,
       hr_Body = JSONBody (JObject [(''stats'', JArray [video_stats_json (video_stats_zero\<lparr>s_ID := ''3'',
          s_VideoID := ''v'', s_Timestamp := 5, s_Views := 3\<rparr>)])])\<rparr>, demo_stats_store)"
  using NewHTTPHandler_stats_default_window [of "demo_get [(''video_id'', ''v'')]"
          "demo_codec (Inr abc_request)" "yt_net ''100'' ''10''" demo_service "\<lambda>_. 12" demo_stats_store]
  by (simp add: demo_request_defs query_get_def GetVideoStats_def demo_stats_store_def in_window_def
      seven_days_def)

theorem NewHTTPHandler_stats_empty_witness:
  "hq_Method (demo_get [(''video_id'', ''abc123'')]) = ''GET'' \<and>
   hq_Path (demo_get [(''video_id'', ''abc123'')]) = ''/stats'' \<and>
   decodeGetStatsRequest (demo_codec (Inr abc_request)) (\<lambda>_. 0) (demo_get [(''video_id'', ''abc123'')]) =
     Inr \<lparr>gq_VideoID = ''abc123'', gq_From = - seven_days, gq_To = 0\<rparr> \<and>
   hr_Body (fst (NewHTTPHandler (demo_codec (Inr abc_request)) (MakeEndpoints (yt_net ''100'' ''10'') demo_service) (\<lambda>_. 0)
      (demo_get [(''video_id'', ''abc123'')]) demo_stats_store)) = JSONBody (JObject [(''stats'', JArray [])])"
proof -
  have d: "decodeGetStatsRequest (demo_codec (Inr abc_request)) (\<lambda>_. 0) (demo_get [(''video_id'', ''abc123'')]) =
     Inr \<lparr>gq_VideoID = ''abc123'', gq_From = - seven_days, gq_To = 0\<rparr>"
    by (simp add: decodeGetStatsRequest_def demo_get_def query_get_def Let_def)
  have n: "\<forall>s\<in>set (stats_rows demo_stats_store). s_VideoID s \<noteq> ''abc123''"
    by (simp add: demo_stats_store_def)
  show ?thesis
    using NewHTTPHandler_stats_empty [of "demo_get [(''video_id'', ''abc123'')]" "demo_codec (Inr abc_request)"
            "\<lambda>_. 0" "\<lparr>gq_VideoID = ''abc123'', gq_From = - seven_days, gq_To = 0\<rparr>" demo_stats_store
            "yt_net ''100'' ''10''" demo_service] d n
    by (simp add: demo_get_def)
qed

end
