(* ===== verification/Engine.thy ===== *)
theory Engine
  imports Poller Transport
begin

text \<open>
  The running server of \<open>src/cmd/server/main.go\<close>: one SQLite store, one
  service, one poller, and a clock. The HTTP handler (\<open>NewHTTPHandler\<close>
  of \<open>Transport\<close>) serves requests while the two cron jobs of
  \<open>Poller.Start\<close> run; the steps of the relation below are the atomic
  pieces these interleave: one HTTP request (a registration, a stats query,
  or a request the router or a decoder rejects), the start of a baseline
  sweep, one iteration of a sweep in progress, the end of a sweep, one
  iteration of a hot sweep, and the clock moving forward. A whole
  sweep is a sequence of its iterations, so every interleaving of sweeps and
  requests is a run of this relation. Each step reads the clock as
  \<open>time.Now()\<close> does; the network a step sees is arbitrary.
  The grain of the steps is a modelling choice, coarser than the code's:
  one sweep iteration (the platform call, \<open>time.Now()\<close> and the
  \<open>INSERT\<close>) is a single step, each operation on the unsynchronised map
  \<open>viralVideos\<close> is a single step, and the clock never goes back. The
  theorems over reachable states hold for runs of this grain.
\<close>

section \<open>State and steps\<close>

text \<open>\<open>sweeps\<close> holds, for each baseline sweep in progress, the videos it
  has still to visit: the list \<open>pollAllVideos\<close> read with
  \<open>GetAllVideos\<close> when it started, less those its \<open>range\<close> loop has done.
  \<open>cron.New()\<close> is created without a \<open>SkipIfStillRunning\<close> wrapper, so a
  tick that fires while a sweep runs starts another one beside it.
  \<open>regs\<close> holds the registrations whose checks have passed and whose
  \<open>INSERT\<close> has not run yet: each HTTP request runs on its own goroutine,
  so other steps can come between the two halves of \<open>RegisterVideo\<close>.\<close>

record engine =
  db :: store
  worker :: poller
  clock :: time
  sweeps :: "video list list"
  regs :: "video list"

text \<open>A fresh database file and \<open>NewPoller\<close>.\<close>

definition engine_init :: engine where
  "engine_init = \<lparr>db = empty_store, worker = NewPoller, clock = 0, sweeps = [], regs = []\<rparr>"

text \<open>The configuration \<open>main\<close> reads: \<open>getEnv\<close> returns the variable's
  value unless it is unset or empty (\<open>os.Getenv\<close> returns \<open>""\<close> for both),
  and then the default compiled into \<open>main.go\<close>. The environment is a total
  function to strings, as \<open>os.Getenv\<close> is; the compiled-in defaults are the
  parameter \<open>dflt\<close>.\<close>

record server_config =
  cfg_youtubeAPIKey :: string
  cfg_instagramToken :: string
  cfg_instagramID :: string
  cfg_httpPort :: string

definition getEnv :: "(string \<Rightarrow> string) \<Rightarrow> string \<Rightarrow> string \<Rightarrow> string" where
  "getEnv env key defaultValue = (if env key \<noteq> [] then env key else defaultValue)"

definition load_config :: "(string \<Rightarrow> string) \<Rightarrow> server_config \<Rightarrow> server_config" where
  "load_config env dflt =
     \<lparr>cfg_youtubeAPIKey = getEnv env ''YOUTUBE_API_KEY'' (cfg_youtubeAPIKey dflt),
      cfg_instagramToken = getEnv env ''INSTAGRAM_TOKEN'' (cfg_instagramToken dflt),
      cfg_instagramID = getEnv env ''INSTAGRAM_ID'' (cfg_instagramID dflt),
      cfg_httpPort = getEnv env ''HTTP_PORT'' (cfg_httpPort dflt)\<rparr>"

text \<open>\<open>service.NewService(repo, youtubeAPIKey, instagramToken, instagramID)\<close>.\<close>

definition main_service :: "server_config \<Rightarrow> video_service" where
  "main_service cfg = NewService (cfg_youtubeAPIKey cfg) (cfg_instagramToken cfg) (cfg_instagramID cfg)"

inductive engine_step :: "video_service \<Rightarrow> engine \<Rightarrow> engine \<Rightarrow> bool" for svc where
  tick: "clock e \<le> t \<Longrightarrow> engine_step svc e (e\<lparr>clock := t\<rparr>)"
| request: "NewHTTPHandler c (MakeEndpoints nt svc) (\<lambda>_. clock e) r (db e) = (rep, st') \<Longrightarrow>
     engine_step svc e (e\<lparr>db := st'\<rparr>)"
| reg_check: "register_checks nt svc p vid u (db e) = None \<Longrightarrow>
     engine_step svc e (e\<lparr>regs := regs e @ [new_video p vid u tag]\<rparr>)"
| reg_insert: "i < length (regs e) \<Longrightarrow>
     engine_step svc e (e\<lparr>db := (case CreateVideo (clock e) (regs e ! i) (db e) of
                                   Inl _ \<Rightarrow> db e | Inr (_, st') \<Rightarrow> st'),
                        regs := take i (regs e) @ drop (Suc i) (regs e)\<rparr>)"
| sweep_start: "engine_step svc e (e\<lparr>sweeps := sweeps e @ [svc_GetAllVideos (db e)]\<rparr>)"
| sweep_next: "i < length (sweeps e) \<Longrightarrow> sweeps e ! i = video # vs \<Longrightarrow>
     poll_one nt svc (clock e) video (db e, worker e) = (st', w') \<Longrightarrow>
     engine_step svc e (e\<lparr>db := st', worker := w', sweeps := (sweeps e)[i := vs]\<rparr>)"
| sweep_done: "i < length (sweeps e) \<Longrightarrow> sweeps e ! i = [] \<Longrightarrow>
     engine_step svc e (e\<lparr>sweeps := take i (sweeps e) @ drop (Suc i) (sweeps e)\<rparr>)"
| expire_key: "engine_step svc e
     (e\<lparr>worker := (worker e)\<lparr>viralVideos := expire_one (clock e) k (viralVideos (worker e))\<rparr>\<rparr>)"

inductive reachable :: "video_service \<Rightarrow> engine \<Rightarrow> bool" for svc where
  init: "reachable svc engine_init"
| step: "reachable svc e \<Longrightarrow> engine_step svc e e' \<Longrightarrow> reachable svc e'"

section \<open>The engine invariant\<close>

text \<open>
  Beyond the invariants of the store and the service: no snapshot is later
  than the clock, each belongs to a tracked video, and each hot-set entry
  names a tracked video and was flagged no later than now.
\<close>

definition tracked_id :: "store \<Rightarrow> string \<Rightarrow> bool" where
  "tracked_id st vid \<longleftrightarrow> list_ex (\<lambda>v. v_VideoID v = vid) (videos st)"

text \<open>The values a stored video can hold: a platform the service supports and
  one of the two states the code ever writes.\<close>

definition video_typed :: "video \<Rightarrow> bool" where
  "video_typed v \<longleftrightarrow>
     supported_platform (v_Platform v) \<and> (v_State v = StateRegistered \<or> v_State v = StateError)"

definition engine_inv :: "engine \<Rightarrow> bool" where
  "engine_inv e \<longleftrightarrow>
     wf_store (db e) \<and> svc_inv (db e) \<and> list_all video_typed (videos (db e)) \<and>
     list_all video_typed (regs e) \<and>
     (\<forall>sw\<in>set (sweeps e). \<forall>v\<in>set sw. tracked_id (db e) (v_VideoID v)) \<and>
     list_all (\<lambda>s. s_Timestamp s \<le> clock e \<and> tracked_id (db e) (s_VideoID s)) (stats_rows (db e)) \<and>
     (\<forall>k t. viralVideos (worker e) k = Some t \<longrightarrow> t \<le> clock e \<and> tracked_id (db e) k)"

section \<open>A state reached by the server\<close>

text \<open>The store after registering YouTube video \<open>abc123\<close> on a fresh
  database, and the engine in that state.\<close>

definition demo_registered :: store where
  "demo_registered =
     (case RegisterVideo (yt_net ''100'' ''10'') demo_service 0 ''youtube'' ''abc123'' [] [] empty_store of
        Inr st \<Rightarrow> st | Inl _ \<Rightarrow> empty_store)"

definition demo_engine :: engine where
  "demo_engine = engine_init\<lparr>db := demo_registered\<rparr>"

section \<open>Properties\<close>

subsection \<open>The invariant holds in every reachable state\<close>

lemma list_ex_map_same:
  "(\<And>x. P (f x) = P x) \<Longrightarrow> list_ex P (map f xs) = list_ex P xs"
  by (induction xs) auto

lemma tracked_id_UpdateVideoState [simp]:
  "tracked_id (UpdateVideoState st vid s) k = tracked_id st k"
  unfolding tracked_id_def UpdateVideoState_def by (simp add: list_ex_map_same)

lemma tracked_id_stats_update [simp]:
  "tracked_id (st\<lparr>stats_rows := rs, next_stats_id := n\<rparr>) k = tracked_id st k"
  by (simp add: tracked_id_def)

lemma svc_inv_UpdateVideoState:
  "svc_inv st \<Longrightarrow> svc_inv (UpdateVideoState st vid StateError)"
  by (auto simp: svc_inv_def list_all_iff UpdateVideoState_def)

lemma wf_store_append_stats:
  assumes "wf_store st" and "s_ID row = dec_string (next_stats_id st)"
  shows "wf_store (st\<lparr>stats_rows := stats_rows st @ [row], next_stats_id := Suc (next_stats_id st)\<rparr>)"
  using assms by (auto simp: wf_store_def list_all_iff)

lemma RegisterVideo_store:
  assumes "RegisterVideo nt svc now p vid u tag st = Inr st'"
  shows "stats_rows st' = stats_rows st \<and> set (videos st) \<subseteq> set (videos st')"
  using assms by (auto simp: RegisterVideo_Inr_iff CreateVideo_Inr)

lemma tracked_id_mono:
  "set (videos st) \<subseteq> set (videos st') \<Longrightarrow> tracked_id st k \<Longrightarrow> tracked_id st' k"
  by (auto simp: tracked_id_def list_ex_iff)

lemma poll_one_cases:
  assumes "poll_one nt svc now video (st, w) = (st', w')"
  shows "st' = snd (UpdateVideoStats nt svc now video st) \<and>
         (w' = w \<or> w' = checkViralCondition now video w)"
  using assms by (auto simp: poll_one_def split: prod.splits sum.splits)

lemma RegisterVideo_typed:
  assumes "RegisterVideo nt svc now p vid u tag st = Inr st'" and "list_all video_typed (videos st)"
  shows "list_all video_typed (videos st')"
  using assms by (auto simp: RegisterVideo_Inr_iff CreateVideo_Inr video_typed_def)

lemma pending_tracked_mono:
  assumes "\<forall>sw\<in>set xs. \<forall>v\<in>set sw. tracked_id st (v_VideoID v)"
    and "\<And>k. tracked_id st k \<Longrightarrow> tracked_id st' k" and "set ys \<subseteq> set xs"
  shows "\<forall>sw\<in>set ys. \<forall>v\<in>set sw. tracked_id st' (v_VideoID v)"
  using assms by blast

text \<open>Without the variables (or with them empty) the server runs with the
  credentials compiled into the binary.\<close>

lemma load_config_unset:
  "env ''YOUTUBE_API_KEY'' = [] \<Longrightarrow> env ''INSTAGRAM_TOKEN'' = [] \<Longrightarrow>
   cfg_youtubeAPIKey (load_config env dflt) = cfg_youtubeAPIKey dflt \<and>
   cfg_instagramToken (load_config env dflt) = cfg_instagramToken dflt"
  by (simp add: load_config_def getEnv_def)

lemma main_service_keys:
  "yt_apiKey (youtubeClient (main_service (load_config env dflt))) =
     getEnv env ''YOUTUBE_API_KEY'' (cfg_youtubeAPIKey dflt)"
  by (simp add: main_service_def NewService_def load_config_def)

lemma engine_inv_init: "engine_inv engine_init"
  by (simp add: engine_inv_def engine_init_def empty_store_def wf_store_def svc_inv_def NewPoller_def)

lemma engine_inv_tick: "engine_inv e \<Longrightarrow> clock e \<le> t \<Longrightarrow> engine_inv (e\<lparr>clock := t\<rparr>)"
  by (auto simp: engine_inv_def list_all_iff; metis order.trans)

lemma engine_inv_register:
  assumes "engine_inv e" and "RegisterVideo nt svc now p vid u tag (db e) = Inr st'"
  shows "engine_inv (e\<lparr>db := st'\<rparr>)"
proof -
  from assms(2) have st': "stats_rows st' = stats_rows (db e)" "set (videos (db e)) \<subseteq> set (videos st')"
    by (simp_all add: RegisterVideo_store)
  have "wf_store st'" "svc_inv st'" "list_all video_typed (videos st')"
    using assms RegisterVideo_wf RegisterVideo_svc_inv RegisterVideo_typed by (auto simp: engine_inv_def)
  with assms(1) st' show ?thesis
    by (auto simp: engine_inv_def list_all_iff intro: tracked_id_mono)
qed

lemma engine_inv_request:
  assumes "engine_inv e" and "NewHTTPHandler c (MakeEndpoints nt svc) (\<lambda>_. clock e) r (db e) = (rep, st')"
  shows "engine_inv (e\<lparr>db := st'\<rparr>)"
proof -
  from NewHTTPHandler_store_cases [of c nt svc "\<lambda>_. clock e" r "db e"] assms(2)
  have "st' = db e \<or> (\<exists>req :: RegisterVideoRequest. RegisterVideo nt svc (clock e) (rq_Platform req)
          (rq_VideoID req) (rq_Username req) (rq_Tag req) (db e) = Inr st')"
    by simp
  with assms(1) show ?thesis by (auto intro: engine_inv_register)
qed

lemma engine_inv_expire:
  "engine_inv e \<Longrightarrow>
   engine_inv (e\<lparr>worker := (worker e)\<lparr>viralVideos := expire_one (clock e) k (viralVideos (worker e))\<rparr>\<rparr>)"
  by (auto simp: engine_inv_def expire_one_def split: option.splits if_splits)

lemma engine_inv_sweep_start:
  "engine_inv e \<Longrightarrow> engine_inv (e\<lparr>sweeps := sweeps e @ [svc_GetAllVideos (db e)]\<rparr>)"
  by (auto simp: engine_inv_def svc_GetAllVideos_def GetAllVideos_def tracked_id_def list_ex_iff)

lemma engine_inv_sweep_done:
  "engine_inv e \<Longrightarrow> engine_inv (e\<lparr>sweeps := take i (sweeps e) @ drop (Suc i) (sweeps e)\<rparr>)"
  by (auto simp: engine_inv_def dest: in_set_takeD in_set_dropD)

text \<open>One iteration of a sweep keeps the invariant: the store changes as one
  ingestion does, the hot set at most by the flag of this video, whose id is
  tracked because the sweep read it from the table.\<close>

lemma engine_inv_poll_video:
  assumes inv: "engine_inv e" and tv: "tracked_id (db e) (v_VideoID video)"
    and step: "poll_one nt svc (clock e) video (db e, worker e) = (st', w')"
    and sw: "set sw' \<subseteq> set (sweeps e)"
  shows "engine_inv (e\<lparr>db := st', worker := w', sweeps := sw'\<rparr>)"
proof -
  from poll_one_cases [OF step]
  have st': "st' = snd (UpdateVideoStats nt svc (clock e) video (db e))"
    and w': "w' = worker e \<or> w' = checkViralCondition (clock e) video (worker e)" by simp_all
  have tr: "tracked_id st' k = tracked_id (db e) k" for k
    by (cases rule: UpdateVideoStats_store_cases [of nt svc "clock e" video "db e"]) (simp_all add: st')
  have store: "wf_store st' \<and> svc_inv st' \<and> list_all video_typed (videos st') \<and>
      list_all (\<lambda>s. s_Timestamp s \<le> clock e \<and> tracked_id (db e) (s_VideoID s)) (stats_rows st')"
  proof (cases rule: UpdateVideoStats_store_cases [of nt svc "clock e" video "db e"])
    case same
    with inv st' show ?thesis by (simp add: engine_inv_def)
  next
    case marked
    with inv st' show ?thesis
      by (simp add: engine_inv_def UpdateVideoState_wf svc_inv_UpdateVideoState)
         (auto simp: UpdateVideoState_def list_all_iff video_typed_def)
  next
    case (appended row)
    with inv st' tv show ?thesis
      by (auto simp: engine_inv_def wf_store_append_stats list_all_iff svc_inv_def)
  qed
  have hot: "\<forall>k t. viralVideos w' k = Some t \<longrightarrow> t \<le> clock e \<and> tracked_id (db e) k"
    using w' inv tv by (auto simp: engine_inv_def checkViralCondition_def split: if_splits)
  have pend: "\<forall>s\<in>set sw'. \<forall>v\<in>set s. tracked_id st' (v_VideoID v)"
    using inv sw tr by (auto simp: engine_inv_def)
  from store hot tr pend inv show ?thesis by (simp add: engine_inv_def)
qed

lemma engine_inv_sweep_next:
  assumes inv: "engine_inv e" and i: "i < length (sweeps e)" and hd: "sweeps e ! i = video # vs"
    and step: "poll_one nt svc (clock e) video (db e, worker e) = (st', w')"
  shows "engine_inv (e\<lparr>db := st', worker := w', sweeps := (sweeps e)[i := vs]\<rparr>)"
proof -
  have mem: "video # vs \<in> set (sweeps e)" using i hd by (metis nth_mem)
  with inv have tv: "tracked_id (db e) (v_VideoID video)" by (auto simp: engine_inv_def)
  have inv': "engine_inv (e\<lparr>sweeps := (sweeps e)[i := vs]\<rparr>)"
    using inv mem set_update_subset_insert [of "sweeps e" i vs] by (auto simp: engine_inv_def)
  from engine_inv_poll_video [OF inv', of video nt svc st' w' "(sweeps e)[i := vs]"] tv step
  show ?thesis by simp
qed

lemma CreateVideo_typed:
  assumes "CreateVideo now v st = Inr (v', st')" and "video_typed v" and "list_all video_typed (videos st)"
  shows "list_all video_typed (videos st')" and "svc_inv st \<Longrightarrow> svc_inv st'"
  using assms by (auto simp: CreateVideo_Inr video_typed_def svc_inv_def model_defs)

lemma engine_inv_reg_check:
  assumes "engine_inv e" and "register_checks nt svc p vid u (db e) = None"
  shows "engine_inv (e\<lparr>regs := regs e @ [new_video p vid u tag]\<rparr>)"
  using assms register_checks_None [OF assms(2)]
  by (auto simp: engine_inv_def video_typed_def)

lemma engine_inv_reg_insert:
  assumes inv: "engine_inv e" and i: "i < length (regs e)"
  shows "engine_inv (e\<lparr>db := (case CreateVideo (clock e) (regs e ! i) (db e) of
                                   Inl _ \<Rightarrow> db e | Inr (_, st') \<Rightarrow> st'),
                        regs := take i (regs e) @ drop (Suc i) (regs e)\<rparr>)"
proof -
  have rest: "list_all video_typed (take i (regs e) @ drop (Suc i) (regs e))"
    using inv by (auto simp: engine_inv_def list_all_iff dest: in_set_takeD in_set_dropD)
  have ty: "video_typed (regs e ! i)" using inv i by (auto simp: engine_inv_def list_all_iff)
  show ?thesis
  proof (cases "CreateVideo (clock e) (regs e ! i) (db e)")
    case (Inl err)
    with inv rest show ?thesis by (simp add: engine_inv_def)
  next
    case (Inr r)
    then obtain v' st' where c: "CreateVideo (clock e) (regs e ! i) (db e) = Inr (v', st')" by (cases r) auto
    from c have st': "stats_rows st' = stats_rows (db e)" "set (videos (db e)) \<subseteq> set (videos st')"
      by (auto simp: CreateVideo_Inr)
    have "wf_store st'" "svc_inv st'" "list_all video_typed (videos st')"
      using inv CreateVideo_wf [OF c] CreateVideo_typed [OF c ty] by (auto simp: engine_inv_def)
    with inv rest st' c show ?thesis
      by (auto simp: engine_inv_def list_all_iff intro: tracked_id_mono)
  qed
qed

lemma engine_step_inv: "engine_step svc e e' \<Longrightarrow> engine_inv e \<Longrightarrow> engine_inv e'"
proof (induction rule: engine_step.induct)
  case (tick e t)
  then show ?case by (blast intro: engine_inv_tick)
next
  case request
  then show ?case by (blast intro: engine_inv_request)
next
  case reg_check
  then show ?case by (blast intro: engine_inv_reg_check)
next
  case reg_insert
  then show ?case by (blast intro: engine_inv_reg_insert)
next
  case sweep_start
  then show ?case by (blast intro: engine_inv_sweep_start)
next
  case sweep_next
  then show ?case by (blast intro: engine_inv_sweep_next)
next
  case sweep_done
  then show ?case by (blast intro: engine_inv_sweep_done)
next
  case (expire_key e k)
  then show ?case by (blast intro: engine_inv_expire)
qed

lemma reachable_engine_inv: "reachable svc e \<Longrightarrow> engine_inv e"
proof (induction rule: reachable.induct)
  case init
  then show ?case by (rule engine_inv_init)
next
  case (step e e')
  then show ?case by (blast intro: engine_step_inv)
qed

lemma reachable_rtranclp: "reachable svc e \<Longrightarrow> (engine_step svc)\<^sup>*\<^sup>* engine_init e"
  by (induction rule: reachable.induct) auto

lemma reachable_steps:
  "(engine_step svc)\<^sup>*\<^sup>* e e' \<Longrightarrow> reachable svc e \<Longrightarrow> reachable svc e'"
  by (induction rule: rtranclp_induct) (auto intro: reachable.step)

subsection \<open>Consequences for the running server\<close>

text \<open>C10: in every state the server can reach, the tables satisfy the schema's
  and the code's well-formedness: unique keys, distinct row ids below the
  counters, an account on every Instagram row.\<close>

theorem reachable_wf_store: "reachable svc e \<Longrightarrow> wf_store (db e)"
  by (drule reachable_engine_inv) (simp add: engine_inv_def)

text \<open>C11: in every reachable state each snapshot and each hot-set entry names a
  tracked video, and no snapshot or flag is later than the clock.\<close>

theorem reachable_references_tracked:
  assumes "reachable svc e"
  shows "list_all (\<lambda>s. s_Timestamp s \<le> clock e \<and> tracked_id (db e) (s_VideoID s)) (stats_rows (db e)) \<and>
         (\<forall>k t. viralVideos (worker e) k = Some t \<longrightarrow> t \<le> clock e \<and> tracked_id (db e) k)"
  using reachable_engine_inv [OF assms] by (simp add: engine_inv_def)

text \<open>C32: every video row of a reachable state is well typed: its platform
  is one the service supports and its state is \<open>registered\<close> or
  \<open>error\<close>. No code path writes \<open>archived\<close>.\<close>

theorem reachable_rows_typed: "reachable svc e \<Longrightarrow> list_all video_typed (videos (db e))"
  by (drule reachable_engine_inv) (simp add: engine_inv_def)

text \<open>C6: in every reachable state, registration as the code orders its checks
  gives what the spec's order gives, error kinds included.\<close>

theorem reachable_register_refines_spec:
  assumes "reachable svc e"
  shows "map_sum classify_register_error id (RegisterVideo nt svc (clock e) p vid u tag (db e)) =
         Register_spec nt svc (clock e) p vid u tag (db e)"
proof -
  from reachable_engine_inv [OF assms] have "svc_inv (db e)" by (simp add: engine_inv_def)
  then show ?thesis by (rule RegisterVideo_refines_spec_inv)
qed

subsection \<open>The scenarios of the spec\<close>

text \<open>Registering an Instagram post without an account is a validation
  error; with an account whose media do not include the post it is refused,
  and no row is created.\<close>

theorem scenario_instagram_registration:
  "RegisterVideo (yt_net ''0'' ''0'') demo_service 0 ''instagram'' ''post1'' [] [] empty_store =
     Inl ''instagram_username is required for Instagram posts'' \<and>
   RegisterVideo (yt_net ''0'' ''0'') demo_service 0 ''instagram'' ''post1'' ''acct'' [] empty_store =
     Inl ''instagram post not found: post1 for user acct''"
  by (simp add: RegisterVideo_def GetVideo_def GetVideoWithUsername_def model_defs Let_def
        GetMediaDetails_def getAllUserMedia_def yt_net_def)

subsection \<open>Examples\<close>

lemma demo_registered_eq:
  "RegisterVideo (yt_net ''100'' ''10'') demo_service 0 ''youtube'' ''abc123'' [] [] empty_store =
     Inr demo_registered"
  by (simp add: demo_registered_def RegisterVideo_def GetVideo_def CreateVideo_def model_defs Let_def)

lemma reachable_demo_engine: "reachable demo_service demo_engine"
proof -
  have "NewHTTPHandler (demo_codec (Inr abc_request)) (MakeEndpoints (yt_net ''100'' ''10'') demo_service)
          (\<lambda>_. clock engine_init) demo_post (db engine_init) =
        (encodeResponse (RegResponse \<lparr>rs_ID = [], rs_Error = []\<rparr>), demo_registered)"
    using demo_registered_eq
    by (simp add: NewHTTPHandler_def MakeEndpoints_def demo_codec_def demo_post_def decodeRegisterVideoRequest_def
                  makeRegisterVideoEndpoint_def abc_request_def engine_init_def)
  then have "engine_step demo_service engine_init (engine_init\<lparr>db := demo_registered\<rparr>)"
    by (rule engine_step.request)
  then show ?thesis unfolding demo_engine_def by (rule reachable.step [OF reachable.init])
qed

lemma demo_engine_videos:
  "videos (db demo_engine) = [(new_video ''youtube'' ''abc123'' [] [])\<lparr>v_ID := ''1''\<rparr>]"
  by (simp add: demo_engine_def engine_init_def demo_registered_def RegisterVideo_def GetVideo_def
      CreateVideo_def model_defs Let_def new_video_def dec_string.simps)

theorem reachable_wf_store_witness:
  "reachable demo_service demo_engine \<and> wf_store (db demo_engine)"
  using reachable_wf_store [OF reachable_demo_engine] reachable_demo_engine by simp

theorem reachable_register_refines_spec_witness:
  "map_sum classify_register_error id
     (RegisterVideo (yt_net ''1'' ''1'') demo_service 0 ''youtube'' ''abc123'' [] [] (db demo_engine)) =
     Inl DuplicateError \<and>
   Register_spec (yt_net ''1'' ''1'') demo_service 0 ''youtube'' ''abc123'' [] [] (db demo_engine) =
     Inl DuplicateError"
proof -
  have c: "clock demo_engine = 0" by (simp add: demo_engine_def engine_init_def)
  have eq: "map_sum classify_register_error id
     (RegisterVideo (yt_net ''1'' ''1'') demo_service 0 ''youtube'' ''abc123'' [] [] (db demo_engine)) =
     Register_spec (yt_net ''1'' ''1'') demo_service 0 ''youtube'' ''abc123'' [] [] (db demo_engine)"
    using reachable_register_refines_spec [OF reachable_demo_engine, of "yt_net ''1'' ''1''"] c by simp
  have "Register_spec (yt_net ''1'' ''1'') demo_service 0 ''youtube'' ''abc123'' [] [] (db demo_engine) =
     Inl DuplicateError"
    by (simp add: Register_spec_def demo_engine_videos supported_platform_def spec_duplicate_def
        new_video_def model_defs)
  with eq show ?thesis by simp
qed

theorem reachable_rows_typed_witness:
  "reachable demo_service demo_engine \<and> list_all video_typed (videos (db demo_engine)) \<and>
   map v_State (videos (db demo_engine)) = [''registered'']"
  using reachable_rows_typed [OF reachable_demo_engine] reachable_demo_engine
  by (simp add: demo_engine_videos new_video_def model_defs)

end
