(* ===== verification/Runs.thy ===== *)
theory Runs
  imports Engine
begin

text \<open>
  Runs of the engine: baseline sweeps, the spec's scenario observed through
  HTTP, and concurrent registrations. A sweep of \<open>pollAllVideos\<close> is not
  one step: it is a \<open>sweep_start\<close> (the \<open>GetAllVideos\<close> read), one
  \<open>sweep_next\<close> per video, and a \<open>sweep_done\<close>, and other steps may come
  between them. This theory shows that the steps of one sweep, run without
  interference, compute \<open>pollAllVideos\<close>. It then runs the spec's
  register-and-poll scenario through \<open>NewHTTPHandler\<close> and the engine's
  steps, and shows that two registrations of one video, each past its
  duplicate check before either inserts, end in the database's UNIQUE
  error rather than the service's duplicate error.
\<close>

section \<open>Observing the server\<close>

text \<open>What a client sees of video \<open>abc123\<close>: the reply to
  \<open>GET /stats?video_id=abc123\<close> (the default window) in an engine state.\<close>

definition stats_query :: "engine \<Rightarrow> http_reply" where
  "stats_query e =
     fst (NewHTTPHandler (demo_codec (Inr abc_request)) (MakeEndpoints (yt_net [] []) demo_service) (\<lambda>_. clock e)
            (demo_get [(''video_id'', ''abc123'')]) (db e))"

text \<open>The server after registering \<open>abc123\<close> at instant 0 and one baseline
  sweep at instant 10 with the platform reporting 100 views and 10 likes.\<close>

definition swept_engine :: engine where
  "swept_engine =
     demo_engine\<lparr>clock := 10,
       db := fst (pollAllVideos (yt_net ''100'' ''10'') demo_service (\<lambda>_. 10) (demo_registered, NewPoller)),
       worker := snd (pollAllVideos (yt_net ''100'' ''10'') demo_service (\<lambda>_. 10) (demo_registered, NewPoller))\<rparr>"

section \<open>A sweep run to completion\<close>

lemma sweep_run_pollLoop:
  assumes "i < length (sweeps e)" and "sweeps e ! i = vs"
  shows "\<exists>e'. (engine_step svc)\<^sup>*\<^sup>* e e' \<and>
           (db e', worker e') = pollLoop nt svc (\<lambda>_. clock e) j vs (db e, worker e) \<and>
           clock e' = clock e \<and> sweeps e' = (sweeps e)[i := []] \<and> regs e' = regs e"
  using assms
proof (induction vs arbitrary: e j)
  case Nil
  then have "(sweeps e)[i := []] = sweeps e" by (metis list_update_id)
  then show ?case by auto
next
  case (Cons v vs)
  obtain st' w' where p: "poll_one nt svc (clock e) v (db e, worker e) = (st', w')" by fastforce
  define e1 where "e1 = e\<lparr>db := st', worker := w', sweeps := (sweeps e)[i := vs]\<rparr>"
  have s1: "engine_step svc e e1"
    unfolding e1_def using Cons.prems p by (rule engine_step.sweep_next)
  from Cons.IH [of e1 "Suc j"] Cons.prems obtain e' where
    "(engine_step svc)\<^sup>*\<^sup>* e1 e'"
    "(db e', worker e') = pollLoop nt svc (\<lambda>_. clock e1) (Suc j) vs (db e1, worker e1)"
    "clock e' = clock e1" "sweeps e' = (sweeps e1)[i := []]" "regs e' = regs e1"
    by (auto simp: e1_def)
  with s1 p show ?case
    by (intro exI [of _ e']) (auto simp: e1_def intro: converse_rtranclp_into_rtranclp)
qed

text \<open>A baseline sweep started in any state can run to completion through
  engine steps, and then the store and the hot set are exactly what
  \<open>pollAllVideos\<close> computes, the sweeps in progress are as before.\<close>

lemma sweep_refines_pollAllVideos:
  "\<exists>e'. (engine_step svc)\<^sup>*\<^sup>* e e' \<and> sweeps e' = sweeps e \<and> clock e' = clock e \<and>
        regs e' = regs e \<and> (db e', worker e') = pollAllVideos nt svc (\<lambda>_. clock e) (db e, worker e)"
proof -
  define e0 where "e0 = e\<lparr>sweeps := sweeps e @ [svc_GetAllVideos (db e)]\<rparr>"
  have s0: "engine_step svc e e0" unfolding e0_def by (rule engine_step.sweep_start)
  have i: "length (sweeps e) < length (sweeps e0)" "sweeps e0 ! length (sweeps e) = svc_GetAllVideos (db e)"
    by (simp_all add: e0_def)
  from sweep_run_pollLoop [OF i, of svc nt 0] obtain e1 where
    r1: "(engine_step svc)\<^sup>*\<^sup>* e0 e1"
    and d1: "(db e1, worker e1) = pollLoop nt svc (\<lambda>_. clock e0) 0 (svc_GetAllVideos (db e)) (db e0, worker e0)"
    and c1: "clock e1 = clock e0" and w1: "sweeps e1 = (sweeps e0)[length (sweeps e) := []]"
    and g1: "regs e1 = regs e0"
    by blast
  define e2 where "e2 = e1\<lparr>sweeps := take (length (sweeps e)) (sweeps e1) @ drop (Suc (length (sweeps e))) (sweeps e1)\<rparr>"
  have s2: "engine_step svc e1 e2"
    unfolding e2_def by (rule engine_step.sweep_done) (simp_all add: w1 e0_def)
  have "sweeps e2 = sweeps e" by (simp add: e2_def w1 e0_def)
  moreover have "(engine_step svc)\<^sup>*\<^sup>* e e2"
    using s0 r1 s2 by (meson converse_rtranclp_into_rtranclp rtranclp.rtrancl_into_rtrancl)
  moreover have "(db e2, worker e2) = pollAllVideos nt svc (\<lambda>_. clock e) (db e, worker e)"
    using d1 by (simp add: e2_def e0_def pollAllVideos_def)
  moreover have "clock e2 = clock e" by (simp add: e2_def c1 e0_def)
  moreover have "regs e2 = regs e" by (simp add: e2_def g1 e0_def)
  ultimately show ?thesis by blast
qed
section \<open>The spec's scenario, through the server\<close>

lemma stats_query_eq:
  "hr_Body (stats_query e) =
     JSONBody (JObject [(''stats'', JArray (map video_stats_json
        (GetVideoStats (db e) ''abc123'' (clock e - seven_days) (clock e))))])"
  by (simp add: stats_query_def NewHTTPHandler_def MakeEndpoints_def demo_get_def decodeGetStatsRequest_def query_get_def
      Let_def encodeResponse_def response_json_def makeGetStatsEndpoint_def svc_GetVideoStats_def
      omitempty_def)

lemmas sweep_eval_defs = pollAllVideos_def svc_GetAllVideos_def GetAllVideos_def poll_one_def
  UpdateVideoStats_def yt_GetVideoStats_def yt_net_def record_fetch_def is_not_found_error_def
  GetVideoStats_def in_window_def checkViralCondition_def Atoi_def ParseInt10_def ParseUint10_def
  model_defs CreateVideoStats_def Let_def NewPoller_def

lemma demo_registered_rows:
  "videos demo_registered = [(new_video ''youtube'' ''abc123'' [] [])\<lparr>v_ID := ''1''\<rparr>]"
  "stats_rows demo_registered = []" "next_stats_id demo_registered = 1"
  by (simp_all add: demo_registered_def RegisterVideo_def GetVideo_def CreateVideo_def model_defs Let_def
      new_video_def dec_string.simps empty_store_def)

lemma sweep1:
  "map (\<lambda>s. (s_Views s, s_Likes s, s_Timestamp s))
     (GetVideoStats (fst (pollAllVideos (yt_net ''100'' ''10'') demo_service (\<lambda>_. 10) (demo_registered, NewPoller)))
        ''abc123'' (10 - seven_days) 10) = [(100, 10, 10)]"
  by (simp add: sweep_eval_defs demo_registered_rows new_video_def seven_days_def)
lemma sweep2:
  "map (\<lambda>s. (s_Views s, s_Likes s, s_Timestamp s))
     (GetVideoStats (fst (pollAllVideos (yt_net ''150'' ''12'') demo_service (\<lambda>_. 20)
        (pollAllVideos (yt_net ''100'' ''10'') demo_service (\<lambda>_. 10) (demo_registered, NewPoller))))
        ''abc123'' (20 - seven_days) 20) = [(100, 10, 10), (150, 12, 20)]"
  by (simp add: sweep_eval_defs demo_registered_rows new_video_def seven_days_def)

text \<open>C16: the spec's scenario run against the server: after
  \<open>POST /track-video\<close> of YouTube video \<open>abc123\<close> the stats query returns an
  empty list; after one baseline sweep with the platform reporting 100 views
  and 10 likes it returns exactly that snapshot; after a later sweep
  reporting 150 and 12 it returns both, in time order. Every state is reached
  by steps of the engine.\<close>

theorem scenario_two_sweeps_http:
  "\<exists>e1 e2 e3 rows2 rows3.
     (engine_step demo_service)\<^sup>*\<^sup>* engine_init e1 \<and> (engine_step demo_service)\<^sup>*\<^sup>* e1 e2 \<and>
     (engine_step demo_service)\<^sup>*\<^sup>* e2 e3 \<and>
     hr_Body (stats_query e1) = JSONBody (JObject [(''stats'', JArray [])]) \<and>
     hr_Body (stats_query e2) = JSONBody (JObject [(''stats'', JArray (map video_stats_json rows2))]) \<and>
     map (\<lambda>s. (s_Views s, s_Likes s, s_Timestamp s)) rows2 = [(100, 10, 10)] \<and>
     hr_Body (stats_query e3) = JSONBody (JObject [(''stats'', JArray (map video_stats_json rows3))]) \<and>
     map (\<lambda>s. (s_Views s, s_Likes s, s_Timestamp s)) rows3 = [(100, 10, 10), (150, 12, 20)]"
proof -
  let ?sp1 = "pollAllVideos (yt_net ''100'' ''10'') demo_service (\<lambda>_. 10) (demo_registered, NewPoller)"
  let ?sp2 = "pollAllVideos (yt_net ''150'' ''12'') demo_service (\<lambda>_. 20) ?sp1"
  have e1: "(engine_step demo_service)\<^sup>*\<^sup>* engine_init demo_engine"
    by (rule reachable_rtranclp [OF reachable_demo_engine])
  have d1: "db demo_engine = demo_registered" "worker demo_engine = NewPoller" "clock demo_engine = 0"
    by (simp_all add: demo_engine_def engine_init_def)
  have t1: "engine_step demo_service demo_engine (demo_engine\<lparr>clock := 10\<rparr>)"
    by (rule engine_step.tick) (simp add: d1)
  obtain e2 where r2: "(engine_step demo_service)\<^sup>*\<^sup>* (demo_engine\<lparr>clock := 10\<rparr>) e2"
    and c2: "clock e2 = 10" and s2: "(db e2, worker e2) = ?sp1"
    using sweep_refines_pollAllVideos [of demo_service "demo_engine\<lparr>clock := 10\<rparr>" "yt_net ''100'' ''10''"]
    by (auto simp: d1)
  have t2: "engine_step demo_service e2 (e2\<lparr>clock := 20\<rparr>)"
    by (rule engine_step.tick) (simp add: c2)
  obtain e3 where r3: "(engine_step demo_service)\<^sup>*\<^sup>* (e2\<lparr>clock := 20\<rparr>) e3"
    and c3: "clock e3 = 20" and s3: "(db e3, worker e3) = ?sp2"
    using sweep_refines_pollAllVideos [of demo_service "e2\<lparr>clock := 20\<rparr>" "yt_net ''150'' ''12''"] s2
    by auto
  have q1: "hr_Body (stats_query demo_engine) = JSONBody (JObject [(''stats'', JArray [])])"
    by (simp add: stats_query_eq d1 GetVideoStats_def demo_registered_rows)
  have q2: "hr_Body (stats_query e2) = JSONBody (JObject [(''stats'', JArray (map video_stats_json
      (GetVideoStats (fst ?sp1) ''abc123'' (10 - seven_days) 10)))])"
    using s2 c2 by (simp add: stats_query_eq prod_eq_iff)
  have q3: "hr_Body (stats_query e3) = JSONBody (JObject [(''stats'', JArray (map video_stats_json
      (GetVideoStats (fst ?sp2) ''abc123'' (20 - seven_days) 20)))])"
    using s3 c3 by (simp add: stats_query_eq prod_eq_iff)
  have "(engine_step demo_service)\<^sup>*\<^sup>* demo_engine e2"
    using t1 r2 by (rule converse_rtranclp_into_rtranclp)
  moreover have "(engine_step demo_service)\<^sup>*\<^sup>* e2 e3"
    using t2 r3 by (rule converse_rtranclp_into_rtranclp)
  ultimately show ?thesis
    using e1 q1 q2 q3 sweep1 sweep2
    by (intro exI [of _ demo_engine] exI [of _ e2] exI [of _ e3]
          exI [of _ "GetVideoStats (fst ?sp1) ''abc123'' (10 - seven_days) 10"]
          exI [of _ "GetVideoStats (fst ?sp2) ''abc123'' (20 - seven_days) 20"]) simp
qed
section \<open>Concurrent registrations\<close>

text \<open>C21: two registrations of the same video that run concurrently can both
  pass the duplicate check before either inserts; the second \<open>INSERT\<close> then
  fails with SQLite's \<open>UNIQUE\<close> error, so its client sees that message instead
  of \<open>"video already being tracked"\<close>. The table still holds the video once.\<close>

theorem concurrent_registration_race:
  "\<exists>e. reachable demo_service e \<and> GetVideo (db e) ''youtube'' ''abc123'' \<noteq> None \<and>
       regs e = [new_video ''youtube'' ''abc123'' [] []] \<and>
       CreateVideo (clock e) (regs e ! 0) (db e) = Inl unique_violation"
proof -
  let ?v = "new_video ''youtube'' ''abc123'' [] []"
  let ?nt = "yt_net ''100'' ''10''"
  have chk: "register_checks ?nt demo_service ''youtube'' ''abc123'' [] empty_store = None"
    by (simp add: register_checks_def GetVideo_def empty_store_def model_defs Let_def)
  define e1 where "e1 = engine_init\<lparr>regs := regs engine_init @ [?v]\<rparr>"
  define e2 where "e2 = e1\<lparr>regs := regs e1 @ [?v]\<rparr>"
  have r1: "reachable demo_service e1"
    unfolding e1_def
    by (rule reachable.step [OF reachable.init engine_step.reg_check [of ?nt]])
       (simp add: chk engine_init_def)
  have r2: "reachable demo_service e2"
    unfolding e2_def
    by (rule reachable.step [OF r1 engine_step.reg_check [of ?nt]])
       (simp add: chk e1_def engine_init_def)
  obtain st' where cv: "CreateVideo 0 ?v empty_store = Inr (?v\<lparr>v_ID := ''1'', v_CreatedAt := 0\<rparr>, st')"
    and st': "st' = empty_store\<lparr>videos := [?v\<lparr>v_ID := ''1'', v_CreatedAt := 0\<rparr>], next_video_id := 2\<rparr>"
    by (simp add: CreateVideo_def empty_store_def new_video_def model_defs Let_def dec_string.simps)
  define e3 where "e3 = e2\<lparr>db := (case CreateVideo (clock e2) (regs e2 ! 0) (db e2) of
                                   Inl _ \<Rightarrow> db e2 | Inr (_, st') \<Rightarrow> st'),
                        regs := take 0 (regs e2) @ drop (Suc 0) (regs e2)\<rparr>"
  have r3: "reachable demo_service e3"
    unfolding e3_def
    by (rule reachable.step [OF r2 engine_step.reg_insert]) (simp add: e2_def e1_def engine_init_def)
  have db3: "db e3 = st'" "clock e3 = 0" "regs e3 = [?v]"
    using cv by (simp_all add: e3_def e2_def e1_def engine_init_def)
  have "GetVideo (db e3) ''youtube'' ''abc123'' \<noteq> None"
    by (simp add: db3 st' GetVideo_def new_video_def model_defs)
  moreover have "CreateVideo (clock e3) (regs e3 ! 0) (db e3) = Inl unique_violation"
    by (simp add: db3 st' CreateVideo_def video_key_def new_video_def model_defs)
  ultimately show ?thesis using r3 db3 by blast
qed


section \<open>A reachable state with snapshots and hot entries\<close>

lemma reachable_swept_engine: "reachable demo_service swept_engine"
proof -
  have d: "db demo_engine = demo_registered" "worker demo_engine = NewPoller" "clock demo_engine = 0"
    "sweeps demo_engine = []" "regs demo_engine = []"
    by (simp_all add: demo_engine_def engine_init_def)
  have t: "engine_step demo_service demo_engine (demo_engine\<lparr>clock := 10\<rparr>)"
    by (rule engine_step.tick) (simp add: d)
  obtain e' where r: "(engine_step demo_service)\<^sup>*\<^sup>* (demo_engine\<lparr>clock := 10\<rparr>) e'"
    and e': "sweeps e' = []" "clock e' = 10" "regs e' = []"
      "(db e', worker e') = pollAllVideos (yt_net ''100'' ''10'') demo_service (\<lambda>_. 10) (demo_registered, NewPoller)"
    using sweep_refines_pollAllVideos [of demo_service "demo_engine\<lparr>clock := 10\<rparr>" "yt_net ''100'' ''10''"]
    by (auto simp: d)
  have "e' = swept_engine"
    using e' by (simp add: swept_engine_def engine.equality d prod_eq_iff)
  moreover have "reachable demo_service (demo_engine\<lparr>clock := 10\<rparr>)"
    by (rule reachable.step [OF reachable_demo_engine t])
  ultimately show ?thesis using r reachable_steps by blast
qed

lemma swept_engine_state:
  "map (\<lambda>s. (s_VideoID s, s_Timestamp s)) (stats_rows (db swept_engine)) = [(''abc123'', 10)]"
  "viralVideos (worker swept_engine) ''abc123'' = Some 10" "clock swept_engine = 10"
  by (simp_all add: swept_engine_def demo_engine_def engine_init_def sweep_eval_defs demo_registered_rows
      new_video_def)

theorem reachable_references_tracked_witness:
  "reachable demo_service swept_engine \<and>
   map (\<lambda>s. (s_VideoID s, s_Timestamp s)) (stats_rows (db swept_engine)) = [(''abc123'', 10)] \<and>
   viralVideos (worker swept_engine) ''abc123'' = Some 10 \<and>
   list_all (\<lambda>s. s_Timestamp s \<le> clock swept_engine \<and> tracked_id (db swept_engine) (s_VideoID s))
     (stats_rows (db swept_engine)) \<and>
   tracked_id (db swept_engine) ''abc123''"
  using reachable_references_tracked [OF reachable_swept_engine] reachable_swept_engine swept_engine_state
  by blast

end
