(* ===== verification/Migration.thy ===== *)
theory Migration
  imports Repository
begin

text \<open>
  The schema side of \<open>NewSQLiteRepository\<close> (\<open>src/internal/repository/database.go\<close>):
  \<open>createTables\<close> creates the \<open>video_stats\<close> table only when it does not
  exist, and \<open>migrateDatabase\<close> then tries to add the five columns that later
  versions introduced, one \<open>ALTER TABLE ... ADD COLUMN\<close> each, printing a
  warning for every failure whose message does not contain
  \<open>"duplicate column name"\<close> (the helper \<open>contains\<close> of \<open>Repository\<close>).
  The state is the list of the table's columns; the warnings printed are the
  observable output. The driver's rendering of an SQLite error is a parameter
  \<open>wrap\<close>: the driver may add a prefix and an error code around SQLite's own
  message.
\<close>

section \<open>Schema\<close>

text \<open>The columns of \<open>video_stats\<close> as \<open>createTables\<close> declares them.\<close>

definition stats_table_columns :: "string list" where
  "stats_table_columns =
     [''id'', ''video_id'', ''timestamp'', ''views'', ''likes'', ''comments'', ''caption'',
      ''permalink'', ''media_type'', ''media_url'']"

text \<open>\<open>CREATE TABLE IF NOT EXISTS\<close>: an existing table (\<open>Some cols\<close>) is kept
  as it is, whatever its columns.\<close>

definition createTables :: "string list option \<Rightarrow> string list" where
  "createTables existing = (case existing of None \<Rightarrow> stats_table_columns | Some cols \<Rightarrow> cols)"

text \<open>The column each statement of \<open>alterQueries\<close> adds, in the code's order.\<close>

definition alterQueries :: "string list" where
  "alterQueries = [''comments'', ''caption'', ''permalink'', ''media_type'', ''media_url'']"

text \<open>\<open>ALTER TABLE video_stats ADD COLUMN c\<close>: SQLite refuses a column that
  exists with \<open>duplicate column name: c\<close>.\<close>

definition alter_add_column :: "(string \<Rightarrow> string) \<Rightarrow> string \<Rightarrow> string list \<Rightarrow> string list result" where
  "alter_add_column wrap c cols =
     (if c \<in> set cols then Inl (wrap (''duplicate column name: '' @ c)) else Inr (cols @ [c]))"

text \<open>The \<open>for\<close> loop over \<open>alterQueries\<close>: the state is the columns and the
  warnings printed so far.\<close>

fun migrate_loop ::
  "(string \<Rightarrow> string) \<Rightarrow> string list \<Rightarrow> string list \<times> string list \<Rightarrow> string list \<times> string list" where
  "migrate_loop wrap [] cw = cw"
| "migrate_loop wrap (c # cs) (cols, ws) =
     migrate_loop wrap cs
       (case alter_add_column wrap c cols of
          Inl e \<Rightarrow> (cols, if \<not> contains e ''duplicate column name'' then ws @ [e] else ws)
        | Inr cols' \<Rightarrow> (cols', ws))"

text \<open>\<open>migrateDatabase\<close> always returns \<open>nil\<close>; the final
  \<open>UPDATE video_stats SET comments = 0 WHERE comments IS NULL\<close> finds no
  \<open>NULL\<close>, since \<open>ADD COLUMN ... DEFAULT 0\<close> fills the existing rows with the
  default, and is left out.\<close>

definition migrateDatabase :: "(string \<Rightarrow> string) \<Rightarrow> string list \<Rightarrow> string list \<times> string list" where
  "migrateDatabase wrap cols = migrate_loop wrap alterQueries (cols, [])"

definition NewSQLiteRepository_schema ::
  "(string \<Rightarrow> string) \<Rightarrow> string list option \<Rightarrow> string list \<times> string list" where
  "NewSQLiteRepository_schema wrap existing = migrateDatabase wrap (createTables existing)"



section \<open>Properties\<close>

text \<open>The loop adds the missing columns in order, keeps the present ones, and
  warns only about failures whose text lacks the phrase it looks for.\<close>

lemma migrate_loop_fst:
  "distinct cs \<Longrightarrow>
   fst (migrate_loop wrap cs (cols, ws)) = cols @ filter (\<lambda>c. c \<notin> set cols) cs"
proof (induction cs arbitrary: cols ws)
  case Nil
  then show ?case by simp
next
  case (Cons c cs)
  have f: "filter (\<lambda>x. x \<notin> set (cols @ [c])) cs = filter (\<lambda>x. x \<notin> set cols) cs"
    using Cons.prems by (auto intro: filter_cong)
  show ?case
    using Cons.IH [of cols] Cons.IH [of "cols @ [c]"] Cons.prems f
    by (auto simp: alter_add_column_def split: sum.splits)
qed




lemma migrate_loop_warnings:
  "distinct cs \<Longrightarrow>
   snd (migrate_loop wrap cs (cols, ws)) =
     ws @ filter (\<lambda>e. \<not> contains e ''duplicate column name'')
            (map (\<lambda>c. wrap (''duplicate column name: '' @ c)) (filter (\<lambda>c. c \<in> set cols) cs))"
proof (induction cs arbitrary: cols ws)
  case Nil
  then show ?case by simp
next
  case (Cons c cs)
  have f: "filter (\<lambda>x. x \<in> set (cols @ [c])) cs = filter (\<lambda>x. x \<in> set cols) cs"
    using Cons.prems by (auto intro: filter_cong)
  show ?case
    using Cons.IH [of cols] Cons.IH [of "cols @ [c]"] Cons.prems f
    by (auto simp: alter_add_column_def split: sum.splits)
qed

text \<open>C27: whatever the driver prints, the migration runs every statement
  of \<open>alterQueries\<close>: it adds exactly the columns the table lacks, in the
  code's order, and prints, in the same order, the driver's message for each
  column already present whose text lacks \<open>"duplicate column name"\<close>.\<close>

theorem migrateDatabase_result:
  "migrateDatabase wrap cols =
     (cols @ filter (\<lambda>c. c \<notin> set cols) alterQueries,
      filter (\<lambda>e. \<not> contains e ''duplicate column name'')
        (map (\<lambda>c. wrap (''duplicate column name: '' @ c)) (filter (\<lambda>c. c \<in> set cols) alterQueries)))"
proof -
  have d: "distinct alterQueries" by (simp add: alterQueries_def)
  show ?thesis
    using migrate_loop_fst [OF d, of wrap cols "[]"] migrate_loop_warnings [OF d, of wrap cols "[]"]
    by (simp add: migrateDatabase_def prod_eq_iff)
qed



end
