(* ===== verification/Interfaces.thy ===== *)
theory Interfaces
  imports Service
begin

text \<open>
  The two Go interfaces through which the components talk: \<open>Repository\<close>
  (\<open>src/internal/repository/database.go\<close>), implemented by
  \<open>sqliteRepository\<close>, and \<open>Service\<close> (\<open>src/internal/service/service.go\<close>),
  implemented by \<open>videoService\<close>. Each interface is a datatype of its method
  calls with a step function that dispatches a call to the implementation's
  definition; a call's result is the method's return value, or its error.
  The lemmas show that the repository's writes keep \<open>wf_store\<close>, that its
  reads write nothing, and that every service call changes the store by at
  most one repository write: the service reaches the database only through
  the interface.
\<close>

section \<open>The Repository interface\<close>

datatype repo_op =
    OpCreateVideo time video
  | OpGetVideo string string
  | OpGetVideoWithUsername string string string
  | OpGetAllVideos
  | OpUpdateVideoState string string
  | OpCreateVideoStats video_stats
  | OpGetVideoStats string time time
  | OpGetLatestStats string

text \<open>What a method returns besides its error; \<open>CreateVideo\<close> and
  \<open>CreateVideoStats\<close> return nothing but update the struct they are given,
  which is the value returned here.\<close>

datatype repo_value =
    RVideo video | RVideoOpt "video option" | RVideos "video list" | RUnit
  | RStats video_stats | RStatsList "video_stats list" | RStatsOpt "video_stats option"

definition repo_step :: "store \<Rightarrow> repo_op \<Rightarrow> repo_value result \<times> store" where
  "repo_step st op =
     (case op of
        OpCreateVideo now v \<Rightarrow>
          (case CreateVideo now v st of Inl e \<Rightarrow> (Inl e, st) | Inr (v', st') \<Rightarrow> (Inr (RVideo v'), st'))
      | OpGetVideo p vid \<Rightarrow> (Inr (RVideoOpt (GetVideo st p vid)), st)
      | OpGetVideoWithUsername p vid u \<Rightarrow> (Inr (RVideoOpt (GetVideoWithUsername st p vid u)), st)
      | OpGetAllVideos \<Rightarrow> (Inr (RVideos (GetAllVideos st)), st)
      | OpUpdateVideoState vid s \<Rightarrow> (Inr RUnit, UpdateVideoState st vid s)
      | OpCreateVideoStats s \<Rightarrow> (Inr (RStats (fst (CreateVideoStats s st))), snd (CreateVideoStats s st))
      | OpGetVideoStats vid from to \<Rightarrow> (Inr (RStatsList (GetVideoStats st vid from to)), st)
      | OpGetLatestStats vid \<Rightarrow> (Inr (RStatsOpt (GetLatestStats st vid)), st))"

fun repo_writes :: "repo_op \<Rightarrow> bool" where
  "repo_writes (OpCreateVideo _ _) = True"
| "repo_writes (OpUpdateVideoState _ _) = True"
| "repo_writes (OpCreateVideoStats _) = True"
| "repo_writes _ = False"

definition repo_run :: "store \<Rightarrow> repo_op list \<Rightarrow> store" where
  "repo_run st ops = fold (\<lambda>op st. snd (repo_step st op)) ops st"

section \<open>The Service interface\<close>

datatype svc_op =
    SvcRegisterVideo string string string string
  | SvcGetVideoStats string time time
  | SvcGetAllVideos
  | SvcUpdateVideoStats video

datatype svc_value = SUnit | SStats "video_stats list" | SVideos "video list"

definition svc_step ::
  "net \<Rightarrow> video_service \<Rightarrow> time \<Rightarrow> store \<Rightarrow> svc_op \<Rightarrow> svc_value result \<times> store" where
  "svc_step nt svc now st op =
     (case op of
        SvcRegisterVideo p vid u tag \<Rightarrow>
          (case RegisterVideo nt svc now p vid u tag st of Inl e \<Rightarrow> (Inl e, st) | Inr st' \<Rightarrow> (Inr SUnit, st'))
      | SvcGetVideoStats vid from to \<Rightarrow> (Inr (SStats (svc_GetVideoStats st vid from to)), st)
      | SvcGetAllVideos \<Rightarrow> (Inr (SVideos (svc_GetAllVideos st)), st)
      | SvcUpdateVideoStats v \<Rightarrow> map_prod (map_sum id (\<lambda>_. SUnit)) id (UpdateVideoStats nt svc now v st))"

section \<open>Properties\<close>

lemma repo_reads_pure: "\<not> repo_writes op \<Longrightarrow> snd (repo_step st op) = st"
  by (cases op) (simp_all add: repo_step_def)

lemma repo_run_single [simp]: "repo_run st [op] = snd (repo_step st op)"
  by (simp add: repo_run_def)

text \<open>C33: every call of the \<open>Repository\<close> interface, whatever its arguments,
  keeps the tables well formed.\<close>

theorem repo_step_wf: "wf_store st \<Longrightarrow> wf_store (snd (repo_step st op))"
  by (cases op)
     (auto simp: repo_step_def UpdateVideoState_wf CreateVideoStats_wf [simplified] intro: CreateVideo_wf
           split: sum.split prod.split)

lemma repo_step_CreateVideo:
  "CreateVideo now v st = Inr (v', st') \<Longrightarrow> snd (repo_step st (OpCreateVideo now v)) = st'"
  by (simp add: repo_step_def)

lemma repo_step_append_stats:
  assumes "s_ID row = dec_string (next_stats_id st)"
  shows "snd (repo_step st (OpCreateVideoStats row)) =
           st\<lparr>stats_rows := stats_rows st @ [row], next_stats_id := Suc (next_stats_id st)\<rparr>"
  using assms by (simp add: repo_step_def)

text \<open>C34: every call of the \<open>Service\<close> interface changes the store as a run
  of at most one \<open>Repository\<close> write does: the service reaches the database
  only through the interface, and no call writes twice.\<close>

theorem svc_step_via_repo:
  "\<exists>ops. length ops \<le> 1 \<and> list_all repo_writes ops \<and> snd (svc_step nt svc now st op) = repo_run st ops"
proof (cases op)
  case (SvcRegisterVideo p vid u tag)
  show ?thesis
  proof (cases "RegisterVideo nt svc now p vid u tag st")
    case (Inl e)
    with SvcRegisterVideo show ?thesis by (intro exI [of _ "[]"]) (simp add: svc_step_def repo_run_def)
  next
    case (Inr st')
    then obtain v' where "CreateVideo now (new_video p vid u tag) st = Inr (v', st')"
      by (auto simp: RegisterVideo_Inr_iff)
    with SvcRegisterVideo Inr show ?thesis
      by (intro exI [of _ "[OpCreateVideo now (new_video p vid u tag)]"])
         (simp add: svc_step_def repo_step_CreateVideo)
  qed
next
  case (SvcUpdateVideoStats v)
  show ?thesis
  proof (cases rule: UpdateVideoStats_store_cases [of nt svc now v st])
    case same
    with SvcUpdateVideoStats show ?thesis
      by (intro exI [of _ "[]"]) (simp add: svc_step_def repo_run_def)
  next
    case marked
    with SvcUpdateVideoStats show ?thesis
      by (intro exI [of _ "[OpUpdateVideoState (v_VideoID v) StateError]"]) (simp add: svc_step_def repo_step_def)
  next
    case (appended row)
    with SvcUpdateVideoStats show ?thesis
      by (intro exI [of _ "[OpCreateVideoStats row]"]) (simp add: svc_step_def repo_step_append_stats)
  qed
qed (simp_all add: svc_step_def, (intro exI [of _ "[]"], simp add: repo_run_def)+)

theorem repo_step_wf_witness:
  "wf_store empty_store \<and>
   wf_store (snd (repo_step empty_store (OpCreateVideo 0 (new_video ''youtube'' ''abc123'' [] []))))"
proof -
  have w: "wf_store empty_store" by (simp add: empty_store_def wf_store_def)
  from repo_step_wf [OF w, of "OpCreateVideo 0 (new_video ''youtube'' ''abc123'' [] [])"] w
  show ?thesis by simp
qed

end
