(* ===== verification/Lifecycle.thy ===== *)
theory Lifecycle
  imports Engine
begin

text \<open>
  The life of the process, \<open>main\<close> of \<open>src/cmd/server/main.go\<close> around the
  engine: opening the repository (a failure is \<open>log.Fatalf\<close>), starting the
  poller's cron (\<open>Poller.Start\<close>) and the HTTP server with its timeouts,
  waiting for \<open>SIGINT\<close> or \<open>SIGTERM\<close>, and the graceful shutdown:
  \<open>server.Shutdown\<close> under a 30-second context, then the deferred
  \<open>cancel\<close> and \<open>poller.Stop\<close>. \<open>log.Fatalf\<close> prints and calls \<open>os.Exit(1)\<close>,
  which runs no deferred call. The state is the engine with the phase of
  \<open>main\<close>, whether the cron scheduler runs, and the log; the outside world
  sends signals, the listener goroutine's \<open>ListenAndServe\<close> returns, and
  \<open>Shutdown\<close> returns once the in-flight handlers are done or the deadline
  passes. While the process lives, every step of the engine may happen.
\<close>

section \<open>The HTTP server and the poller's scheduler\<close>

definition second :: duration where
  [model_defs]: "second = 1000000000"

text \<open>The \<open>http.Server\<close> literal of \<open>main\<close>.\<close>

record http_server =
  srv_Addr :: string
  srv_ReadTimeout :: duration
  srv_WriteTimeout :: duration

definition make_http_server :: "server_config \<Rightarrow> http_server" where
  "make_http_server cfg =
     \<lparr>srv_Addr = '':'' @ cfg_httpPort cfg, srv_ReadTimeout = 10 * second,
      srv_WriteTimeout = 10 * second\<rparr>"

definition shutdown_grace :: duration where
  [model_defs]: "shutdown_grace = 30 * second"

definition ErrServerClosed :: error where
  [model_defs]: "ErrServerClosed = ''http: Server closed''"

text \<open>\<open>server.Shutdown(ctx)\<close>: it closes the listeners and waits for the
  active connections to go idle, returning the context's error if the
  deadline comes first. \<open>ds\<close> are the times the in-flight handlers still
  need.\<close>

definition server_Shutdown :: "duration \<Rightarrow> duration list \<Rightarrow> error option" where
  "server_Shutdown grace ds =
     (if list_all (\<lambda>d. d \<le> grace) ds then None else Some ''context deadline exceeded'')"

section \<open>The process\<close>

datatype os_signal = SIGINT | SIGTERM | SIGHUP

datatype exit_status = ExitClean | ExitFatal string | ExitKilled os_signal

datatype main_phase = Serving | ShuttingDown | Exited exit_status

record main_state =
  m_engine :: engine
  m_phase :: main_phase
  m_cron :: bool
  m_log :: "string list"

text \<open>\<open>log.Fatalf\<close>: the message is printed and the process exits at once.\<close>

definition fatal :: "string \<Rightarrow> main_state \<Rightarrow> main_state" where
  "fatal msg s = s\<lparr>m_phase := Exited (ExitFatal msg), m_log := m_log s @ [msg]\<rparr>"

definition poller_Start :: "main_state \<Rightarrow> main_state" where
  "poller_Start s = s\<lparr>m_cron := True, m_log := m_log s @ [''Polling worker started'']\<rparr>"

definition poller_Stop :: "main_state \<Rightarrow> main_state" where
  "poller_Stop s = s\<lparr>m_cron := False, m_log := m_log s @ [''Polling worker stopped'']\<rparr>"

text \<open>\<open>main\<close> up to the wait on \<open>quit\<close>: \<open>open_err\<close> is the error of
  \<open>NewSQLiteRepository\<close>, if any. The listener goroutine's first log line is
  taken to come before the wait.\<close>

definition main_start :: "server_config \<Rightarrow> error option \<Rightarrow> main_state" where
  "main_start cfg open_err =
     (let s0 = \<lparr>m_engine = engine_init, m_phase = Serving, m_cron = False, m_log = []\<rparr>
      in case open_err of
           Some e \<Rightarrow> fatal (''Failed to connect to database: '' @ e) s0
         | None \<Rightarrow>
             (let s1 = poller_Start s0
              in s1\<lparr>m_log := m_log s1 @ [''Server starting on port '' @ cfg_httpPort cfg]\<rparr>))"

datatype main_event = Signal os_signal | ListenReturned error | ShutdownDone "duration list"

text \<open>One event of the outside world. \<open>signal.Notify\<close> routes only
  \<open>SIGINT\<close> and \<open>SIGTERM\<close> to \<open>quit\<close>; another signal keeps its default
  action, and \<open>SIGHUP\<close> ends the process with no log and no deferred call.
  The listener goroutine treats every error but \<open>ErrServerClosed\<close> as fatal.
  After \<open>Shutdown\<close> returns \<open>nil\<close>, \<open>main\<close> logs, returns, and its deferred
  calls run last-in first-out: \<open>cancel()\<close>, then \<open>poller.Stop()\<close>.\<close>

fun main_handle :: "main_event \<Rightarrow> main_state \<Rightarrow> main_state" where
  "main_handle (Signal sig) s =
     (if m_phase s = Serving then
        (if sig = SIGINT \<or> sig = SIGTERM
         then s\<lparr>m_phase := ShuttingDown, m_log := m_log s @ [''Shutting down server...'']\<rparr>
         else s\<lparr>m_phase := Exited (ExitKilled sig)\<rparr>)
      else s)"
| "main_handle (ListenReturned err) s =
     (if m_phase s = Serving \<or> m_phase s = ShuttingDown then
        (if err \<noteq> ErrServerClosed then fatal (''Server failed: '' @ err) s else s)
      else s)"
| "main_handle (ShutdownDone ds) s =
     (if m_phase s = ShuttingDown then
        (case server_Shutdown shutdown_grace ds of
           Some e \<Rightarrow> fatal (''Server forced to shutdown: '' @ e) s
         | None \<Rightarrow> poller_Stop (s\<lparr>m_phase := Exited ExitClean, m_log := m_log s @ [''Server exited'']\<rparr>))
      else s)"

definition alive :: "main_phase \<Rightarrow> bool" where
  "alive ph \<longleftrightarrow> ph = Serving \<or> ph = ShuttingDown"

text \<open>The process: while it lives, the engine takes its steps (requests,
  sweeps started by the cron, which still runs while the server shuts down);
  the outside world sends events.\<close>

inductive main_step :: "video_service \<Rightarrow> main_state \<Rightarrow> main_state \<Rightarrow> bool" for svc where
  work: "alive (m_phase s) \<Longrightarrow> engine_step svc (m_engine s) e' \<Longrightarrow>
     main_step svc s (s\<lparr>m_engine := e'\<rparr>)"
| event: "main_step svc s (main_handle ev s)"

inductive main_reachable :: "server_config \<Rightarrow> error option \<Rightarrow> main_state \<Rightarrow> bool"
  for cfg open_err where
  start: "main_reachable cfg open_err (main_start cfg open_err)"
| step: "main_reachable cfg open_err s \<Longrightarrow> main_step (main_service cfg) s s' \<Longrightarrow>
     main_reachable cfg open_err s'"

section \<open>Properties\<close>

definition main_inv :: "main_state \<Rightarrow> bool" where
  "main_inv s \<longleftrightarrow>
     engine_inv (m_engine s) \<and> (alive (m_phase s) \<longrightarrow> m_cron s) \<and>
     (m_phase s = Exited ExitClean \<longrightarrow> \<not> m_cron s)"

lemmas lifecycle_defs = fatal_def poller_Start_def poller_Stop_def alive_def server_Shutdown_def

lemma main_handle_dead: "\<not> alive (m_phase s) \<Longrightarrow> main_handle ev s = s"
  by (cases ev) (auto simp: alive_def)

lemma main_handle_engine: "m_engine (main_handle ev s) = m_engine s"
  by (cases ev) (auto simp: lifecycle_defs split: option.splits)

lemma main_handle_inv: "main_inv s \<Longrightarrow> main_inv (main_handle ev s)"
  by (cases ev) (auto simp: main_inv_def lifecycle_defs split: option.splits)

lemma main_step_inv: "main_step svc s s' \<Longrightarrow> main_inv s \<Longrightarrow> main_inv s'"
proof (induction rule: main_step.induct)
  case (work s e')
  then show ?case by (auto simp: main_inv_def alive_def intro: engine_step_inv)
next
  case (event s ev)
  then show ?case by (rule main_handle_inv)
qed

lemma main_start_inv: "main_inv (main_start cfg open_err)"
  by (auto simp: main_start_def main_inv_def lifecycle_defs engine_inv_init Let_def split: option.splits)

lemma main_reachable_inv: "main_reachable cfg open_err s \<Longrightarrow> main_inv s"
  by (induction rule: main_reachable.induct) (auto intro: main_start_inv main_step_inv)

text \<open>Once the process has exited nothing happens any more.\<close>

lemma main_step_dead: "main_step svc s s' \<Longrightarrow> \<not> alive (m_phase s) \<Longrightarrow> s' = s"
  by (induction rule: main_step.induct) (simp_all add: main_handle_dead)

lemma main_shutdown_log:
  "m_phase s = Serving \<Longrightarrow> sig = SIGINT \<or> sig = SIGTERM \<Longrightarrow>
   main_handle (Signal sig) s = s\<lparr>m_phase := ShuttingDown, m_log := m_log s @ [''Shutting down server...'']\<rparr>"
  by auto

text \<open>C9: in every state of the process the tables are well formed, the
  cron scheduler runs for as long as the process lives (through the
  shutdown too), and it is stopped once \<open>main\<close> has returned normally.\<close>

theorem main_reachable_cron:
  assumes "main_reachable cfg oe s"
  shows "wf_store (db (m_engine s)) \<and> (alive (m_phase s) \<longrightarrow> m_cron s) \<and>
         (m_phase s = Exited ExitClean \<longrightarrow> \<not> m_cron s)"
  using main_reachable_inv [OF assms] by (simp add: main_inv_def engine_inv_def)

text \<open>C20: on \<open>SIGINT\<close> or \<open>SIGTERM\<close> the server shuts down gracefully when every
  in-flight handler finishes within the 30-second grace: \<open>main\<close> logs its
  two lines and returns, and only then does the deferred \<open>poller.Stop\<close>
  stop the cron scheduler. Otherwise \<open>log.Fatalf\<close> exits the process with
  the deadline error and the deferred \<open>poller.Stop\<close> never runs.\<close>

theorem graceful_shutdown:
  assumes "m_phase s = Serving" and "sig = SIGINT \<or> sig = SIGTERM"
  shows "main_handle (ShutdownDone ds) (main_handle (Signal sig) s) =
     (if list_all (\<lambda>d. d \<le> 30 * second) ds
      then s\<lparr>m_phase := Exited ExitClean, m_cron := False,
             m_log := m_log s @ [''Shutting down server...'', ''Server exited'', ''Polling worker stopped'']\<rparr>
      else s\<lparr>m_phase := Exited (ExitFatal ''Server forced to shutdown: context deadline exceeded''),
             m_log := m_log s @ [''Shutting down server...'', ''Server forced to shutdown: context deadline exceeded'']\<rparr>)"
  using assms by (simp add: main_shutdown_log lifecycle_defs shutdown_grace_def)

text \<open>From every state of a live server, a signal and a timely shutdown end
  the process cleanly with the scheduler stopped.\<close>

lemma main_can_exit_cleanly:
  assumes "main_reachable cfg oe s" and "alive (m_phase s)"
  shows "\<exists>s'. main_reachable cfg oe s' \<and> m_phase s' = Exited ExitClean \<and> \<not> m_cron s'"
proof -
  have down: "main_reachable cfg oe (main_handle (ShutdownDone []) t) \<and>
              m_phase (main_handle (ShutdownDone []) t) = Exited ExitClean \<and>
              \<not> m_cron (main_handle (ShutdownDone []) t)"
    if "main_reachable cfg oe t" "m_phase t = ShuttingDown" for t
    using that main_reachable.step [OF that(1) main_step.event [where ev = "ShutdownDone []"]]
    by (simp add: lifecycle_defs)
  show ?thesis
  proof (cases "m_phase s = Serving")
    case True
    let ?t = "main_handle (Signal SIGTERM) s"
    have "main_reachable cfg oe ?t"
      using main_reachable.step [OF assms(1) main_step.event] .
    moreover have "m_phase ?t = ShuttingDown" using True by simp
    ultimately show ?thesis using down by blast
  next
    case False
    then show ?thesis using assms down by (auto simp: alive_def)
  qed
qed

text \<open>The cron scheduler is stopped only after \<open>Shutdown\<close> returns, so a
  baseline sweep can start after the shutdown signal.\<close>

lemma sweep_after_signal:
  "\<exists>s s'. main_reachable cfg None s \<and> m_phase s = ShuttingDown \<and>
     main_step (main_service cfg) s s' \<and>
     length (sweeps (m_engine s')) = Suc (length (sweeps (m_engine s)))"
proof -
  let ?s = "main_handle (Signal SIGTERM) (main_start cfg None)"
  have r: "main_reachable cfg None ?s"
    using main_reachable.step [OF main_reachable.start main_step.event] .
  have ph: "m_phase ?s = ShuttingDown"
    by (simp add: main_start_def lifecycle_defs Let_def)
  have "main_step (main_service cfg) ?s (?s\<lparr>m_engine := (m_engine ?s)\<lparr>sweeps := sweeps (m_engine ?s) @
          [svc_GetAllVideos (db (m_engine ?s))]\<rparr>\<rparr>)"
    using ph by (intro main_step.work engine_step.sweep_start) (simp add: alive_def)
  with r ph show ?thesis by fastforce
qed

theorem graceful_shutdown_witness:
  "main_handle (ShutdownDone [second]) (main_handle (Signal SIGTERM)
      \<lparr>m_engine = engine_init, m_phase = Serving, m_cron = True, m_log = []\<rparr>) =
   \<lparr>m_engine = engine_init, m_phase = Exited ExitClean, m_cron = False,
    m_log = [''Shutting down server...'', ''Server exited'', ''Polling worker stopped'']\<rparr> \<and>
   main_handle (ShutdownDone [31 * second]) (main_handle (Signal SIGINT)
      \<lparr>m_engine = engine_init, m_phase = Serving, m_cron = True, m_log = []\<rparr>) =
   \<lparr>m_engine = engine_init, m_phase = Exited (ExitFatal ''Server forced to shutdown: context deadline exceeded''),
    m_cron = True,
    m_log = [''Shutting down server...'', ''Server forced to shutdown: context deadline exceeded'']\<rparr>"
  using graceful_shutdown [of "\<lparr>m_engine = engine_init, m_phase = Serving, m_cron = True, m_log = []\<rparr>"
                             SIGTERM "[second]"]
        graceful_shutdown [of "\<lparr>m_engine = engine_init, m_phase = Serving, m_cron = True, m_log = []\<rparr>"
                             SIGINT "[31 * second]"]
  by (simp add: second_def)

theorem main_reachable_cron_witness:
  "main_reachable \<lparr>cfg_youtubeAPIKey = ''k'', cfg_instagramToken = ''t'', cfg_instagramID = ''i'',
       cfg_httpPort = ''8080''\<rparr> None
     (main_handle (ShutdownDone []) (main_handle (Signal SIGTERM)
        (main_start \<lparr>cfg_youtubeAPIKey = ''k'', cfg_instagramToken = ''t'', cfg_instagramID = ''i'',
           cfg_httpPort = ''8080''\<rparr> None))) \<and>
   m_phase (main_handle (ShutdownDone []) (main_handle (Signal SIGTERM)
        (main_start \<lparr>cfg_youtubeAPIKey = ''k'', cfg_instagramToken = ''t'', cfg_instagramID = ''i'',
           cfg_httpPort = ''8080''\<rparr> None))) = Exited ExitClean \<and>
   \<not> m_cron (main_handle (ShutdownDone []) (main_handle (Signal SIGTERM)
        (main_start \<lparr>cfg_youtubeAPIKey = ''k'', cfg_instagramToken = ''t'', cfg_instagramID = ''i'',
           cfg_httpPort = ''8080''\<rparr> None)))"
proof -
  let ?c = "\<lparr>cfg_youtubeAPIKey = ''k'', cfg_instagramToken = ''t'', cfg_instagramID = ''i'',
       cfg_httpPort = ''8080''\<rparr>"
  let ?s = "main_handle (ShutdownDone []) (main_handle (Signal SIGTERM) (main_start ?c None))"
  have r: "main_reachable ?c None ?s"
    by (rule main_reachable.step [OF main_reachable.step [OF main_reachable.start main_step.event]
          main_step.event])
  have p: "m_phase ?s = Exited ExitClean"
    by (simp add: main_start_def lifecycle_defs Let_def)
  from main_reachable_cron [OF r] r p show ?thesis by simp
qed

end
