(* ===== verification/JsonScan.thy ===== *)
theory JsonScan
  imports Prelude
begin

text \<open>
  The JSON reader behind \<open>json.NewDecoder(r.Body).Decode(&req)\<close> of
  \<open>decodeRegisterVideoRequest\<close> (\<open>src/internal/transport/http/handlers.go\<close>):
  Go's \<open>encoding/json\<close> scanner, a state machine over the bytes of the body
  with a stack of the objects and arrays it is inside, read byte by byte until
  the first complete value, and the unquoting of string literals. The states
  and their transitions follow \<open>scanner.go\<close> (\<open>stateBeginValue\<close>,
  \<open>stateEndValue\<close>, \<open>stateInString\<close>, ...), the error texts its
  \<open>SyntaxError\<close>s, and the value the scanner has read is kept as a \<open>jval\<close>,
  the tree \<open>decode.go\<close> walks afterwards. A string is a list of bytes, as a
  Go \<open>[]byte\<close>; \<open>unquote\<close> follows \<open>unquoteBytes\<close>, including the
  replacement of ill-formed UTF-8 and of unpaired surrogates by U+FFFD.
\<close>

section \<open>Bytes\<close>

abbreviation DQ :: char where "DQ \<equiv> CHR 0x22"
abbreviation BS :: char where "BS \<equiv> CHR 0x5C"
abbreviation SQ :: char where "SQ \<equiv> CHR 0x27"

definition isSpace :: "char \<Rightarrow> bool" where
  "isSpace c \<longleftrightarrow> c = CHR '' '' \<or> c = CHR 0x09 \<or> c = CHR 0x0A \<or> c = CHR 0x0D"

definition is_digit :: "char \<Rightarrow> bool" where
  "is_digit c \<longleftrightarrow> 48 \<le> (of_char c :: nat) \<and> (of_char c :: nat) \<le> 57"

definition is_hex :: "char \<Rightarrow> bool" where
  "is_hex c \<longleftrightarrow> is_digit c \<or> (65 \<le> (of_char c :: nat) \<and> (of_char c :: nat) \<le> 70) \<or>
                 (97 \<le> (of_char c :: nat) \<and> (of_char c :: nat) \<le> 102)"

definition hex_val :: "char \<Rightarrow> nat" where
  "hex_val c = (let n = of_char c in if n \<le> 57 then n - 48 else if n \<le> 70 then n - 55 else n - 87)"

definition hex_lower :: "nat \<Rightarrow> char" where
  "hex_lower n = (if n < 10 then char_of (48 + n) else char_of (87 + n))"

definition hex2 :: "nat \<Rightarrow> string" where
  "hex2 n = [hex_lower (n div 16), hex_lower (n mod 16)]"

section \<open>Syntax errors\<close>

text \<open>\<open>quoteChar\<close>: \<open>strconv.Quote(string(c))\<close> between single quotes. The
  byte is read as the rune U+00XX: printable ASCII stays, the control bytes
  and DEL get Go's escapes, U+0080..U+00A0 and U+00AD (not printable) are
  \<open>\u00xx\<close>, the other Latin-1 runes are written in UTF-8.\<close>

definition quote_rune_body :: "char \<Rightarrow> string" where
  "quote_rune_body c =
     (let n = (of_char c :: nat) in
      if c = BS then [BS, BS]
      else if 32 \<le> n \<and> n \<le> 126 then [c]
      else if n = 7 then [BS, CHR ''a''] else if n = 8 then [BS, CHR ''b'']
      else if n = 12 then [BS, CHR ''f''] else if n = 10 then [BS, CHR ''n'']
      else if n = 13 then [BS, CHR ''r''] else if n = 9 then [BS, CHR ''t'']
      else if n = 11 then [BS, CHR ''v'']
      else if n < 32 \<or> n = 127 then [BS, CHR ''x''] @ hex2 n
      else if n \<le> 160 \<or> n = 173 then [BS, CHR ''u'', CHR ''0'', CHR ''0''] @ hex2 n
      else [char_of (192 + n div 64), char_of (128 + n mod 64)])"

definition quoteChar :: "char \<Rightarrow> string" where
  "quoteChar c =
     (if c = SQ then [SQ, BS, SQ, SQ]
      else if c = DQ then [SQ, DQ, SQ]
      else SQ # quote_rune_body c @ [SQ])"

definition syntax_error :: "char \<Rightarrow> string \<Rightarrow> error" where
  "syntax_error c ctx = ''invalid character '' @ quoteChar c @ '' '' @ ctx"

section \<open>Unquoting string literals\<close>

definition replacement_char :: string where
  "replacement_char = [CHR 0xEF, CHR 0xBF, CHR 0xBD]"

text \<open>\<open>utf8.EncodeRune\<close>; a surrogate or a value past U+10FFFF is written as
  U+FFFD.\<close>

definition utf8_encode :: "nat \<Rightarrow> string" where
  "utf8_encode r =
     (if r < 0x80 then [char_of r]
      else if r < 0x800 then [char_of (0xC0 + r div 64), char_of (0x80 + r mod 64)]
      else if (0xD800 \<le> r \<and> r < 0xE000) \<or> 0x10FFFF < r then replacement_char
      else if r < 0x10000 then
        [char_of (0xE0 + r div 4096), char_of (0x80 + (r div 64) mod 64), char_of (0x80 + r mod 64)]
      else [char_of (0xF0 + r div 262144), char_of (0x80 + (r div 4096) mod 64),
            char_of (0x80 + (r div 64) mod 64), char_of (0x80 + r mod 64)])"

text \<open>\<open>utf8.DecodeRune\<close>: the table \<open>first\<close> gives for the leading byte
  the size of the sequence and, through \<open>acceptRanges\<close>, the range of the
  second byte (\<open>0\<close> for a byte that cannot start one); the bytes after the
  second are continuation bytes. \<open>rune_len\<close> is the size of the well-formed
  sequence at the head of a byte string, \<open>0\<close> where \<open>DecodeRune\<close> answers
  \<open>(RuneError, 1)\<close>.\<close>

definition rune_shape :: "nat \<Rightarrow> nat \<times> nat \<times> nat" where
  "rune_shape b =
     (if b < 0x80 then (1, 0, 0)
      else if 0xC2 \<le> b \<and> b \<le> 0xDF then (2, 0x80, 0xBF)
      else if b = 0xE0 then (3, 0xA0, 0xBF)
      else if (0xE1 \<le> b \<and> b \<le> 0xEC) \<or> b = 0xEE \<or> b = 0xEF then (3, 0x80, 0xBF)
      else if b = 0xED then (3, 0x80, 0x9F)
      else if b = 0xF0 then (4, 0x90, 0xBF)
      else if 0xF1 \<le> b \<and> b \<le> 0xF3 then (4, 0x80, 0xBF)
      else if b = 0xF4 then (4, 0x80, 0x8F)
      else (0, 0, 0))"

definition rune_len :: "string \<Rightarrow> nat" where
  "rune_len s =
     (case s of
        [] \<Rightarrow> 0
      | c # cs \<Rightarrow>
          (case rune_shape (of_char c) of
             (k, lo, hi) \<Rightarrow>
               if k \<le> 1 then k
               else if k - 1 \<le> length cs \<and> lo \<le> (of_char (cs ! 0) :: nat) \<and> (of_char (cs ! 0) :: nat) \<le> hi \<and>
                       list_all (\<lambda>i. 0x80 \<le> (of_char (cs ! i) :: nat) \<and> (of_char (cs ! i) :: nat) \<le> 0xBF) [1..<k - 1]
               then k else 0))"

text \<open>\<open>getu4\<close> after its \<open>\u\<close>: the four hex digits.\<close>

fun getu4 :: "string \<Rightarrow> nat option" where
  "getu4 (a # b # c # d # _) =
     (if is_hex a \<and> is_hex b \<and> is_hex c \<and> is_hex d
      then Some (((hex_val a * 16 + hex_val b) * 16 + hex_val c) * 16 + hex_val d) else None)"
| "getu4 _ = None"

definition unescape :: "char \<Rightarrow> char" where
  "unescape e =
     (if e = CHR ''b'' then CHR 0x08 else if e = CHR ''f'' then CHR 0x0C
      else if e = CHR ''n'' then CHR 0x0A else if e = CHR ''r'' then CHR 0x0D
      else if e = CHR ''t'' then CHR 0x09 else e)"

text \<open>\<open>unquoteBytes\<close> on the bytes between the quotes. The scanner has
  accepted the literal, so every backslash starts a valid escape; the
  branches for a broken escape (Go's \<open>return\<close> with \<open>ok = false\<close>) cannot be
  taken and yield the empty string. A high surrogate followed by a low one
  is one rune; any other surrogate is U+FFFD, and only its own escape is
  consumed.\<close>

function unquote :: "string \<Rightarrow> string" where
  "unquote [] = []"
| "unquote (c # cs) =
     (if c = BS then
        (case cs of
           [] \<Rightarrow> []
         | e # rest \<Rightarrow>
             if e = CHR ''u'' then
               (case getu4 rest of
                  None \<Rightarrow> []
                | Some r \<Rightarrow>
                    if 0xD800 \<le> r \<and> r < 0xE000 then
                      (case drop 4 rest of
                         b # u # rest2 \<Rightarrow>
                           (case getu4 rest2 of
                              Some r2 \<Rightarrow>
                                if b = BS \<and> u = CHR ''u'' \<and> r < 0xDC00 \<and> 0xDC00 \<le> r2 \<and> r2 < 0xE000
                                then utf8_encode ((r - 0xD800) * 1024 + (r2 - 0xDC00) + 0x10000) @
                                     unquote (drop 4 rest2)
                                else replacement_char @ unquote (drop 4 rest)
                            | None \<Rightarrow> replacement_char @ unquote (drop 4 rest))
                       | _ \<Rightarrow> replacement_char @ unquote (drop 4 rest))
                    else utf8_encode r @ unquote (drop 4 rest))
             else unescape e # unquote rest)
      else if (of_char c :: nat) < 128 then c # unquote cs
      else (let n = rune_len (c # cs) in
            if n = 0 then replacement_char @ unquote cs
            else take n (c # cs) @ unquote (drop n (c # cs))))"
  by pat_completeness auto
termination
  by (relation "measure length") (auto dest!: arg_cong [where f = length])

section \<open>The scanner\<close>

text \<open>A JSON value as the scanner has read it; a number keeps its text.\<close>

datatype jval =
  JVNull | JVBool bool | JVNum string | JVStr string | JVArr "jval list"
  | JVObj "(string \<times> jval) list"

text \<open>The parse stack (\<open>parseObjectKey\<close>, \<open>parseObjectValue\<close>,
  \<open>parseArrayValue\<close>) with what has been read of each open object and
  array.\<close>

datatype parse_frame =
  PObjectKey "(string \<times> jval) list"
  | PObjectValue "(string \<times> jval) list" string
  | PArrayValue "jval list"

text \<open>The scanner's \<open>step\<close> function, one constructor per state; a state
  inside a literal carries the bytes read so far, \<open>SEndValue\<close> the value just
  completed.\<close>

datatype scan_state =
  SBeginValue | SBeginValueOrEmpty | SBeginStringOrEmpty | SBeginString
  | SInString string | SInStringEsc string | SInStringEscU string nat
  | SNeg string | S0 string | S1 string | SDot string | SDot0 string
  | SE string | SESign string | SE0 string
  | SLit string string jval
  | SEndValue jval

datatype scan_result = ScanErr error | ScanDone jval | ScanMore scan_state "parse_frame list"

definition maxNestingDepth :: nat where
  "maxNestingDepth = 10000"

definition pushParseState :: "char \<Rightarrow> parse_frame \<Rightarrow> parse_frame list \<Rightarrow> scan_state \<Rightarrow> scan_result" where
  "pushParseState c f stk st =
     (if length stk < maxNestingDepth then ScanMore st (f # stk)
      else ScanErr (syntax_error c ''exceeded max depth''))"

text \<open>A value is complete: at the top level the decoder stops
  (\<open>stateEndTop\<close> answers \<open>scanEnd\<close> whatever follows), inside an object or
  array the scanner goes on in \<open>stateEndValue\<close>.\<close>

definition complete :: "jval \<Rightarrow> parse_frame list \<Rightarrow> scan_result" where
  "complete v stk = (if stk = [] then ScanDone v else ScanMore (SEndValue v) stk)"

fun key_of :: "jval \<Rightarrow> string" where
  "key_of (JVStr k) = k"
| "key_of _ = []"

definition stateBeginValue :: "parse_frame list \<Rightarrow> char \<Rightarrow> scan_result" where
  "stateBeginValue stk c =
     (if isSpace c then ScanMore SBeginValue stk
      else if c = CHR ''{'' then pushParseState c (PObjectKey []) stk SBeginStringOrEmpty
      else if c = CHR ''['' then pushParseState c (PArrayValue []) stk SBeginValueOrEmpty
      else if c = DQ then ScanMore (SInString []) stk
      else if c = CHR ''-'' then ScanMore (SNeg [c]) stk
      else if c = CHR ''0'' then ScanMore (S0 [c]) stk
      else if is_digit c then ScanMore (S1 [c]) stk
      else if c = CHR ''t'' then ScanMore (SLit ''true'' ''rue'' (JVBool True)) stk
      else if c = CHR ''f'' then ScanMore (SLit ''false'' ''alse'' (JVBool False)) stk
      else if c = CHR ''n'' then ScanMore (SLit ''null'' ''ull'' JVNull) stk
      else ScanErr (syntax_error c ''looking for beginning of value''))"

definition stateBeginString :: "parse_frame list \<Rightarrow> char \<Rightarrow> scan_result" where
  "stateBeginString stk c =
     (if isSpace c then ScanMore SBeginString stk
      else if c = DQ then ScanMore (SInString []) stk
      else ScanErr (syntax_error c ''looking for beginning of object key string''))"

definition stateEndValue :: "jval \<Rightarrow> parse_frame list \<Rightarrow> char \<Rightarrow> scan_result" where
  "stateEndValue v stk c =
     (case stk of
        [] \<Rightarrow> ScanDone v
      | f # rest \<Rightarrow>
          if isSpace c then ScanMore (SEndValue v) stk
          else (case f of
                  PObjectKey ms \<Rightarrow>
                    if c = CHR '':'' then ScanMore SBeginValue (PObjectValue ms (key_of v) # rest)
                    else ScanErr (syntax_error c ''after object key'')
                | PObjectValue ms k \<Rightarrow>
                    if c = CHR '','' then ScanMore SBeginString (PObjectKey (ms @ [(k, v)]) # rest)
                    else if c = CHR ''}'' then complete (JVObj (ms @ [(k, v)])) rest
                    else ScanErr (syntax_error c ''after object key:value pair'')
                | PArrayValue vs \<Rightarrow>
                    if c = CHR '','' then ScanMore SBeginValue (PArrayValue (vs @ [v]) # rest)
                    else if c = CHR '']'' then complete (JVArr (vs @ [v])) rest
                    else ScanErr (syntax_error c ''after array element'')))"

definition state0 :: "string \<Rightarrow> parse_frame list \<Rightarrow> char \<Rightarrow> scan_result" where
  "state0 buf stk c =
     (if c = CHR ''.'' then ScanMore (SDot (buf @ [c])) stk
      else if c = CHR ''e'' \<or> c = CHR ''E'' then ScanMore (SE (buf @ [c])) stk
      else stateEndValue (JVNum buf) stk c)"

definition stateESign :: "string \<Rightarrow> parse_frame list \<Rightarrow> char \<Rightarrow> scan_result" where
  "stateESign buf stk c =
     (if is_digit c then ScanMore (SE0 (buf @ [c])) stk
      else ScanErr (syntax_error c ''in exponent of numeric literal''))"

fun scan_step :: "scan_state \<Rightarrow> parse_frame list \<Rightarrow> char \<Rightarrow> scan_result" where
  "scan_step SBeginValue stk c = stateBeginValue stk c"
| "scan_step SBeginValueOrEmpty stk c =
     (if isSpace c then ScanMore SBeginValueOrEmpty stk
      else if c = CHR '']'' then complete (JVArr []) (drop 1 stk)
      else stateBeginValue stk c)"
| "scan_step SBeginStringOrEmpty stk c =
     (if isSpace c then ScanMore SBeginStringOrEmpty stk
      else if c = CHR ''}'' then complete (JVObj []) (drop 1 stk)
      else stateBeginString stk c)"
| "scan_step SBeginString stk c = stateBeginString stk c"
| "scan_step (SInString raw) stk c =
     (if c = DQ then complete (JVStr (unquote raw)) stk
      else if c = BS then ScanMore (SInStringEsc raw) stk
      else if (of_char c :: nat) < 32 then ScanErr (syntax_error c ''in string literal'')
      else ScanMore (SInString (raw @ [c])) stk)"
| "scan_step (SInStringEsc raw) stk c =
     (if c \<in> set [CHR ''b'', CHR ''f'', CHR ''n'', CHR ''r'', CHR ''t'', BS, CHR ''/'', DQ]
      then ScanMore (SInString (raw @ [BS, c])) stk
      else if c = CHR ''u'' then ScanMore (SInStringEscU (raw @ [BS, c]) 0) stk
      else ScanErr (syntax_error c ''in string escape code''))"
| "scan_step (SInStringEscU raw k) stk c =
     (if is_hex c then
        (if k = 3 then ScanMore (SInString (raw @ [c])) stk else ScanMore (SInStringEscU (raw @ [c]) (Suc k)) stk)
      else ScanErr (syntax_error c (''in '' @ [BS] @ ''u hexadecimal character escape'')))"
| "scan_step (SNeg buf) stk c =
     (if c = CHR ''0'' then ScanMore (S0 (buf @ [c])) stk
      else if is_digit c then ScanMore (S1 (buf @ [c])) stk
      else ScanErr (syntax_error c ''in numeric literal''))"
| "scan_step (S1 buf) stk c = (if is_digit c then ScanMore (S1 (buf @ [c])) stk else state0 buf stk c)"
| "scan_step (S0 buf) stk c = state0 buf stk c"
| "scan_step (SDot buf) stk c =
     (if is_digit c then ScanMore (SDot0 (buf @ [c])) stk
      else ScanErr (syntax_error c ''after decimal point in numeric literal''))"
| "scan_step (SDot0 buf) stk c =
     (if is_digit c then ScanMore (SDot0 (buf @ [c])) stk
      else if c = CHR ''e'' \<or> c = CHR ''E'' then ScanMore (SE (buf @ [c])) stk
      else stateEndValue (JVNum buf) stk c)"
| "scan_step (SE buf) stk c =
     (if c = CHR ''+'' \<or> c = CHR ''-'' then ScanMore (SESign (buf @ [c])) stk else stateESign buf stk c)"
| "scan_step (SESign buf) stk c = stateESign buf stk c"
| "scan_step (SE0 buf) stk c =
     (if is_digit c then ScanMore (SE0 (buf @ [c])) stk else stateEndValue (JVNum buf) stk c)"
| "scan_step (SLit name expect v) stk c =
     (case expect of
        [] \<Rightarrow> complete v stk
      | e # es \<Rightarrow>
          if c = e then (if es = [] then complete v stk else ScanMore (SLit name es v) stk)
          else ScanErr (syntax_error c (''in literal '' @ name @ '' (expecting '' @ quoteChar e @ '')'')))"
| "scan_step (SEndValue v) stk c = stateEndValue v stk c"

text \<open>End of the body (\<open>Decoder.readValue\<close> at \<open>io.EOF\<close>): a space is fed
  to end a number at the top level; otherwise the value is cut short
  (\<open>io.ErrUnexpectedEOF\<close>) unless nothing but white space was read
  (\<open>io.EOF\<close>).\<close>

definition scan_eof :: "scan_state \<Rightarrow> parse_frame list \<Rightarrow> jval result" where
  "scan_eof st stk =
     (case scan_step st stk (CHR '' '') of
        ScanDone v \<Rightarrow> Inr v
      | _ \<Rightarrow> if st = SBeginValue \<and> stk = [] then Inl ''EOF'' else Inl ''unexpected EOF'')"

fun scan_run :: "scan_state \<Rightarrow> parse_frame list \<Rightarrow> string \<Rightarrow> jval result" where
  "scan_run st stk [] = scan_eof st stk"
| "scan_run st stk (c # cs) =
     (case scan_step st stk c of
        ScanErr e \<Rightarrow> Inl e
      | ScanDone v \<Rightarrow> Inr v
      | ScanMore st' stk' \<Rightarrow> scan_run st' stk' cs)"

text \<open>\<open>Decoder.Decode\<close>'s reading of one value: what follows the first
  complete value is not read.\<close>

definition decode_value :: "string \<Rightarrow> jval result" where
  "decode_value body = scan_run SBeginValue [] body"

end
