(* ===== verification/JsonReader.thy ===== *)
theory JsonReader
  imports Transport JsonScan
begin

text \<open>
  The body of \<open>POST /track-video\<close> as \<open>decodeRegisterVideoRequest\<close> reads
  it: the value \<open>JsonScan\<close> scans is unmarshalled into a zero
  \<open>endpoint.RegisterVideoRequest\<close> as \<open>decode.go\<close> does it for a struct of
  four string fields. A key selects the field whose tag is the same string,
  or failing that the field whose name it equals under Go's case folding;
  other keys are skipped; \<open>null\<close> leaves a field alone; a value of another
  kind is an \<open>UnmarshalTypeError\<close>, the first of which is returned once the
  whole object has been read. The concrete \<open>codec\<close> \<open>go_codec\<close> puts this
  reader behind the handler of \<open>Transport\<close>. \<open>marshal_register\<close> is the
  body a Go client writes with \<open>json.Marshal\<close> for a request, used to state
  what the handler makes of it.
\<close>

section \<open>Unmarshalling into \<open>RegisterVideoRequest\<close>\<close>

definition zero_request :: RegisterVideoRequest where
  "zero_request = \<lparr>rq_Platform = [], rq_VideoID = [], rq_Username = [], rq_Tag = []\<rparr>"

text \<open>The \<open>json\<close> tags of the struct's fields, in field order.\<close>

definition register_fields :: "string list" where
  "register_fields = [''platform'', ''video_id'', ''username'', ''tag'']"

definition ascii_upper :: "char \<Rightarrow> char" where
  "ascii_upper c =
     (if c \<in> set ''abcdefghijklmnopqrstuvwxyz''
      then ''ABCDEFGHIJKLMNOPQRSTUVWXYZ'' ! (of_char c - 97) else c)"

text \<open>\<open>foldName\<close>: ASCII letters to upper case; the two runes whose fold set
  reaches ASCII, the long s U+017F and the Kelvin sign U+212A, to \<open>S\<close> and
  \<open>K\<close>. Every other rune folds to a rune outside ASCII; its bytes are kept,
  which decides a comparison with an ASCII tag the same way.\<close>

fun foldName :: "string \<Rightarrow> string" where
  "foldName (c # d # e # cs) =
     (if c = CHR 0xE2 \<and> d = CHR 0x84 \<and> e = CHR 0xAA then CHR ''K'' # foldName cs
      else if c = CHR 0xC5 \<and> d = CHR 0xBF then CHR ''S'' # foldName (e # cs)
      else ascii_upper c # foldName (d # e # cs))"
| "foldName [c, d] =
     (if c = CHR 0xC5 \<and> d = CHR 0xBF then [CHR ''S''] else [ascii_upper c, ascii_upper d])"
| "foldName [c] = [ascii_upper c]"
| "foldName [] = []"

text \<open>The field a key selects: \<open>byExactName\<close>, then \<open>byFoldedName\<close>.\<close>

definition match_field :: "string \<Rightarrow> string option" where
  "match_field k =
     (if k \<in> set register_fields then Some k
      else find (\<lambda>f. foldName f = foldName k) register_fields)"

definition set_field :: "string \<Rightarrow> string \<Rightarrow> RegisterVideoRequest \<Rightarrow> RegisterVideoRequest" where
  "set_field f s req =
     (if f = ''platform'' then req\<lparr>rq_Platform := s\<rparr>
      else if f = ''video_id'' then req\<lparr>rq_VideoID := s\<rparr>
      else if f = ''username'' then req\<lparr>rq_Username := s\<rparr>
      else req\<lparr>rq_Tag := s\<rparr>)"

fun jval_kind :: "jval \<Rightarrow> string" where
  "jval_kind JVNull = ''null''"
| "jval_kind (JVBool _) = ''bool''"
| "jval_kind (JVNum _) = ''number''"
| "jval_kind (JVStr _) = ''string''"
| "jval_kind (JVArr _) = ''array''"
| "jval_kind (JVObj _) = ''object''"

text \<open>\<open>UnmarshalTypeError.Error()\<close> inside the struct and at the top.\<close>

definition field_type_error :: "string \<Rightarrow> string \<Rightarrow> error" where
  "field_type_error f kind =
     ''json: cannot unmarshal '' @ kind @ '' into Go struct field RegisterVideoRequest.'' @ f @ '' of type string''"

definition value_type_error :: "string \<Rightarrow> error" where
  "value_type_error kind = ''json: cannot unmarshal '' @ kind @ '' into Go value of type endpoint.RegisterVideoRequest''"

text \<open>\<open>d.object\<close> over the members in order, with \<open>d.savedError\<close>: the
  first type error is kept and the rest of the object is still stored.\<close>

fun unmarshal_members ::
  "(string \<times> jval) list \<Rightarrow> RegisterVideoRequest \<times> error option \<Rightarrow> RegisterVideoRequest \<times> error option" where
  "unmarshal_members [] acc = acc"
| "unmarshal_members ((k, v) # ms) (req, err) =
     unmarshal_members ms
       (case match_field k of
          None \<Rightarrow> (req, err)
        | Some f \<Rightarrow>
            (case v of
               JVStr s \<Rightarrow> (set_field f s req, err)
             | JVNull \<Rightarrow> (req, err)
             | _ \<Rightarrow> (req, if err = None then Some (field_type_error f (jval_kind v)) else err)))"

definition unmarshal_register :: "jval \<Rightarrow> RegisterVideoRequest result" where
  "unmarshal_register v =
     (case v of
        JVObj ms \<Rightarrow>
          (case unmarshal_members ms (zero_request, None) of
             (req, None) \<Rightarrow> Inr req
           | (_, Some e) \<Rightarrow> Inl e)
      | JVNull \<Rightarrow> Inr zero_request
      | _ \<Rightarrow> Inl (value_type_error (jval_kind v)))"

text \<open>\<open>json.NewDecoder(r.Body).Decode(&req)\<close>: scan one value, then
  unmarshal it.\<close>

definition json_decode_register :: "string \<Rightarrow> RegisterVideoRequest result" where
  "json_decode_register body =
     (case decode_value body of Inl e \<Rightarrow> Inl e | Inr v \<Rightarrow> unmarshal_register v)"

definition go_codec :: "(string \<Rightarrow> time result) \<Rightarrow> codec" where
  "go_codec parse = \<lparr>decode_register = json_decode_register, parse_rfc3339 = parse\<rparr>"

section \<open>The body a Go client sends\<close>

text \<open>\<open>encodeState.string\<close> with HTML escaping, byte by byte: the quote, the
  backslash, the control bytes and \<open><\<close>, \<open>>\<close>, \<open>&\<close> are escaped, every other
  byte is copied (for well-formed UTF-8 without U+2028 and U+2029, which Go
  also escapes).\<close>

definition quote_byte :: "char \<Rightarrow> string" where
  "quote_byte c =
     (let n = (of_char c :: nat) in
      if c = DQ then [BS, DQ] else if c = BS then [BS, BS]
      else if n = 8 then [BS, CHR ''b''] else if n = 12 then [BS, CHR ''f'']
      else if n = 10 then [BS, CHR ''n''] else if n = 13 then [BS, CHR ''r'']
      else if n = 9 then [BS, CHR ''t'']
      else if n < 32 \<or> c = CHR ''<'' \<or> c = CHR ''>'' \<or> c = CHR ''&''
      then [BS, CHR ''u'', CHR ''0'', CHR ''0''] @ hex2 n
      else [c])"

definition json_quote :: "string \<Rightarrow> string" where
  "json_quote s = DQ # concat (map quote_byte s) @ [DQ]"

definition json_member :: "string \<Rightarrow> string \<Rightarrow> string" where
  "json_member k v = json_quote k @ '':'' @ json_quote v"

text \<open>\<open>json.Marshal\<close> of a \<open>RegisterVideoRequest\<close>: the fields in order,
  \<open>username\<close> and \<open>tag\<close> left out when empty (\<open>omitempty\<close>).\<close>

definition marshal_register :: "RegisterVideoRequest \<Rightarrow> string" where
  "marshal_register req =
     ''{'' @ json_member ''platform'' (rq_Platform req) @ '','' @ json_member ''video_id'' (rq_VideoID req) @
     (if rq_Username req = [] then [] else '','' @ json_member ''username'' (rq_Username req)) @
     (if rq_Tag req = [] then [] else '','' @ json_member ''tag'' (rq_Tag req)) @ ''}''"

text \<open>Well-formed UTF-8, the strings \<open>unquote\<close> keeps unchanged.\<close>

function utf8_valid :: "string \<Rightarrow> bool" where
  "utf8_valid [] = True"
| "utf8_valid (c # cs) =
     (if (of_char c :: nat) < 128 then utf8_valid cs
      else (let n = rune_len (c # cs) in if n = 0 then False else utf8_valid (drop n (c # cs))))"
  by pat_completeness auto
termination
  by (relation "measure length") auto

text \<open>Scanning a string that leaves every value open: each byte is a step
  that continues with a non-empty parse stack. Used to read a cut-off body.\<close>

fun scan_through :: "scan_state \<Rightarrow> parse_frame list \<Rightarrow> string \<Rightarrow> (scan_state \<times> parse_frame list) option" where
  "scan_through st stk [] = Some (st, stk)"
| "scan_through st stk (c # cs) =
     (case scan_step st stk c of
        ScanMore st' stk' \<Rightarrow> if stk' = [] then None else scan_through st' stk' cs
      | _ \<Rightarrow> None)"

section \<open>Properties\<close>

subsection \<open>Escaping and unescaping strings\<close>

lemma hex_lower_props:
  assumes "k < 16"
  shows "is_hex (hex_lower k)" and "hex_val (hex_lower k) = k"
  using assms by (auto simp: hex_lower_def is_hex_def is_digit_def hex_val_def Let_def)

lemma quote_byte_high: "128 \<le> (of_char c :: nat) \<Longrightarrow> quote_byte c = [c]"
  by (auto simp: quote_byte_def Let_def)

lemma concat_quote_high:
  "\<forall>x\<in>set xs. 128 \<le> (of_char x :: nat) \<Longrightarrow> concat (map quote_byte xs) = xs"
  by (induction xs) (auto simp: quote_byte_high)

lemma char_by_code: "(of_char c :: nat) = of_char d \<Longrightarrow> c = d"
  by simp

lemma unquote_u00:
  assumes "n < 128"
  shows "unquote ([BS, CHR ''u'', CHR ''0'', CHR ''0''] @ hex2 n @ rest) = char_of n # unquote rest"
proof -
  have h: "n div 16 < 16" "n mod 16 < 16" using assms by auto
  have g: "getu4 (CHR ''0'' # CHR ''0'' # hex2 n @ rest) = Some n"
    using hex_lower_props [OF h(1)] hex_lower_props [OF h(2)]
    by (simp add: hex2_def is_hex_def is_digit_def hex_val_def)
  show ?thesis
    using g assms by (simp add: utf8_encode_def hex2_def)
qed

lemma unquote_quote_byte:
  assumes "(of_char c :: nat) < 128"
  shows "unquote (quote_byte c @ rest) = c # unquote rest"
proof (cases "c = DQ \<or> c = BS")
  case True
  then show ?thesis by (auto simp: quote_byte_def unescape_def)
next
  case False
  define n where "n = (of_char c :: nat)"
  have short: "c = d" if "n = of_char d" for d using that char_by_code [of c d] by (simp add: n_def)
  consider "n = 8" | "n = 12" | "n = 10" | "n = 13" | "n = 9" | "n \<notin> {8, 12, 10, 13, 9}" by blast
  then show ?thesis
  proof cases
    case 1 with short [of "CHR 0x08"] False show ?thesis by (simp add: quote_byte_def unescape_def n_def)
  next
    case 2 with short [of "CHR 0x0C"] False show ?thesis by (simp add: quote_byte_def unescape_def n_def)
  next
    case 3 with short [of "CHR 0x0A"] False show ?thesis by (simp add: quote_byte_def unescape_def n_def)
  next
    case 4 with short [of "CHR 0x0D"] False show ?thesis by (simp add: quote_byte_def unescape_def n_def)
  next
    case 5 with short [of "CHR 0x09"] False show ?thesis by (simp add: quote_byte_def unescape_def n_def)
  next
    case 6
    then show ?thesis
      using False assms unquote_u00 [of n rest]
      by (auto simp: quote_byte_def Let_def n_def)
  qed
qed

lemma rune_shape_long:
  "rune_shape b = (k, lo, hi) \<Longrightarrow> 2 \<le> k \<Longrightarrow> 128 \<le> lo \<and> k \<le> 4"
  by (auto simp: rune_shape_def split: if_splits)

lemma rune_shape_high: "128 \<le> b \<Longrightarrow> rune_shape b = (k, lo, hi) \<Longrightarrow> k \<noteq> 1"
  by (auto simp: rune_shape_def split: if_splits)

lemma rune_len_append: "rune_len s \<noteq> 0 \<Longrightarrow> rune_len (s @ X) = rune_len s"
proof (cases s)
  case (Cons c cs)
  assume n: "rune_len s \<noteq> 0"
  obtain k lo hi where sh: "rune_shape (of_char c) = (k, lo, hi)" by (metis prod_cases3)
  show ?thesis
    using n sh Cons by (auto simp: rune_len_def list_all_iff nth_append split: if_splits)
qed (simp add: rune_len_def)

lemma rune_len_take: "rune_len s \<noteq> 0 \<Longrightarrow> rune_len (take (rune_len s) s) = rune_len s"
proof (cases s)
  case (Cons c cs)
  assume n: "rune_len s \<noteq> 0"
  obtain k lo hi where sh: "rune_shape (of_char c) = (k, lo, hi)" by (metis prod_cases3)
  show ?thesis
  proof (cases "k \<le> 1")
    case True
    with n sh Cons have "k = 1" by (auto simp: rune_len_def)
    with sh Cons show ?thesis by (simp add: rune_len_def)
  next
    case False
    with n sh Cons have "rune_len s = k" by (auto simp: rune_len_def split: if_splits)
    with n sh Cons False show ?thesis
      by (auto simp: rune_len_def list_all_iff min_def take_Cons' split: if_splits)
  qed
qed (simp add: rune_len_def)

lemma rune_len_le: "rune_len s \<le> length s"
proof (cases s)
  case (Cons c cs)
  obtain k lo hi where sh: "rune_shape (of_char c) = (k, lo, hi)" by (metis prod_cases3)
  then show ?thesis using Cons by (auto simp: rune_len_def)
qed (simp add: rune_len_def)

lemma rune_len_high:
  assumes "i < rune_len (c # cs)" and "128 \<le> (of_char c :: nat)"
  shows "128 \<le> (of_char ((c # cs) ! i) :: nat)"
proof (cases i)
  case (Suc j)
  obtain k lo hi where sh: "rune_shape (of_char c) = (k, lo, hi)" by (metis prod_cases3)
  have k1: "k \<noteq> 1" using rune_shape_high [OF assms(2) sh] .
  have len: "rune_len (c # cs) = k" and conds:
    "lo \<le> (of_char (cs ! 0) :: nat)"
    "list_all (\<lambda>i. 0x80 \<le> (of_char (cs ! i) :: nat) \<and> (of_char (cs ! i) :: nat) \<le> 0xBF) [1..<k - 1]"
    using assms(1) sh k1 by (auto simp: rune_len_def split: if_splits)
  have lo: "128 \<le> lo" using rune_shape_long [OF sh] assms(1) len k1 by auto
  show ?thesis
  proof (cases j)
    case 0
    with Suc conds(1) lo show ?thesis by simp
  next
    case (Suc j')
    with \<open>i = Suc j\<close> assms(1) len conds(2) show ?thesis by (auto simp: list_all_iff)
  qed
qed (use assms in simp)

lemma unquote_rune:
  assumes "rune_len (c # cs) \<noteq> 0" and "128 \<le> (of_char c :: nat)"
  shows "unquote (take (rune_len (c # cs)) (c # cs) @ rest) = take (rune_len (c # cs)) (c # cs) @ unquote rest"
proof -
  define n where "n = rune_len (c # cs)"
  have nl: "n \<le> length (c # cs)" using rune_len_le n_def by metis
  have n0: "0 < n" using assms(1) n_def by simp
  have t: "take n (c # cs) @ rest = c # (take (n - 1) cs @ rest)" using n0 by (cases n) auto
  have r: "rune_len (take n (c # cs) @ rest) = n"
    using rune_len_append [of "take n (c # cs)" rest] rune_len_take [of "c # cs"] assms(1) n_def by simp
  have c: "c \<noteq> BS" using assms(2) by auto
  have "unquote (take n (c # cs) @ rest) =
        take n (take n (c # cs) @ rest) @ unquote (drop n (take n (c # cs) @ rest))"
    using r c assms(2) n0 by (simp only: t unquote.simps) (simp add: t [symmetric])
  also have "\<dots> = take n (c # cs) @ unquote rest" using nl by simp
  finally show ?thesis by (simp add: n_def)
qed

lemma concat_quote_rune:
  assumes "rune_len (c # cs) \<noteq> 0" and "128 \<le> (of_char c :: nat)"
  shows "concat (map quote_byte (take (rune_len (c # cs)) (c # cs))) = take (rune_len (c # cs)) (c # cs)"
proof (rule concat_quote_high, rule ballI)
  fix x assume "x \<in> set (take (rune_len (c # cs)) (c # cs))"
  then obtain i where "i < length (take (rune_len (c # cs)) (c # cs))" "x = take (rune_len (c # cs)) (c # cs) ! i"
    by (metis in_set_conv_nth)
  then show "128 \<le> (of_char x :: nat)" using rune_len_high [OF _ assms(2)] by auto
qed

lemma unquote_quote: "utf8_valid s \<Longrightarrow> unquote (concat (map quote_byte s)) = s"
proof (induction s rule: utf8_valid.induct)
  case 1
  then show ?case by simp
next
  case (2 c cs)
  show ?case
  proof (cases "(of_char c :: nat) < 128")
    case True
    with 2 show ?thesis by (simp add: unquote_quote_byte)
  next
    case False
    define n where "n = rune_len (c # cs)"
    have v: "n \<noteq> 0" "utf8_valid (drop n (c # cs))" using 2(3) False by (simp_all add: n_def Let_def split: if_splits)
    have ih: "unquote (concat (map quote_byte (drop n (c # cs)))) = drop n (c # cs)"
      using 2(2) [OF False n_def v(1) v(2)] .
    have "concat (map quote_byte (c # cs)) =
          concat (map quote_byte (take n (c # cs))) @ concat (map quote_byte (drop n (c # cs)))"
      by (metis append_take_drop_id concat_append map_append)
    also have "\<dots> = take n (c # cs) @ concat (map quote_byte (drop n (c # cs)))"
      using concat_quote_rune [of c cs] v(1) False by (simp add: n_def)
    finally show ?thesis
      using unquote_rune [of c cs] v(1) False ih by (simp add: n_def)
  qed
qed

lemma scan_quote_byte:
  "scan_run (SInString raw) stk (quote_byte c @ ys) = scan_run (SInString (raw @ quote_byte c)) stk ys"
proof -
  define n where "n = (of_char c :: nat)"
  have u: "scan_run (SInString raw) stk ([BS, CHR ''u'', CHR ''0'', CHR ''0''] @ hex2 n @ ys) =
           scan_run (SInString (raw @ [BS, CHR ''u'', CHR ''0'', CHR ''0''] @ hex2 n)) stk ys" if "n < 256"
  proof -
    have "n div 16 < 16" "n mod 16 < 16" using that by auto
    then show ?thesis
      using hex_lower_props by (simp add: hex2_def is_hex_def is_digit_def)
  qed
  have lt: "n < 256" unfolding n_def by simp
  show ?thesis
    using u [OF lt] unfolding quote_byte_def Let_def n_def [symmetric]
    by (auto simp: n_def)
qed

lemma scan_quoted:
  "scan_run (SInString raw) stk (concat (map quote_byte s) @ ys) =
   scan_run (SInString (raw @ concat (map quote_byte s))) stk ys"
proof (induction s arbitrary: raw)
  case (Cons c s)
  show ?case
    using scan_quote_byte [of raw stk c "concat (map quote_byte s) @ ys"] Cons [of "raw @ quote_byte c"]
    by simp
qed simp

lemma scan_json_string:
  assumes "stk \<noteq> []" and "utf8_valid s"
  shows "scan_run (SInString []) stk (concat (map quote_byte s) @ DQ # rest) = scan_run (SEndValue (JVStr s)) stk rest"
  using scan_quoted [of "[]" stk s "DQ # rest"] assms unquote_quote [OF assms(2)]
  by (simp add: complete_def)

lemma scan_member:
  assumes "st = SBeginString \<or> st = SBeginStringOrEmpty" and "utf8_valid k" and "utf8_valid v"
  shows "scan_run st (PObjectKey ms # stk) (json_member k v @ ys) =
         scan_run (SEndValue (JVStr v)) (PObjectValue ms k # stk) ys"
proof -
  have s: "scan_step st (PObjectKey ms # stk) DQ = ScanMore (SInString []) (PObjectKey ms # stk)"
    using assms(1) by (auto simp: stateBeginString_def isSpace_def)
  show ?thesis
    unfolding json_member_def json_quote_def
    using scan_json_string [OF _ assms(2), of "PObjectKey ms # stk"]
          scan_json_string [OF _ assms(3), of "PObjectValue ms k # stk"]
    by (simp add: s stateBeginValue_def stateEndValue_def isSpace_def)
qed

lemma decode_marshal_register:
  assumes "utf8_valid (rq_Platform req)" and "utf8_valid (rq_VideoID req)"
    and "utf8_valid (rq_Username req)" and "utf8_valid (rq_Tag req)"
  shows "json_decode_register (marshal_register req @ rest) = Inr req"
proof (cases req)
  case (fields p v u t)
  have k: "utf8_valid ''platform''" "utf8_valid ''video_id''" "utf8_valid ''username''" "utf8_valid ''tag''"
    by simp_all
  note m = scan_member [OF _ k(1)] scan_member [OF _ k(2)] scan_member [OF _ k(3)] scan_member [OF _ k(4)]
  show ?thesis
    using assms m [of _ p] m [of _ v] m [of _ u] m [of _ t]
    by (auto simp: fields marshal_register_def json_decode_register_def decode_value_def
        stateBeginValue_def pushParseState_def maxNestingDepth_def isSpace_def stateEndValue_def complete_def
        unmarshal_register_def match_field_def register_fields_def set_field_def zero_request_def)
qed

subsection \<open>Blank bodies and the handler\<close>

lemma scan_step_error:
  "scan_step st stk c = ScanErr e \<Longrightarrow> \<exists>c' ctx. e = syntax_error c' ctx"
  by (cases st)
     (auto simp: stateBeginValue_def stateBeginString_def stateEndValue_def state0_def stateESign_def
        pushParseState_def complete_def split: if_splits list.splits parse_frame.splits)

lemma syntax_error_not_EOF: "syntax_error c ctx \<noteq> ''EOF''"
  by (simp add: syntax_error_def)

lemma scan_step_start:
  "scan_step st stk c = ScanMore SBeginValue [] \<Longrightarrow> st = SBeginValue \<and> stk = [] \<and> isSpace c"
  by (cases st)
     (auto simp: stateBeginValue_def stateBeginString_def stateEndValue_def state0_def stateESign_def
        pushParseState_def complete_def split: if_splits list.splits parse_frame.splits)

lemma scan_run_EOF:
  "scan_run st stk s = Inl ''EOF'' \<Longrightarrow> st = SBeginValue \<and> stk = [] \<and> list_all isSpace s"
proof (induction s arbitrary: st stk)
  case Nil
  then show ?case by (auto simp: scan_eof_def split: scan_result.splits if_splits)
next
  case (Cons c s)
  show ?case
  proof (cases "scan_step st stk c")
    case (ScanErr e)
    with Cons.prems have "e = ''EOF''" by simp
    with scan_step_error [OF ScanErr] show ?thesis by (metis syntax_error_not_EOF)
  next
    case (ScanDone v)
    with Cons.prems show ?thesis by simp
  next
    case (ScanMore st' stk')
    with Cons.prems Cons.IH [of st' stk'] scan_step_start [of st stk c] show ?thesis by auto
  qed
qed

lemma scan_run_spaces: "list_all isSpace s \<Longrightarrow> scan_run SBeginValue [] s = Inl ''EOF''"
  by (induction s) (auto simp: stateBeginValue_def scan_eof_def isSpace_def)

lemma field_type_error_not_EOF: "field_type_error f k \<noteq> ''EOF''"
  by (simp add: field_type_error_def)

lemma value_type_error_not_EOF: "value_type_error k \<noteq> ''EOF''"
  by (simp add: value_type_error_def)

lemma unmarshal_members_error:
  "snd (unmarshal_members ms (r, err)) = Some e \<Longrightarrow> err = Some e \<or> (\<exists>f k. e = field_type_error f k)"
proof (induction ms arbitrary: r err)
  case (Cons m ms)
  obtain k v where m: "m = (k, v)" by fastforce
  show ?case
    using Cons.prems Cons.IH unfolding m
    by (auto split: option.split_asm jval.split_asm if_splits)
qed simp
lemma unmarshal_register_not_EOF: "unmarshal_register v \<noteq> Inl ''EOF''"
proof
  assume u: "unmarshal_register v = Inl ''EOF''"
  show False
  proof (cases v)
    case (JVObj ms)
    with u obtain r where "unmarshal_members ms (zero_request, None) = (r, Some ''EOF'')"
      by (auto simp: unmarshal_register_def split: prod.split_asm option.split_asm)
    then have "\<exists>f k. ''EOF'' = field_type_error f k"
      using unmarshal_members_error [of ms zero_request None "''EOF''"] by auto
    then show False using field_type_error_not_EOF by metis
  qed (use u value_type_error_not_EOF in \<open>auto simp: unmarshal_register_def\<close>)
qed

text \<open>C19: \<open>decodeRegisterVideoRequest\<close> fails with \<open>io.EOF\<close> (the 500 reply
  \<open>{"error": "EOF"}\<close>) exactly when the body is empty or white space; every
  other body is decoded, or rejected with a syntax error, \<open>unexpected EOF\<close>
  or a type error.\<close>

theorem json_decode_register_EOF: "json_decode_register body = Inl ''EOF'' \<longleftrightarrow> list_all isSpace body"
  using scan_run_EOF [of SBeginValue "[]" body] scan_run_spaces [of body] unmarshal_register_not_EOF
  by (auto simp: json_decode_register_def decode_value_def split: sum.splits)

text \<open>C17: whatever request a Go client marshals with \<open>json.Marshal\<close>, with
  well-formed UTF-8 in its fields and whatever follows the object (the
  encoder's newline), \<open>POST /track-video\<close> hands exactly that request to the
  registration endpoint: the handler's JSON reader inverts the client's
  encoding.\<close>

theorem NewHTTPHandler_marshalled_request:
  assumes "utf8_valid (rq_Platform req)" and "utf8_valid (rq_VideoID req)"
    and "utf8_valid (rq_Username req)" and "utf8_valid (rq_Tag req)"
  shows "NewHTTPHandler (go_codec parse) (MakeEndpoints nt svc) clk
           \<lparr>hq_Method = ''POST'', hq_Path = ''/track-video'', hq_Query = q, hq_Body = marshal_register req @ rest\<rparr> st =
         map_prod encodeResponse id (makeRegisterVideoEndpoint nt svc (clk 0) req st)"
  using decode_marshal_register [OF assms, of rest]
  by (simp add: NewHTTPHandler_def MakeEndpoints_def decodeRegisterVideoRequest_def go_codec_def)

theorem NewHTTPHandler_marshalled_request_witness:
  "utf8_valid (rq_Platform abc_request) \<and> utf8_valid (rq_VideoID abc_request) \<and>
   utf8_valid (rq_Username abc_request) \<and> utf8_valid (rq_Tag abc_request) \<and>
   NewHTTPHandler (go_codec (\<lambda>s. Inl s)) (MakeEndpoints (yt_net ''100'' ''10'') demo_service) (\<lambda>_. 0)
     \<lparr>hq_Method = ''POST'', hq_Path = ''/track-video'', hq_Query = [],
      hq_Body = marshal_register abc_request @ [CHR 0x0A]\<rparr> empty_store =
   (\<lparr>hr_Status = 200, hr_ContentType = json_content_type, hr_Body = JSONBody (JObject [])\<rparr>,
    empty_store\<lparr>videos := [(new_video ''youtube'' ''abc123'' [] [])\<lparr>v_ID := ''1''\<rparr>], next_video_id := 2\<rparr>)"
  using NewHTTPHandler_marshalled_request [of abc_request "\<lambda>s. Inl s" "yt_net ''100'' ''10''" demo_service
          "\<lambda>_. 0" "[]" "[CHR 0x0A]" empty_store]
  by (simp add: abc_request_def register_eval_defs makeRegisterVideoEndpoint_def encodeResponse_def
      response_json_def omitempty_def)

theorem json_decode_register_EOF_witness:
  "json_decode_register [CHR '' '', CHR 0x0A] = Inl ''EOF'' \<and> json_decode_register ''{'' \<noteq> Inl ''EOF''"
  using json_decode_register_EOF [of "[CHR '' '', CHR 0x0A]"] json_decode_register_EOF [of "''{''"]
  by (simp add: isSpace_def)

text \<open>C24: keys are matched without regard to case and unknown keys are
  ignored: a body with \<open>"Platform"\<close> and the misspelt key \<open>"videoId"\<close> is
  accepted, and a YouTube video with the empty external id is registered.\<close>

theorem scenario_register_misspelt_key:
  "NewHTTPHandler (go_codec (\<lambda>s. Inl s)) (MakeEndpoints (yt_net ''100'' ''10'') demo_service) (\<lambda>_. 0)
     \<lparr>hq_Method = ''POST'', hq_Path = ''/track-video'', hq_Query = [],
      hq_Body = ''{'' @ json_member ''Platform'' ''youtube'' @ '','' @ json_member ''videoId'' ''abc123'' @ ''}''\<rparr>
     empty_store =
   (\<lparr>hr_Status = 200, hr_ContentType = json_content_type, hr_Body = JSONBody (JObject [])\<rparr>,
    empty_store\<lparr>videos := [(new_video ''youtube'' [] [] [])\<lparr>v_ID := ''1''\<rparr>], next_video_id := 2\<rparr>)"
proof -
  have k: "utf8_valid ''Platform''" "utf8_valid ''youtube''" "utf8_valid ''videoId''" "utf8_valid ''abc123''"
    by simp_all
  have d: "json_decode_register (''{'' @ json_member ''Platform'' ''youtube'' @ '','' @ json_member ''videoId'' ''abc123'' @ ''}'') =
           Inr \<lparr>rq_Platform = ''youtube'', rq_VideoID = [], rq_Username = [], rq_Tag = []\<rparr>"
    using scan_member [OF _ k(1) k(2), of SBeginStringOrEmpty "[]" "[]"]
          scan_member [OF _ k(3) k(4), of SBeginString "[(''Platform'', JVStr ''youtube'')]" "[]"]
    by (simp add: json_decode_register_def decode_value_def stateBeginValue_def pushParseState_def
        maxNestingDepth_def isSpace_def stateEndValue_def complete_def unmarshal_register_def
        match_field_def register_fields_def set_field_def zero_request_def ascii_upper_def)
  show ?thesis
    using d by (simp add: NewHTTPHandler_def MakeEndpoints_def decodeRegisterVideoRequest_def go_codec_def
        register_eval_defs makeRegisterVideoEndpoint_def encodeResponse_def response_json_def omitempty_def)
qed

subsection \<open>Truncated bodies\<close>

lemma scan_through_append:
  "scan_through st stk (xs @ ys) =
   (case scan_through st stk xs of None \<Rightarrow> None | Some (st', stk') \<Rightarrow> scan_through st' stk' ys)"
  by (induction xs arbitrary: st stk) (auto split: scan_result.split)

lemma scan_through_run:
  "scan_through st stk xs = Some (st', stk') \<Longrightarrow> scan_run st stk (xs @ ys) = scan_run st' stk' ys"
  by (induction xs arbitrary: st stk) (auto split: scan_result.split_asm if_splits)

lemma scan_eof_open: "stk \<noteq> [] \<Longrightarrow> scan_eof st stk = Inl ''unexpected EOF''"
  by (cases st)
     (auto simp: scan_eof_def stateBeginValue_def stateBeginString_def stateEndValue_def state0_def
        stateESign_def complete_def isSpace_def split: list.splits parse_frame.splits scan_result.splits)

lemma scan_through_prefix:
  "scan_through st stk xs = Some r \<Longrightarrow> 0 < n \<Longrightarrow> n \<le> length xs \<Longrightarrow>
   scan_run st stk (take n xs) = Inl ''unexpected EOF''"
proof (induction xs arbitrary: st stk n)
  case (Cons c cs)
  obtain m where n: "n = Suc m" using Cons.prems(2) by (cases n) auto
  obtain st' stk' where s: "scan_step st stk c = ScanMore st' stk'" "stk' \<noteq> []"
    "scan_through st' stk' cs = Some r"
    using Cons.prems(1) by (auto split: scan_result.split_asm if_splits)
  show ?case
  proof (cases m)
    case 0
    with n s show ?thesis by (simp add: scan_eof_open)
  next
    case (Suc k)
    with n s Cons.IH [OF s(3), of m] Cons.prems(3) show ?thesis by simp
  qed
qed simp

lemma scan_through_quote_byte:
  assumes "stk \<noteq> []"
  shows "scan_through (SInString raw) stk (quote_byte c) = Some (SInString (raw @ quote_byte c), stk)"
proof -
  define n where "n = (of_char c :: nat)"
  have u: "scan_through (SInString raw) stk ([BS, CHR ''u'', CHR ''0'', CHR ''0''] @ hex2 n) =
           Some (SInString (raw @ [BS, CHR ''u'', CHR ''0'', CHR ''0''] @ hex2 n), stk)" if "n < 256"
  proof -
    have "n div 16 < 16" "n mod 16 < 16" using that by auto
    then show ?thesis
      using hex_lower_props assms by (simp add: hex2_def is_hex_def is_digit_def)
  qed
  have lt: "n < 256" unfolding n_def by simp
  show ?thesis
    using u [OF lt] assms unfolding quote_byte_def Let_def n_def [symmetric]
    by (auto simp: n_def)
qed

lemma scan_through_quoted:
  "stk \<noteq> [] \<Longrightarrow> scan_through (SInString raw) stk (concat (map quote_byte s)) =
     Some (SInString (raw @ concat (map quote_byte s)), stk)"
  by (induction s arbitrary: raw) (simp_all add: scan_through_append scan_through_quote_byte)

lemma scan_through_member:
  assumes "st = SBeginString \<or> st = SBeginStringOrEmpty" and "utf8_valid k" and "utf8_valid v"
  shows "scan_through st (PObjectKey ms # stk) (json_member k v) =
         Some (SEndValue (JVStr v), PObjectValue ms k # stk)"
proof -
  have s: "scan_step st (PObjectKey ms # stk) DQ = ScanMore (SInString []) (PObjectKey ms # stk)"
    using assms(1) by (auto simp: stateBeginString_def isSpace_def)
  show ?thesis
    unfolding json_member_def json_quote_def
    by (simp add: s assms scan_through_append scan_through_quoted unquote_quote complete_def
        stateBeginValue_def stateEndValue_def isSpace_def)
qed

lemma marshal_register_open:
  assumes "utf8_valid (rq_Platform req)" and "utf8_valid (rq_VideoID req)"
    and "utf8_valid (rq_Username req)" and "utf8_valid (rq_Tag req)"
  shows "\<exists>xs r. marshal_register req = xs @ ''}'' \<and> scan_through SBeginValue [] xs = Some r"
proof -
  have k: "utf8_valid ''platform''" "utf8_valid ''video_id''" "utf8_valid ''username''" "utf8_valid ''tag''"
    by simp_all
  note m = scan_through_member [OF _ k(1)] scan_through_member [OF _ k(2)]
           scan_through_member [OF _ k(3)] scan_through_member [OF _ k(4)]
  let ?xs = "''{'' @ json_member ''platform'' (rq_Platform req) @ '','' @ json_member ''video_id'' (rq_VideoID req) @
     (if rq_Username req = [] then [] else '','' @ json_member ''username'' (rq_Username req)) @
     (if rq_Tag req = [] then [] else '','' @ json_member ''tag'' (rq_Tag req))"
  have "scan_through SBeginValue [] ?xs \<noteq> None"
    using assms m [of _ "rq_Platform req"] m [of _ "rq_VideoID req"] m [of _ "rq_Username req"] m [of _ "rq_Tag req"]
    by (simp add: scan_through_append stateBeginValue_def pushParseState_def maxNestingDepth_def isSpace_def
        stateEndValue_def)
  then show ?thesis by (auto simp: marshal_register_def)
qed

text \<open>C18: a request body cut off anywhere after its first byte (a client
  disconnecting, a proxy truncating) is rejected with \<open>unexpected EOF\<close>, never
  decoded to a partial request: the object is complete only at its closing
  brace.\<close>

theorem truncated_request_unexpected_EOF:
  assumes "utf8_valid (rq_Platform req)" and "utf8_valid (rq_VideoID req)"
    and "utf8_valid (rq_Username req)" and "utf8_valid (rq_Tag req)"
    and "0 < n" and "n < length (marshal_register req)"
  shows "json_decode_register (take n (marshal_register req)) = Inl ''unexpected EOF''"
proof -
  obtain xs r where m: "marshal_register req = xs @ ''}''" and s: "scan_through SBeginValue [] xs = Some r"
    using marshal_register_open [OF assms(1-4)] by blast
  have "n \<le> length xs" using assms(6) m by simp
  then have "take n (marshal_register req) = take n xs" using m by simp
  then show ?thesis
    using scan_through_prefix [OF s assms(5) \<open>n \<le> length xs\<close>]
    by (simp add: json_decode_register_def decode_value_def)
qed

theorem truncated_request_unexpected_EOF_witness:
  "utf8_valid (rq_Platform abc_request) \<and> utf8_valid (rq_VideoID abc_request) \<and>
   utf8_valid (rq_Username abc_request) \<and> utf8_valid (rq_Tag abc_request) \<and>
   0 < (14::nat) \<and> 14 < length (marshal_register abc_request) \<and>
   json_decode_register (take 14 (marshal_register abc_request)) = Inl ''unexpected EOF''"
  using truncated_request_unexpected_EOF [of abc_request 14]
  by (simp add: abc_request_def marshal_register_def json_member_def json_quote_def quote_byte_def)

end
