(* ===== verification/Spec2Isabelle.thy ===== *)
theory Spec2Isabelle
  imports Runs Migration Interfaces Lifecycle JsonReader
begin

text \<open>
  \<^bold>\<open>A verification development of the video statistics tracker.\<close>

  The program (Go, under \<open>src/\<close>) tracks YouTube videos and Instagram posts:
  an HTTP endpoint registers a video, a cron worker polls the platforms for
  views, likes and comments and stores time-stamped snapshots in SQLite, and a
  second cron job maintains a set of ``viral'' videos. Its parts and how they
  interact:
  \<^item> the data model (\<open>repository/models.go\<close>) and the SQLite repository
    (\<open>repository/database.go\<close>), which owns the two tables and migrates the
    schema at start-up;
  \<^item> the two platform clients (\<open>platform/youtube.go\<close>,
    \<open>platform/instagram.go\<close>), which turn an HTTP response into a snapshot or
    an error;
  \<^item> the service (\<open>service/service.go\<close>): \<open>RegisterVideo\<close> (the
    registration gate) and \<open>UpdateVideoStats\<close> (one fetch-and-persist of a
    video, the ingestion coordinator), calling the clients and writing the
    repository;
  \<^item> the go-kit endpoints (\<open>endpoint/endpoints.go\<close>) and the HTTP handler
    (\<open>transport/http/handlers.go\<close>), through which requests reach the
    service;
  \<^item> the poller (\<open>worker/poller.go\<close>): the baseline sweep \<open>pollAllVideos\<close>
    over all registered videos, which calls \<open>UpdateVideoStats\<close> and flags
    every success in the map \<open>viralVideos\<close>, and the hot sweep
    \<open>pollViralVideos\<close>, which expires entries older than 24 hours; the two run
    on independent cron schedules (\<open>Start\<close>) and share the map;
  \<^item> \<open>cmd/server/main.go\<close> wires these together, starts the poller and
    the HTTP server, and on \<open>SIGINT\<close>/\<open>SIGTERM\<close> shuts the server down
    under a 30-second deadline before its deferred \<open>poller.Stop\<close>.

  \<^bold>\<open>Theories.\<close>
  \<^item> \<open>Prelude\<close>: the model's types (\<open>time\<close> as nanoseconds in \<open>int\<close>,
    \<open>go_int\<close> as \<open>64 word\<close>, an \<open>error\<close> as its \<open>Error()\<close> text, results
    as \<open>error + 'a\<close>), \<open>fmt.Sprintf("%d")\<close> as \<open>dec_string\<close> with its
    injectivity, and shared list lemmas.
  \<^item> \<open>Models\<close>: \<open>Video\<close> and \<open>VideoStats\<close> as the records \<open>video\<close> and
    \<open>video_stats\<close>; ids, platforms and states are strings, as in the code.
  \<^item> \<open>Repository\<close>: the tables as the record \<open>store\<close> (rows in row-id order
    and the \<open>AUTOINCREMENT\<close> counters); \<open>CreateVideo\<close> (with the
    \<open>UNIQUE\<close> constraint), \<open>GetVideo\<close>, \<open>GetVideoWithUsername\<close>,
    \<open>GetAllVideos\<close>, \<open>UpdateVideoState\<close>, \<open>CreateVideoStats\<close>,
    \<open>GetVideoStats\<close> (inclusive \<open>BETWEEN\<close>, \<open>ORDER BY timestamp\<close> as a
    stable sort: SQLite leaves the order of equal timestamps unspecified,
    and the model picks row-id order),
    \<open>GetLatestStats\<close> and the helper \<open>contains\<close>. Lemmas: the
    well-formedness invariant \<open>wf_store\<close> and its preservation, the query's
    order, content and sub-range behaviour, the aliasing of
    \<open>UpdateVideoState\<close>, and \<open>contains\<close> equals the library's \<open>sublist\<close>.
  \<^item> \<open>Migration\<close>: the columns of \<open>video_stats\<close> as state,
    \<open>createTables\<close>, the \<open>ALTER TABLE\<close> loop of \<open>migrateDatabase\<close> and its
    warning filter. Lemmas: for any rendering of the driver's errors, the loop
    runs every statement, adds exactly the missing columns in order and
    prints the failures whose text lacks the phrase it looks for; with a
    driver that keeps SQLite's message it prints nothing.
  \<^item> \<open>Platform\<close>: the network and the JSON decoders are the interface record
    \<open>net\<close> (the code's external collaborators); the clients'
    \<open>GetVideoStats\<close>, \<open>getAllUserMedia\<close>, \<open>GetMediaDetails\<close>,
    \<open>toNullString\<close> and the engagement sum are definitions over it, and
    \<open>strconv.Atoi\<close> is modelled after Go's \<open>ParseInt\<close> loop (early range
    error, clamping). Lemmas: \<open>Atoi\<close> bounds and its decimal round trip, the
    engagement sum below \<open>2^63\<close> and its exact wrap-around from \<open>2^63\<close> on,
    and the error results.
  \<^item> \<open>Service\<close>: \<open>RegisterVideo\<close> and \<open>UpdateVideoStats\<close> (split into the
    platform switch and \<open>record_fetch\<close>, the code after it), with an
    abstract \<open>Register_spec\<close> in the order of the spec. Lemmas: every branch
    of an ingestion (no snapshot on error, state changes only on the two
    recognised messages, one snapshot on success), the not-found behaviour of
    both platforms, the duplicate round trip of registration, and its
    refinement of \<open>Register_spec\<close> under \<open>svc_inv\<close>.
  \<^item> \<open>Transport\<close>: the request and response structs, both endpoints, the
    \<open>Endpoints\<close> struct and \<open>MakeEndpoints\<close>, the JSON shape of the
    responses (\<open>omitempty\<close>, \<open>sql.NullString\<close>), the decoders with their
    defaults, the router and \<open>NewHTTPHandler\<close>, which is built from an
    \<open>endpoints\<close> record as in the code. The JSON reader and \<open>time.Parse\<close>
    are the interface record \<open>codec\<close>. Lemmas: the status and body of every
    route and error path, the default stats window, the empty result, and
    that a request writes the store only through a registration.
  \<^item> \<open>JsonScan\<close> and \<open>JsonReader\<close>: the implementation of the codec's
    JSON reader, \<open>json.NewDecoder(r.Body).Decode(&req)\<close> of
    \<open>decodeRegisterVideoRequest\<close>. \<open>JsonScan\<close> models \<open>encoding/json\<close>'s
    scanner (a state per \<open>scanner.go\<close> step function, the parse stack with
    its 10000-level limit, the \<open>SyntaxError\<close> texts, \<open>io.EOF\<close> and
    \<open>io.ErrUnexpectedEOF\<close>, only the first value read) and the unquoting of
    strings (escapes, surrogate pairs, UTF-8 repair after
    \<open>utf8.DecodeRune\<close>); \<open>JsonReader\<close> unmarshals the value into
    \<open>RegisterVideoRequest\<close> (tags, then Go's case folding; \<open>null\<close> kept;
    the first \<open>UnmarshalTypeError\<close>), defines \<open>go_codec\<close> and
    \<open>marshal_register\<close>, the body \<open>json.Marshal\<close> writes for a request.
    Lemmas: unquoting inverts the client's escaping on well-formed UTF-8;
    every marshalled request is decoded to itself and reaches the endpoint
    unchanged; the reader fails with \<open>EOF\<close> exactly on a blank body and
    with \<open>unexpected EOF\<close> on every cut-off marshalled request; a misspelt
    key is ignored. These two theories model library code that the
    repository calls; they are not mapped to lines of \<open>src/\<close>, only the
    definitions for the code's own struct and call are.
  \<^item> \<open>Poller\<close>: the hot set as a map, \<open>checkViralCondition\<close>, the loop of
    \<open>pollAllVideos\<close> (\<open>pollLoop\<close>, one \<open>poll_one\<close> per video, the clock
    read at iteration \<open>i\<close> is \<open>clk i\<close>) and of \<open>pollViralVideos\<close>
    (\<open>expireLoop\<close> over any enumeration of the keys, as Go's map order is
    unspecified, each iteration reading the clock anew). Lemmas: the
    \<open>j\<close>-th key is removed exactly when older than the window at the
    \<open>j\<close>-th reading (the spec's \<open>expire_spec\<close>), and a failure of one
    video does not keep another from its snapshot and flag. The two sweeps
    share the map without a lock; their concurrent execution, which Go's
    runtime aborts, is not modelled.
  \<^item> \<open>Interfaces\<close>: the Go interfaces \<open>Repository\<close> and \<open>Service\<close> as
    datatypes of method calls (\<open>repo_op\<close>, \<open>svc_op\<close>) with step functions
    dispatching to the implementations. Lemmas: every repository call keeps
    \<open>wf_store\<close>; every service call changes the store as at most one
    repository write does.
  \<^item> \<open>Engine\<close>: \<open>main\<close>'s configuration (\<open>getEnv\<close>, \<open>load_config\<close>) and
    the server as the inductive relation \<open>engine_step\<close> whose steps are an
    HTTP request through \<open>NewHTTPHandler\<close>, the two halves of a
    registration (\<open>register_checks\<close>, the lookups and validation of
    \<open>RegisterVideo\<close>, and the later \<open>CreateVideo\<close>), the start of a baseline sweep
    (its \<open>GetAllVideos\<close> read), one iteration of a sweep in progress, the end
    of a sweep, one iteration of a hot sweep and a clock tick, so that every
    interleaving of requests and cron jobs, overlapping sweeps included, is a
    run; \<open>reachable\<close> states start from a fresh database. The grain of the
    steps is coarser than the code's: one sweep iteration (platform call,
    \<open>time.Now()\<close> and \<open>INSERT\<close>) and each map operation are one step, and
    the clock never goes back. The invariant
    \<open>engine_inv\<close> holds in every reachable state (rule induction); its
    consequences are stated for the running server (well-formed and
    well-typed rows, snapshots and hot-set entries that name tracked videos
    and are no later than the clock, the refinement of the registration
    spec), and the spec's Instagram registration scenario is evaluated on
    test doubles of the platforms.
  \<^item> \<open>Runs\<close>: runs of the engine. Lemmas: a sweep run without
    interference computes \<open>pollAllVideos\<close>, which gives a reachable state
    holding a snapshot and a hot-set entry (\<open>swept_engine\<close>); the
    spec's register-and-poll scenario observed through \<open>GET /stats\<close>
    (\<open>stats_query\<close>) after engine runs; and two registrations of one video
    interleaved between check and insert end in the \<open>UNIQUE\<close> error.
  \<^item> \<open>Lifecycle\<close>: the process around the engine, \<open>main\<close> of
    \<open>main.go\<close> with \<open>Poller.Start\<close>/\<open>Stop\<close>: the record \<open>main_state\<close>
    (engine, phase of \<open>main\<close>, whether the cron runs, the log), the
    \<open>http.Server\<close> settings, \<open>main_start\<close> (a repository failure is
    \<open>log.Fatalf\<close>), \<open>main_handle\<close> for the outside events (a signal, the
    return of \<open>ListenAndServe\<close>, the return of \<open>Shutdown\<close> given the time
    the in-flight handlers need) with \<open>log.Fatalf\<close> as an exit that skips
    the deferred calls, and \<open>main_step\<close>, in which the engine steps while
    the process lives. Lemmas: the invariant \<open>main_inv\<close> (the engine's,
    the cron runs while the process lives and is stopped after a clean exit)
    holds in every reachable state (\<open>main_reachable_cron\<close>); an exited process takes no step; a live
    one can always exit cleanly; the outcome of a shutdown on either side of
    the grace period; a sweep can start after the shutdown signal.

  \<^bold>\<open>Bounds and loops.\<close> Every loop of the program is structural over a
  finite list (the sweep's video list, the map's key list, the digits of a
  count, the migration's statements, the bytes of a request body), so every
  definition is total and executable without fuel; the recursion of
  \<open>contains\<close> terminates by the measure \<open>length s\<close>; \<open>unquote\<close> and
  \<open>utf8_valid\<close> consume at least one byte per call (measure \<open>length\<close>). The
  JSON scanner's parse stack is bounded by \<open>maxNestingDepth = 10000\<close>, as in
  Go. Go's \<open>int\<close> is 64 bits: counts are \<open>64 word\<close>, and
  the engagement sum wraps exactly when the code's does. The retention window
  is \<open>24 * 60 * 60 * 10^9\<close> nanoseconds, as \<open>24*time.Hour\<close>; the default
  stats window is seven days of nanoseconds, which is \<open>AddDate(0, 0, -7)\<close>
  on a server running in UTC.

  \<^bold>\<open>Not modelled.\<close> The literal default credentials of
  \<open>main.go\<close>, which are the parameter \<open>dflt\<close> of \<open>load_config\<close>; the JSON
  printer and \<open>time.Parse\<close> (library code: a response is its JSON value,
  the time parser a parameter of the codec); in the JSON reader, numbers are
  kept as text (a number is always a type error here) and the case folding
  of runes outside ASCII other than U+017F and U+212A, which cannot make a
  key match an ASCII tag; the logging error handler of go-kit; the imports
  and the commented-out first Instagram client of \<open>instagram.go\<close>. The database driver's I/O faults (the
  model's store fails only where the code or the schema makes it fail),
  logging other than \<open>main\<close>'s, and the cron timer itself (its effect,
  independent interleaved sweeps, is the step relation; the intervals
  \<open>@every 2m\<close> and \<open>@every 1m\<close> are abstracted away). The time that
  \<open>Shutdown\<close> waits is abstracted to the list of times the in-flight
  handlers still need.

  \<^bold>\<open>What the development shows about the code.\<close> The service marks a
  video as \<open>error\<close> only when the error text is exactly
  \<open>"video not found"\<close> or \<open>"instagram post not found or inaccessible"\<close>,
  but the clients report \<open>"video not found: <id>"\<close> and
  \<open>"instagram post not found: <id> for user <u>"\<close>: a missing video is
  never marked and is fetched on every sweep forever. The YouTube client does
  not check the HTTP status, so an API error response is reported as ``not
  found''. \<open>UpdateVideoState\<close> is keyed by the external id alone. The
  duplicate check ignores the state, so a video in state \<open>error\<close> can never
  be registered again. Every successfully polled video is flagged viral. The
  engagement sum can wrap to a negative view count. A registration answers
  \<open>{}\<close> without the new video's id, user errors in a request are answered
  with status 500, and a request without \<open>video_id\<close> registers the empty id.
  Nothing keeps two baseline sweeps from overlapping, the two cron jobs
  read and write the map \<open>viralVideos\<close> from different goroutines without
  a lock (a fatal runtime error when they meet), no code path archives a
  video, and \<open>main\<close> falls back to credentials compiled into the source.
  \<open>RegisterVideo\<close> checks for a duplicate and inserts later without a
  transaction, so two concurrent registrations of one video can both pass
  the check and the second fails with the database's \<open>UNIQUE\<close> error
  instead of \<open>"video already being tracked"\<close>. The poller is stopped only
  when \<open>main\<close> returns, so sweeps still start during the shutdown grace,
  and on the fatal paths \<open>log.Fatalf\<close> skips the deferred
  \<open>poller.Stop\<close> altogether.
  The registration body is read with \<open>encoding/json\<close>'s defaults: keys match
  case-insensitively, unknown keys are skipped, so a misspelt
  \<open>"videoId"\<close> registers the empty id, and an empty body is answered 500
  with \<open>{"error": "EOF"}\<close>.

  \<^bold>\<open>Plan for the remaining work.\<close> The printing of the responses as
  JSON text (the model stops at the JSON value) and \<open>time.Parse\<close> for
  RFC 3339 timestamps, both library code.
\<close>

end
